theory Spec2Isabelle
  imports Complex_Main "HOL-Library.Multiset" "HOL-Library.Char_ord" "HOL-Library.List_Lexorder"
begin

section \<open>JavaScript values\<close>

text \<open>
  A JavaScript number is a finite value, one of the two infinities, or \<open>NaN\<close>. The finite
  values are taken as exact rationals: the only arithmetic of the modelled code is the
  difference \<open>now - updated_at\<close>, and its rounding is not modelled.
\<close>

datatype number = Finite rat | PosInf | NegInf | NaN

text \<open>
  The values that flow through the cache layer. A property that is absent from an object
  reads as \<open>JUndefined\<close>.
\<close>

datatype json =
    JUndefined
  | JNull
  | JBool bool
  | JNum number
  | JStr string
  | JArr "json list"
  | JObj "(string \<times> json) list"

abbreviation JFinite :: "rat \<Rightarrow> json" where
  "JFinite r \<equiv> JNum (Finite r)"

text \<open>Truthiness, as used by \<open>!x\<close>, \<open>x || y\<close> and \<open>if (x)\<close>.\<close>

fun truthy :: "json \<Rightarrow> bool" where
  "truthy JUndefined = False"
| "truthy JNull = False"
| "truthy (JBool b) = b"
| "truthy (JNum n) = (n \<noteq> Finite 0 \<and> n \<noteq> NaN)"
| "truthy (JStr s) = (s \<noteq> [])"
| "truthy (JArr xs) = True"
| "truthy (JObj kvs) = True"

text \<open>\<open>a || b\<close> and \<open>a ?? b\<close> on values.\<close>

definition js_or :: "json \<Rightarrow> json \<Rightarrow> json" where
  "js_or a b = (if truthy a then a else b)"

fun nullish :: "json \<Rightarrow> json \<Rightarrow> json" where
  "nullish JUndefined b = b"
| "nullish JNull b = b"
| "nullish a b = a"

text \<open>\<open>typeof x === "number"\<close>: true of every number, the infinities and \<open>NaN\<close> included.\<close>

fun is_number :: "json \<Rightarrow> bool" where
  "is_number (JNum n) = True"
| "is_number v = False"

text \<open>A number that is finite: \<open>typeof x === "number"\<close> holds and \<open>x\<close> is neither an infinity nor \<open>NaN\<close>.\<close>

fun is_finite_number :: "json \<Rightarrow> bool" where
  "is_finite_number (JNum (Finite r)) = True"
| "is_finite_number v = False"

text \<open>
  \<open>Number(x)\<close>. The conversion of strings (and of arrays and objects, which JavaScript first
  turns into strings) is the language's \<open>StringToNumber\<close>; it is the parameter \<open>S\<close> of the
  model, so every statement below holds for any such conversion.
\<close>

fun Number_js :: "(json \<Rightarrow> number) \<Rightarrow> json \<Rightarrow> number" where
  "Number_js S JUndefined = NaN"
| "Number_js S JNull = Finite 0"
| "Number_js S (JBool b) = Finite (if b then 1 else 0)"
| "Number_js S (JNum n) = n"
| "Number_js S v = S v"

text \<open>\<open>Number(a) === Number(b)\<close>: \<open>NaN\<close> is equal to nothing, itself included.\<close>

definition num_eq :: "(json \<Rightarrow> number) \<Rightarrow> json \<Rightarrow> json \<Rightarrow> bool" where
  "num_eq S a b = (Number_js S a = Number_js S b \<and> Number_js S a \<noteq> NaN)"

text \<open>\<open>a - b\<close> on numbers, and the comparisons \<open>x > c\<close>, \<open>x <= c\<close> with a finite \<open>c\<close>.\<close>

fun minus_number :: "number \<Rightarrow> number \<Rightarrow> number" where
  "minus_number (Finite a) (Finite b) = Finite (a - b)"
| "minus_number (Finite a) PosInf = NegInf"
| "minus_number (Finite a) NegInf = PosInf"
| "minus_number PosInf (Finite b) = PosInf"
| "minus_number PosInf NegInf = PosInf"
| "minus_number NegInf (Finite b) = NegInf"
| "minus_number NegInf PosInf = NegInf"
| "minus_number a b = NaN"

definition js_minus :: "(json \<Rightarrow> number) \<Rightarrow> json \<Rightarrow> json \<Rightarrow> number" where
  "js_minus S a b = minus_number (Number_js S a) (Number_js S b)"

fun js_gt :: "number \<Rightarrow> rat \<Rightarrow> bool" where
  "js_gt (Finite r) c = (r > c)"
| "js_gt PosInf c = True"
| "js_gt NegInf c = False"
| "js_gt NaN c = False"

fun js_le :: "number \<Rightarrow> rat \<Rightarrow> bool" where
  "js_le (Finite r) c = (r \<le> c)"
| "js_le PosInf c = False"
| "js_le NegInf c = True"
| "js_le NaN c = False"

text \<open>
  The value that \<open>JSON.parse(JSON.stringify(v))\<close> returns. \<open>JSON.stringify\<close> writes \<open>null\<close> for
  a number that is not finite and for an array element that is \<open>undefined\<close>, and leaves out a
  property whose value is \<open>undefined\<close>; every other value is written so that it reads back as
  it was. A property of an object that is left out reads as \<open>JUndefined\<close>, which is why
  \<open>reparse JUndefined\<close> is \<open>JUndefined\<close>.
\<close>

fun reparse :: "json \<Rightarrow> json" where
  "reparse (JNum n) = (case n of Finite r \<Rightarrow> JNum (Finite r) | _ \<Rightarrow> JNull)"
| "reparse (JArr xs) = JArr (map (\<lambda>x. if x = JUndefined then JNull else reparse x) xs)"
| "reparse (JObj kvs) =
     JObj (map (\<lambda>(k, v). (k, reparse v)) (filter (\<lambda>(k, v). v \<noteq> JUndefined) kvs))"
| "reparse v = v"

text \<open>
  An id keeps its number in the store when \<open>Number\<close> gives the same result for the id and for
  the value that is read back for it. Every finite number does, and every string, \<open>null\<close> and
  boolean; the numbers \<open>Infinity\<close>, \<open>-Infinity\<close> and \<open>NaN\<close>, which are stored as \<open>null\<close> and
  read back by \<open>Number\<close> as 0, do not.
\<close>

definition keeps_number :: "(json \<Rightarrow> number) \<Rightarrow> json \<Rightarrow> bool" where
  "keeps_number S v = (Number_js S (reparse v) = Number_js S v)"

text \<open>
  Two instances of parameters, used in the concrete examples only. \<open>String_int\<close> writes an
  integer in decimal digits, as a template literal \<open>`${n}`\<close> renders an integer below
  \<open>10^21\<close> in magnitude. \<open>decimal_ids\<close> reads a string of decimal digits with an optional
  minus sign as that number, the empty string as 0, and gives \<open>NaN\<close> otherwise; this is what
  \<open>Number\<close> gives for the strings of the examples (digit strings and the word \<open>tba\<close>).
\<close>

fun digits :: "nat \<Rightarrow> string" where
  "digits n = (if n < 10 then [''0123456789'' ! n] else digits (n div 10) @ [''0123456789'' ! (n mod 10)])"

declare digits.simps [simp del]

definition String_int :: "int \<Rightarrow> string" where
  "String_int i = (if i < 0 then CHR ''-'' # digits (nat (- i)) else digits (nat i))"

definition is_digit :: "char \<Rightarrow> bool" where
  "is_digit c = (48 \<le> (of_char c :: nat) \<and> (of_char c :: nat) \<le> 57)"

definition digits_value :: "string \<Rightarrow> nat" where
  "digits_value s = foldl (\<lambda>acc c. 10 * acc + ((of_char c :: nat) - 48)) 0 s"

definition decimal_of_string :: "string \<Rightarrow> number" where
  "decimal_of_string s =
     (case s of
        [] \<Rightarrow> Finite 0
      | c # cs \<Rightarrow>
          (if c = CHR ''-'' \<and> cs \<noteq> [] \<and> list_all is_digit cs then Finite (- of_nat (digits_value cs))
           else if list_all is_digit s then Finite (of_nat (digits_value s))
           else NaN))"

fun decimal_ids :: "json \<Rightarrow> number" where
  "decimal_ids (JStr s) = decimal_of_string s"
| "decimal_ids v = NaN"

section \<open>The key-value backend and the cache helpers\<close>

text \<open>
  What the backend holds under a key: nothing, a text that does not decode, or a text that
  \<open>cacheSet\<close> wrote, which is \<open>JSON.stringify(v)\<close> for a value \<open>v\<close> of the table's shape (a
  row object, or an array of such objects); the latter is \<open>Stringified v\<close>. The store has no
  other writer. \<open>down\<close> says that the backend is unreachable, in which case \<open>client.get\<close> and
  \<open>client.set\<close> reject. Expiry times are not modelled, and requests are taken one at a time.
\<close>

datatype 'a cell = Absent | Garbled | Stringified 'a

record 'a backend =
  down :: bool
  cells :: "string \<Rightarrow> 'a cell"

datatype exn = BackendError

text \<open>
  \<open>cacheGet\<close>: \<open>None\<close> is \<open>null\<close>. What \<open>JSON.parse\<close> returns for the text
  \<open>JSON.stringify(v)\<close> is \<open>decode v\<close>, where \<open>decode\<close> is \<open>reparse\<close> at the type of the table:
  \<open>reparse\<close> itself on plain values, and on rows and arrays of rows the functions named
  \<open>reparse_movie_row\<close>, \<open>reparse_series_row\<close>, \<open>reparse_season\<close>, \<open>reparse_episode\<close> below.
\<close>

definition cacheGet :: "('a \<Rightarrow> 'a) \<Rightarrow> 'a backend \<Rightarrow> string \<Rightarrow> exn + 'a option" where
  "cacheGet decode env key =
     (if down env then Inl BackendError
      else (case cells env key of
              Absent \<Rightarrow> Inr None
            | Garbled \<Rightarrow> Inr None
            | Stringified v \<Rightarrow> Inr (Some (decode v))))"

text \<open>\<open>cacheSet\<close>: the text written is \<open>JSON.stringify(valueObj)\<close>.\<close>

definition cacheSet :: "'a backend \<Rightarrow> string \<Rightarrow> 'a \<Rightarrow> exn + 'a backend" where
  "cacheSet env key valueObj =
     (if down env then Inl BackendError
      else Inr (env\<lparr>cells := (cells env)(key := Stringified valueObj)\<rparr>))"

definition CACHE_INTERVAL_SECONDS :: rat where
  "CACHE_INTERVAL_SECONDS = 30 * 24 * 60 * 60"

section \<open>Scalar records: movies and series\<close>

text \<open>
  The row stored for a movie, with the property names of the source (prefixed \<open>m_\<close>).
\<close>

record movie_row =
  m_tmdb_id :: json
  m_title :: json
  m_overview :: json
  m_release_date :: json
  m_poster_path :: json
  m_genres :: json
  m_rating :: json
  m_rating_count :: json
  m_director_name :: json
  m_cast_names :: json
  m_cast_profile_paths :: json
  m_updated_at :: json

definition reparse_movie_row :: "movie_row \<Rightarrow> movie_row" where
  "reparse_movie_row r =
     \<lparr> m_tmdb_id = reparse (m_tmdb_id r), m_title = reparse (m_title r),
       m_overview = reparse (m_overview r), m_release_date = reparse (m_release_date r),
       m_poster_path = reparse (m_poster_path r), m_genres = reparse (m_genres r),
       m_rating = reparse (m_rating r), m_rating_count = reparse (m_rating_count r),
       m_director_name = reparse (m_director_name r), m_cast_names = reparse (m_cast_names r),
       m_cast_profile_paths = reparse (m_cast_profile_paths r),
       m_updated_at = reparse (m_updated_at r) \<rparr>"

text \<open>
  The branches of \<open>makeBinder.run\<close> and \<open>makeBinder.first\<close> for the two movie tables. The
  source selects a branch by searching the statement text for the table's name; each branch is
  a function here, with the bound parameters in the order of the statement. Every branch sits
  in a \<open>try\<close> whose \<open>catch\<close> returns without a result, so an exception leaves the store as
  it was (\<open>run\<close>) or yields \<open>null\<close> (\<open>first\<close>). The language is the string that
  \<open>normalizeLanguage\<close> returns, so \<open>language || ""\<close> is the language itself; a stored row is an
  object, so \<open>v || null\<close> is \<open>v\<close>, and \<open>None\<close> is \<open>null\<close>. The ids that are written into
  keys are the integers the routes work with; \<open>`${id}`\<close> is the language's conversion of a
  number to a string, the parameter \<open>T\<close> of the model.
\<close>

definition run_movies_by_channel ::
  "movie_row backend \<Rightarrow> string \<Rightarrow> string \<Rightarrow> json \<Rightarrow> json \<Rightarrow> json \<Rightarrow> json \<Rightarrow> json \<Rightarrow> json \<Rightarrow> json \<Rightarrow> json
     \<Rightarrow> json \<Rightarrow> json \<Rightarrow> json \<Rightarrow> json \<Rightarrow> movie_row backend" where
  "run_movies_by_channel env channelId language tmdbId title overview release_date poster_path
       genres rating rating_count director_name cast_names cast_profile_paths updated_at =
     (let key = ''/movies/channel/'' @ channelId @ ''?lang='' @ language;
          row = \<lparr> m_tmdb_id = tmdbId, m_title = title, m_overview = overview,
                  m_release_date = release_date, m_poster_path = poster_path,
                  m_genres = js_or genres (JStr ''[]''), m_rating = rating,
                  m_rating_count = rating_count, m_director_name = director_name,
                  m_cast_names = js_or cast_names (JStr ''[]''),
                  m_cast_profile_paths = js_or cast_profile_paths (JStr ''[]''),
                  m_updated_at = updated_at \<rparr>
      in case cacheSet env key row of Inl e \<Rightarrow> env | Inr env' \<Rightarrow> env')"

definition run_movies_by_id ::
  "(int \<Rightarrow> string) \<Rightarrow> movie_row backend \<Rightarrow> int \<Rightarrow> string \<Rightarrow> json \<Rightarrow> json \<Rightarrow> json \<Rightarrow> json \<Rightarrow> json \<Rightarrow> json \<Rightarrow> json
     \<Rightarrow> json \<Rightarrow> json \<Rightarrow> json \<Rightarrow> json \<Rightarrow> movie_row backend" where
  "run_movies_by_id T env tmdbId language title overview release_date poster_path
       genres rating rating_count director_name cast_names cast_profile_paths updated_at =
     (let key = ''/movies/id/'' @ T tmdbId @ ''?lang='' @ language;
          row = \<lparr> m_tmdb_id = JFinite (of_int tmdbId), m_title = title, m_overview = overview,
                  m_release_date = release_date, m_poster_path = poster_path,
                  m_genres = js_or genres (JStr ''[]''), m_rating = rating,
                  m_rating_count = rating_count, m_director_name = director_name,
                  m_cast_names = js_or cast_names (JStr ''[]''),
                  m_cast_profile_paths = js_or cast_profile_paths (JStr ''[]''),
                  m_updated_at = updated_at \<rparr>
      in case cacheSet env key row of Inl e \<Rightarrow> env | Inr env' \<Rightarrow> env')"

definition first_movies_by_channel :: "movie_row backend \<Rightarrow> string \<Rightarrow> string \<Rightarrow> movie_row option" where
  "first_movies_by_channel env channelId language =
     (case cacheGet reparse_movie_row env (''/movies/channel/'' @ channelId @ ''?lang='' @ language) of
        Inl e \<Rightarrow> None
      | Inr v \<Rightarrow> v)"

definition first_movies_by_id ::
  "(int \<Rightarrow> string) \<Rightarrow> movie_row backend \<Rightarrow> int \<Rightarrow> string \<Rightarrow> movie_row option" where
  "first_movies_by_id T env tmdbId language =
     (case cacheGet reparse_movie_row env (''/movies/id/'' @ T tmdbId @ ''?lang='' @ language) of
        Inl e \<Rightarrow> None
      | Inr v \<Rightarrow> v)"

text \<open>
  The movie payload of the route (properties prefixed \<open>mp_\<close>) and its two upserts.
  \<open>stringify\<close> is \<open>JSON.stringify\<close>; \<open>now\<close> is \<open>Math.floor(Date.now() / 1000)\<close>.
\<close>

record movie_payload =
  mp_movieId :: int
  mp_title :: json
  mp_overview :: json
  mp_releaseDate :: json
  mp_posterPath :: json
  mp_genres :: json
  mp_rating :: json
  mp_ratingCount :: json
  mp_directorName :: json
  mp_cast :: json
  mp_castProfilePaths :: json

definition upsertMovieByChannel ::
  "(json \<Rightarrow> string) \<Rightarrow> int \<Rightarrow> movie_row backend \<Rightarrow> string \<Rightarrow> string \<Rightarrow> movie_payload \<Rightarrow> movie_row backend" where
  "upsertMovieByChannel stringify now env channelId language payload =
     run_movies_by_channel env channelId language (JFinite (of_int (mp_movieId payload)))
       (mp_title payload) (mp_overview payload) (mp_releaseDate payload) (mp_posterPath payload)
       (JStr (stringify (js_or (mp_genres payload) (JArr []))))
       (nullish (mp_rating payload) (JFinite 0)) (nullish (mp_ratingCount payload) (JFinite 0))
       (mp_directorName payload)
       (JStr (stringify (js_or (mp_cast payload) (JArr []))))
       (JStr (stringify (js_or (mp_castProfilePaths payload) (JArr []))))
       (JFinite (of_int now))"

definition upsertMovieById ::
  "(int \<Rightarrow> string) \<Rightarrow> (json \<Rightarrow> string) \<Rightarrow> int \<Rightarrow> movie_row backend \<Rightarrow> string \<Rightarrow> movie_payload
     \<Rightarrow> movie_row backend" where
  "upsertMovieById T stringify now env language payload =
     run_movies_by_id T env (mp_movieId payload) language
       (mp_title payload) (mp_overview payload) (mp_releaseDate payload) (mp_posterPath payload)
       (JStr (stringify (js_or (mp_genres payload) (JArr []))))
       (nullish (mp_rating payload) (JFinite 0)) (nullish (mp_ratingCount payload) (JFinite 0))
       (mp_directorName payload)
       (JStr (stringify (js_or (mp_cast payload) (JArr []))))
       (JStr (stringify (js_or (mp_castProfilePaths payload) (JArr []))))
       (JFinite (of_int now))"

text \<open>\<open>shouldRefresh\<close> of the movie routes; \<open>None\<close> is a row that is \<open>null\<close>.\<close>

definition shouldRefresh_movie :: "(json \<Rightarrow> number) \<Rightarrow> int \<Rightarrow> movie_row option \<Rightarrow> bool" where
  "shouldRefresh_movie S now row =
     (case row of
        None \<Rightarrow> True
      | Some r \<Rightarrow>
          (let rating = nullish (m_rating r) (JFinite 0);
               ratingCount = nullish (m_rating_count r) (JFinite 0)
           in if rating = JFinite 0 \<and> ratingCount = JFinite 0 then True
              else js_gt (js_minus S (JFinite (of_int now)) (m_updated_at r)) CACHE_INTERVAL_SECONDS))"

text \<open>
  The row stored for a series. \<open>sr_seasons\<close> is the property \<open>seasons\<close>, which
  \<open>isExtendedDataMissing\<close> reads.
\<close>

record series_row =
  sr_tmdb_id :: json
  sr_genre_ids :: json
  sr_original_language :: json
  sr_overview :: json
  sr_original_name :: json
  sr_created_by :: json
  sr_number_of_episodes :: json
  sr_number_of_seasons :: json
  sr_poster_path :: json
  sr_first_air_date :: json
  sr_name :: json
  sr_vote_average :: json
  sr_vote_count :: json
  sr_updated_at :: json
  sr_seasons :: json

definition reparse_series_row :: "series_row \<Rightarrow> series_row" where
  "reparse_series_row r =
     \<lparr> sr_tmdb_id = reparse (sr_tmdb_id r), sr_genre_ids = reparse (sr_genre_ids r),
       sr_original_language = reparse (sr_original_language r),
       sr_overview = reparse (sr_overview r), sr_original_name = reparse (sr_original_name r),
       sr_created_by = reparse (sr_created_by r),
       sr_number_of_episodes = reparse (sr_number_of_episodes r),
       sr_number_of_seasons = reparse (sr_number_of_seasons r),
       sr_poster_path = reparse (sr_poster_path r),
       sr_first_air_date = reparse (sr_first_air_date r), sr_name = reparse (sr_name r),
       sr_vote_average = reparse (sr_vote_average r), sr_vote_count = reparse (sr_vote_count r),
       sr_updated_at = reparse (sr_updated_at r), sr_seasons = reparse (sr_seasons r) \<rparr>"


section \<open>Cache keys\<close>

text \<open>
  \<open>buildCacheKeyFromUrl\<close>. A URL is taken as parsed: its \<open>pathname\<close> and the decoded
  \<open>(name, value)\<close> entries of its \<open>searchParams\<close>, in the order of the query string.
  Strings are byte strings (UTF-8). \<open>String.prototype.toLowerCase\<close> is the parameter \<open>lower\<close> of
  the model; \<open>ascii_lower\<close>, which lowers the ASCII letters and keeps every other byte, is the
  instance used in the concrete examples (it agrees with \<open>toLowerCase\<close> on ASCII strings).
\<close>

record url =
  pathname :: string
  searchParams :: "(string \<times> string) list"

definition lower_char :: "char \<Rightarrow> char" where
  "lower_char c =
     (case map_of (zip ''ABCDEFGHIJKLMNOPQRSTUVWXYZ'' ''abcdefghijklmnopqrstuvwxyz'') c of
        Some d \<Rightarrow> d
      | None \<Rightarrow> c)"

definition ascii_lower :: "string \<Rightarrow> string" where
  "ascii_lower s = map lower_char s"

text \<open>
  \<open>URLSearchParams.toString()\<close>: the form-urlencoded serialisation. A byte is kept when it is
  an ASCII letter or digit or one of \<open>* - . _\<close>, a space becomes \<open>+\<close>, any other byte becomes
  \<open>%XX\<close>; the pairs are written \<open>name=value\<close> and joined with \<open>&\<close>.
\<close>

definition form_safe :: "char \<Rightarrow> bool" where
  "form_safe c =
     (let n = (of_char c :: nat)
      in (48 \<le> n \<and> n \<le> 57) \<or> (65 \<le> n \<and> n \<le> 90) \<or> (97 \<le> n \<and> n \<le> 122)
         \<or> n = 42 \<or> n = 45 \<or> n = 46 \<or> n = 95)"

definition encode_byte :: "char \<Rightarrow> string" where
  "encode_byte c =
     (if c = CHR '' '' then ''+''
      else if form_safe c then [c]
      else [CHR ''%'', ''0123456789ABCDEF'' ! ((of_char c :: nat) div 16),
            ''0123456789ABCDEF'' ! ((of_char c :: nat) mod 16)])"

definition form_encode :: "string \<Rightarrow> string" where
  "form_encode s = concat (map encode_byte s)"

fun join_amp :: "string list \<Rightarrow> string" where
  "join_amp [] = []"
| "join_amp [x] = x"
| "join_amp (x # y # ys) = x @ ''&'' @ join_amp (y # ys)"

definition params_toString :: "(string \<times> string) list \<Rightarrow> string" where
  "params_toString entries = join_amp (map (\<lambda>(k, v). form_encode k @ ''='' @ form_encode v) entries)"

text \<open>
  The comparator of the sort is \<open>a.localeCompare(b)\<close> on the names. A collation orders strings
  by their collation keys; \<open>collate\<close>, which maps a name to its key, is a parameter of the
  model: \<open>a.localeCompare(b)\<close> is 0 exactly when \<open>collate a = collate b\<close>, which may hold of
  two different names. \<open>Array.prototype.sort\<close> is stable, as \<open>sort_key\<close> is.
\<close>

definition buildCacheKeyFromUrl ::
  "(string \<Rightarrow> string) \<Rightarrow> (string \<Rightarrow> 'k::linorder) \<Rightarrow> url \<Rightarrow> string" where
  "buildCacheKeyFromUrl lower collate u =
     (let entries = filter (\<lambda>(k, v). lower k \<noteq> ''api_key'') (searchParams u);
          sorted_entries = sort_key (\<lambda>(k, v). collate k) entries;
          query = params_toString sorted_entries
      in if query \<noteq> [] then pathname u @ ''?'' @ query else pathname u)"

text \<open>
  The entries that take part in the key: those that survive the filter of
  \<open>buildCacheKeyFromUrl\<close>.
\<close>

definition effective_params :: "(string \<Rightarrow> string) \<Rightarrow> url \<Rightarrow> (string \<times> string) list" where
  "effective_params lower u = filter (\<lambda>(k, v). lower k \<noteq> ''api_key'') (searchParams u)"

section \<open>List-valued tables: seasons, episodes, guest stars\<close>

text \<open>
  \<open>Array.prototype.findIndex\<close> (\<open>None\<close> is \<open>-1\<close>); \<open>Array.prototype.find\<close> is \<open>List.find\<close>
  and returns the element at that index.
\<close>

fun findIndex :: "('a \<Rightarrow> bool) \<Rightarrow> 'a list \<Rightarrow> nat option" where
  "findIndex P [] = None"
| "findIndex P (x # xs) = (if P x then Some 0 else map_option Suc (findIndex P xs))"

text \<open>\<open>if (idx >= 0) arr[idx] = x; else arr.push(x);\<close>\<close>

definition store_at :: "nat option \<Rightarrow> 'a \<Rightarrow> 'a list \<Rightarrow> 'a list" where
  "store_at idx x arr = (case idx of Some i \<Rightarrow> arr[i := x] | None \<Rightarrow> arr @ [x])"

text \<open>\<open>x || []\<close> for a list that may be \<open>null\<close> or \<open>undefined\<close>; an array is truthy even when empty.\<close>

definition or_empty :: "'a list option \<Rightarrow> 'a list" where
  "or_empty v = (case v of None \<Rightarrow> [] | Some xs \<Rightarrow> xs)"

record season =
  se_id :: json
  se_season_number :: json
  se_name :: json
  se_overview :: json
  se_poster_path :: json
  se_air_date :: json
  se_episode_count :: json
  se_vote_average :: json
  se_updated_at :: json

definition reparse_season :: "season \<Rightarrow> season" where
  "reparse_season s =
     \<lparr> se_id = reparse (se_id s), se_season_number = reparse (se_season_number s),
       se_name = reparse (se_name s), se_overview = reparse (se_overview s),
       se_poster_path = reparse (se_poster_path s), se_air_date = reparse (se_air_date s),
       se_episode_count = reparse (se_episode_count s),
       se_vote_average = reparse (se_vote_average s),
       se_updated_at = reparse (se_updated_at s) \<rparr>"

record guest =
  g_id :: json
  g_name :: json
  g_original_name :: json
  g_character :: json
  g_profile_path :: json
  g_order :: json

definition reparse_guest :: "guest \<Rightarrow> guest" where
  "reparse_guest g =
     \<lparr> g_id = reparse (g_id g), g_name = reparse (g_name g),
       g_original_name = reparse (g_original_name g), g_character = reparse (g_character g),
       g_profile_path = reparse (g_profile_path g), g_order = reparse (g_order g) \<rparr>"

text \<open>
  An episode of the stored list. \<open>ep_guest_stars\<close> is \<open>None\<close> when the property is missing or
  \<open>null\<close>.
\<close>

record episode =
  ep_series_id :: json
  ep_id :: json
  ep_episode_id :: json
  ep_episode_number :: json
  ep_name :: json
  ep_overview :: json
  ep_still_path :: json
  ep_air_date :: json
  ep_vote_average :: json
  ep_vote_count :: json
  ep_updated_at :: json
  ep_guest_stars :: "guest list option"

definition reparse_episode :: "episode \<Rightarrow> episode" where
  "reparse_episode e =
     \<lparr> ep_series_id = reparse (ep_series_id e), ep_id = reparse (ep_id e),
       ep_episode_id = reparse (ep_episode_id e),
       ep_episode_number = reparse (ep_episode_number e), ep_name = reparse (ep_name e),
       ep_overview = reparse (ep_overview e), ep_still_path = reparse (ep_still_path e),
       ep_air_date = reparse (ep_air_date e), ep_vote_average = reparse (ep_vote_average e),
       ep_vote_count = reparse (ep_vote_count e), ep_updated_at = reparse (ep_updated_at e),
       ep_guest_stars = map_option (map reparse_guest) (ep_guest_stars e) \<rparr>"

text \<open>
  The bound parameters of the three list statements, named as \<open>run\<close> destructures them
  (prefixes \<open>si_\<close>, \<open>ei_\<close>, \<open>gi_\<close>). The series id and the season number are the integers the
  routes parse from the path, the language is the string \<open>normalizeLanguage\<close> returns (so
  \<open>language || ""\<close> is the language itself).
\<close>

record season_insert =
  si_seriesId :: int
  si_language :: string
  si_season_id :: json
  si_season_number :: json
  si_name :: json
  si_overview :: json
  si_poster_path :: json
  si_air_date :: json
  si_episode_count :: json
  si_vote_average :: json
  si_updated_at :: json

record episode_insert =
  ei_seriesId :: int
  ei_language :: string
  ei_season_number :: int
  ei_episode_id :: json
  ei_episode_number :: json
  ei_name :: json
  ei_overview :: json
  ei_still_path :: json
  ei_air_date :: json
  ei_vote_average :: json
  ei_vote_count :: json
  ei_updated_at :: json

record guest_insert =
  gi_seriesId :: int
  gi_language :: string
  gi_season_number :: int
  gi_episode_id :: json
  gi_episode_number :: json
  gi_guest_id :: json
  gi_name :: json
  gi_original_name :: json
  gi_character :: json
  gi_profile_path :: json
  gi_order_index :: json
  gi_updated_at :: json

definition seasons_key :: "(int \<Rightarrow> string) \<Rightarrow> int \<Rightarrow> string \<Rightarrow> string" where
  "seasons_key T seriesId language = ''/series/'' @ T seriesId @ ''/seasons?lang='' @ language"

definition episodes_key :: "(int \<Rightarrow> string) \<Rightarrow> int \<Rightarrow> int \<Rightarrow> string \<Rightarrow> string" where
  "episodes_key T seriesId season_number language =
     ''/series/'' @ T seriesId @ ''/season/'' @ T season_number @ ''/episodes?lang='' @ language"

text \<open>\<open>run\<close>, branch \<open>INSERT INTO series_seasons\<close>.\<close>

definition season_of :: "season_insert \<Rightarrow> season" where
  "season_of p =
     \<lparr> se_id = si_season_id p, se_season_number = si_season_number p, se_name = si_name p,
       se_overview = si_overview p, se_poster_path = si_poster_path p, se_air_date = si_air_date p,
       se_episode_count = si_episode_count p, se_vote_average = si_vote_average p,
       se_updated_at = si_updated_at p \<rparr>"

definition run_series_seasons ::
  "(json \<Rightarrow> number) \<Rightarrow> (int \<Rightarrow> string) \<Rightarrow> season list backend \<Rightarrow> season_insert
     \<Rightarrow> season list backend" where
  "run_series_seasons S T env p =
     (let key = seasons_key T (si_seriesId p) (si_language p)
      in case cacheGet (map reparse_season) env key of
           Inl e \<Rightarrow> env
         | Inr v \<Rightarrow>
             (let arr = or_empty v;
                  season = season_of p;
                  idx = findIndex (\<lambda>s. num_eq S (se_id s) (si_season_id p)) arr;
                  arr' = store_at idx season arr
              in case cacheSet env key arr' of Inl e \<Rightarrow> env | Inr env' \<Rightarrow> env'))"

text \<open>
  \<open>run\<close>, branch \<open>INSERT INTO series_episodes\<close>. The guest stars of the new element are
  \<open>(arr.find(...)?.guest_stars) || []\<close>.
\<close>

definition episode_of :: "episode_insert \<Rightarrow> guest list \<Rightarrow> episode" where
  "episode_of p gs =
     \<lparr> ep_series_id = JFinite (of_int (ei_seriesId p)), ep_id = ei_episode_id p,
       ep_episode_id = ei_episode_id p, ep_episode_number = ei_episode_number p,
       ep_name = ei_name p, ep_overview = ei_overview p, ep_still_path = ei_still_path p,
       ep_air_date = ei_air_date p, ep_vote_average = ei_vote_average p,
       ep_vote_count = ei_vote_count p, ep_updated_at = ei_updated_at p,
       ep_guest_stars = Some gs \<rparr>"

definition run_series_episodes ::
  "(json \<Rightarrow> number) \<Rightarrow> (int \<Rightarrow> string) \<Rightarrow> episode list backend \<Rightarrow> episode_insert
     \<Rightarrow> episode list backend" where
  "run_series_episodes S T env p =
     (let key = episodes_key T (ei_seriesId p) (ei_season_number p) (ei_language p)
      in case cacheGet (map reparse_episode) env key of
           Inl e \<Rightarrow> env
         | Inr v \<Rightarrow>
             (let arr = or_empty v;
                  ep = episode_of p
                         (case find (\<lambda>e. num_eq S (ep_episode_id e) (ei_episode_id p)) arr of
                            None \<Rightarrow> []
                          | Some e \<Rightarrow> or_empty (ep_guest_stars e));
                  idx = findIndex (\<lambda>e. num_eq S (ep_episode_id e) (ei_episode_id p)) arr;
                  arr' = store_at idx ep arr
              in case cacheSet env key arr' of Inl e \<Rightarrow> env | Inr env' \<Rightarrow> env'))"

text \<open>
  \<open>run\<close>, branch \<open>INSERT INTO episode_guest_stars\<close>. \<open>episode\<close> is the first element of the
  array whose \<open>episode_id\<close> matches; the source holds a reference to it and updates its
  \<open>guest_stars\<close> in place, which here is the update of the array at the index of that element.
  When no element matches even after the placeholder was pushed (the episode id is \<open>NaN\<close> as a
  number), \<open>episode\<close> is \<open>undefined\<close>, reading its property throws and the \<open>catch\<close> returns
  before anything is written.
\<close>

definition placeholder_of :: "guest_insert \<Rightarrow> episode" where
  "placeholder_of p =
     \<lparr> ep_series_id = JFinite (of_int (gi_seriesId p)), ep_id = gi_episode_id p,
       ep_episode_id = gi_episode_id p, ep_episode_number = gi_episode_number p,
       ep_name = JUndefined, ep_overview = JUndefined, ep_still_path = JUndefined,
       ep_air_date = JUndefined, ep_vote_average = JUndefined, ep_vote_count = JUndefined,
       ep_updated_at = JUndefined, ep_guest_stars = Some [] \<rparr>"

definition guest_of :: "guest_insert \<Rightarrow> guest" where
  "guest_of p =
     \<lparr> g_id = gi_guest_id p, g_name = gi_name p, g_original_name = gi_original_name p,
       g_character = gi_character p, g_profile_path = gi_profile_path p,
       g_order = gi_order_index p \<rparr>"

definition run_episode_guest_stars ::
  "(json \<Rightarrow> number) \<Rightarrow> (int \<Rightarrow> string) \<Rightarrow> episode list backend \<Rightarrow> guest_insert
     \<Rightarrow> episode list backend" where
  "run_episode_guest_stars S T env p =
     (let key = episodes_key T (gi_seriesId p) (gi_season_number p) (gi_language p)
      in case cacheGet (map reparse_episode) env key of
           Inl e \<Rightarrow> env
         | Inr v \<Rightarrow>
             (let arr = or_empty v;
                  idx = findIndex (\<lambda>e. num_eq S (ep_episode_id e) (gi_episode_id p)) arr;
                  arr1 = (if idx = None then arr @ [placeholder_of p] else arr)
              in case findIndex (\<lambda>e. num_eq S (ep_episode_id e) (gi_episode_id p)) arr1 of
                   None \<Rightarrow> env
                 | Some i \<Rightarrow>
                     (let episode = arr1 ! i;
                          guest_stars = or_empty (ep_guest_stars episode);
                          guest = guest_of p;
                          gidx = findIndex (\<lambda>g. num_eq S (g_id g) (gi_guest_id p)) guest_stars;
                          arr2 = arr1[i := episode\<lparr>ep_guest_stars := Some (store_at gidx guest guest_stars)\<rparr>]
                      in case cacheSet env key arr2 of Inl e \<Rightarrow> env | Inr env' \<Rightarrow> env')))"

text \<open>\<open>all\<close>: the seasons of a series and the episodes of a season.\<close>

definition all_series_seasons ::
  "(int \<Rightarrow> string) \<Rightarrow> season list backend \<Rightarrow> int \<Rightarrow> string \<Rightarrow> season list" where
  "all_series_seasons T env seriesId language =
     (case cacheGet (map reparse_season) env (seasons_key T seriesId language) of
        Inl e \<Rightarrow> []
      | Inr v \<Rightarrow> or_empty v)"

definition all_series_episodes ::
  "(int \<Rightarrow> string) \<Rightarrow> episode list backend \<Rightarrow> int \<Rightarrow> string \<Rightarrow> int \<Rightarrow> episode list" where
  "all_series_episodes T env seriesId language seasonNumber =
     (case cacheGet (map reparse_episode) env (episodes_key T seriesId seasonNumber language) of
        Inl e \<Rightarrow> []
      | Inr v \<Rightarrow> or_empty v)"

text \<open>\<open>all\<close>, branch \<open>FROM episode_guest_stars\<close>: the guest stars of every episode of the season.\<close>

record guest_row =
  gr_episode_id :: json
  gr_episode_number :: json
  gr_guest_id :: json
  gr_name :: json
  gr_original_name :: json
  gr_character :: json
  gr_profile_path :: json
  gr_order_index :: json

definition guest_rows_of :: "episode \<Rightarrow> guest_row list" where
  "guest_rows_of ep =
     map (\<lambda>g. \<lparr> gr_episode_id = nullish (ep_episode_id ep) (ep_id ep),
                gr_episode_number = ep_episode_number ep, gr_guest_id = g_id g,
                gr_name = g_name g, gr_original_name = g_original_name g,
                gr_character = g_character g, gr_profile_path = g_profile_path g,
                gr_order_index = nullish (g_order g) JNull \<rparr>)
         (or_empty (ep_guest_stars ep))"

definition all_episode_guest_stars ::
  "(int \<Rightarrow> string) \<Rightarrow> episode list backend \<Rightarrow> int \<Rightarrow> string \<Rightarrow> int \<Rightarrow> guest_row list" where
  "all_episode_guest_stars T env seriesId language seasonNumber =
     (case cacheGet (map reparse_episode) env (episodes_key T seriesId seasonNumber language) of
        Inl e \<Rightarrow> []
      | Inr v \<Rightarrow> concat (map guest_rows_of (or_empty v)))"

text \<open>\<open>first\<close>, branch \<open>FROM series_episodes ... LIMIT 1\<close>.\<close>

definition first_series_episode ::
  "(json \<Rightarrow> number) \<Rightarrow> (int \<Rightarrow> string) \<Rightarrow> episode list backend \<Rightarrow> int \<Rightarrow> string \<Rightarrow> int \<Rightarrow> json
     \<Rightarrow> episode option" where
  "first_series_episode S T env seriesId language seasonNumber episodeNumber =
     (case cacheGet (map reparse_episode) env (episodes_key T seriesId seasonNumber language) of
        Inl e \<Rightarrow> None
      | Inr v \<Rightarrow> find (\<lambda>e. num_eq S (ep_episode_number e) episodeNumber) (or_empty v))"

text \<open>
  Uniqueness of child ids, in the sense in which the upserts compare ids: no two positions of
  the list hold ids that are equal as numbers.
\<close>

definition unique_ids :: "(json \<Rightarrow> number) \<Rightarrow> json list \<Rightarrow> bool" where
  "unique_ids S ids = sorted_wrt (\<lambda>a b. \<not> num_eq S a b) ids"

definition seasons_unique :: "(json \<Rightarrow> number) \<Rightarrow> season list \<Rightarrow> bool" where
  "seasons_unique S arr = unique_ids S (map se_id arr)"

definition guests_unique :: "(json \<Rightarrow> number) \<Rightarrow> episode \<Rightarrow> bool" where
  "guests_unique S e = unique_ids S (map g_id (or_empty (ep_guest_stars e)))"

definition episodes_unique :: "(json \<Rightarrow> number) \<Rightarrow> episode list \<Rightarrow> bool" where
  "episodes_unique S arr = (unique_ids S (map ep_episode_id arr) \<and> list_all (guests_unique S) arr)"

text \<open>
  Sequences of statements run against a store that starts empty. The episode list of a season
  is written by two statements, the episode insert and the guest-star insert.
\<close>

definition empty_backend :: "'a backend" where
  "empty_backend = \<lparr> down = False, cells = (\<lambda>k. Absent) \<rparr>"

datatype episodes_statement = InsertEpisode episode_insert | InsertGuestStar guest_insert

fun run_episodes_statement ::
  "(json \<Rightarrow> number) \<Rightarrow> (int \<Rightarrow> string) \<Rightarrow> episode list backend \<Rightarrow> episodes_statement
     \<Rightarrow> episode list backend" where
  "run_episodes_statement S T env (InsertEpisode p) = run_series_episodes S T env p"
| "run_episodes_statement S T env (InsertGuestStar p) = run_episode_guest_stars S T env p"

text \<open>The ids that a statement on the episode list binds keep their numbers in the store.\<close>

fun statement_keeps_ids :: "(json \<Rightarrow> number) \<Rightarrow> episodes_statement \<Rightarrow> bool" where
  "statement_keeps_ids S (InsertEpisode p) = keeps_number S (ei_episode_id p)"
| "statement_keeps_ids S (InsertGuestStar p) =
     (keeps_number S (gi_episode_id p) \<and> keeps_number S (gi_guest_id p))"

section \<open>The series record and the episode route\<close>

text \<open>
  \<open>run\<close> and \<open>first\<close> for \<open>series_by_id\<close>. The row literal of \<open>run\<close> has no \<open>seasons\<close> property.
\<close>

definition run_series_by_id ::
  "(int \<Rightarrow> string) \<Rightarrow> series_row backend \<Rightarrow> int \<Rightarrow> string \<Rightarrow> json \<Rightarrow> json \<Rightarrow> json \<Rightarrow> json \<Rightarrow> json \<Rightarrow> json \<Rightarrow> json
     \<Rightarrow> json \<Rightarrow> json \<Rightarrow> json \<Rightarrow> json \<Rightarrow> json \<Rightarrow> json \<Rightarrow> series_row backend" where
  "run_series_by_id T env tmdbId language genre_ids original_language overview original_name
       created_by number_of_episodes number_of_seasons poster_path first_air_date name
       vote_average vote_count updated_at =
     (let key = ''/series/id/'' @ T tmdbId @ ''?lang='' @ language;
          row = \<lparr> sr_tmdb_id = JFinite (of_int tmdbId), sr_genre_ids = js_or genre_ids (JStr ''[]''),
                  sr_original_language = original_language, sr_overview = overview,
                  sr_original_name = original_name, sr_created_by = js_or created_by (JStr ''[]''),
                  sr_number_of_episodes = number_of_episodes,
                  sr_number_of_seasons = number_of_seasons, sr_poster_path = poster_path,
                  sr_first_air_date = first_air_date, sr_name = name,
                  sr_vote_average = vote_average, sr_vote_count = vote_count,
                  sr_updated_at = updated_at, sr_seasons = JUndefined \<rparr>
      in case cacheSet env key row of Inl e \<Rightarrow> env | Inr env' \<Rightarrow> env')"

definition first_series_by_id ::
  "(int \<Rightarrow> string) \<Rightarrow> series_row backend \<Rightarrow> int \<Rightarrow> string \<Rightarrow> series_row option" where
  "first_series_by_id T env tmdbId language =
     (case cacheGet reparse_series_row env (''/series/id/'' @ T tmdbId @ ''?lang='' @ language) of
        Inl e \<Rightarrow> None
      | Inr v \<Rightarrow> v)"

text \<open>
  The series payload of the routes and \<open>upsertSeries\<close> (\<open>env.DB\<close> is the shim, so the early
  return for a missing \<open>DB\<close> is not taken).
\<close>

record series_payload =
  sp_id :: int
  sp_genre_ids :: json
  sp_original_language :: json
  sp_overview :: json
  sp_original_name :: json
  sp_created_by :: json
  sp_number_of_episodes :: json
  sp_number_of_seasons :: json
  sp_poster_path :: json
  sp_first_air_date :: json
  sp_name :: json
  sp_vote_average :: json
  sp_vote_count :: json

definition upsertSeries ::
  "(int \<Rightarrow> string) \<Rightarrow> (json \<Rightarrow> string) \<Rightarrow> int \<Rightarrow> series_row backend \<Rightarrow> string \<Rightarrow> series_payload
     \<Rightarrow> series_row backend" where
  "upsertSeries T stringify now env language item =
     run_series_by_id T env (sp_id item) language
       (JStr (stringify (js_or (sp_genre_ids item) (JArr []))))
       (sp_original_language item) (sp_overview item) (sp_original_name item)
       (JStr (stringify (js_or (sp_created_by item) (JArr []))))
       (nullish (sp_number_of_episodes item) (JFinite 0))
       (nullish (sp_number_of_seasons item) (JFinite 0))
       (sp_poster_path item) (sp_first_air_date item) (sp_name item)
       (nullish (sp_vote_average item) (JFinite 0)) (nullish (sp_vote_count item) (JFinite 0))
       (JFinite (of_int now))"

text \<open>
  \<open>parseJsonArray\<close> and \<open>isExtendedDataMissing\<close>. \<open>parse\<close> is \<open>JSON.parse\<close> applied to a value
  (\<open>None\<close> when it throws).
\<close>

definition parseJsonArray :: "(json \<Rightarrow> json option) \<Rightarrow> json \<Rightarrow> json list" where
  "parseJsonArray parse v =
     (if \<not> truthy v then []
      else (case parse v of
              Some (JArr xs) \<Rightarrow> xs
            | _ \<Rightarrow> []))"

definition isExtendedDataMissing :: "(json \<Rightarrow> json option) \<Rightarrow> series_row \<Rightarrow> bool" where
  "isExtendedDataMissing parse row =
     (let createdBy = parseJsonArray parse (sr_created_by row);
          episodes = sr_number_of_episodes row;
          seasonsCount = sr_number_of_seasons row;
          looksLikeSearchOnly =
            (length createdBy = 0
             \<and> (episodes = JFinite 0 \<or> episodes = JNull)
             \<and> (seasonsCount = JFinite 0 \<or> seasonsCount = JNull))
      in sr_created_by row = JUndefined
         \<or> sr_created_by row = JNull
         \<or> sr_seasons row = JUndefined
         \<or> sr_seasons row = JNull
         \<or> sr_number_of_episodes row = JUndefined
         \<or> sr_number_of_episodes row = JNull
         \<or> sr_number_of_seasons row = JUndefined
         \<or> sr_number_of_seasons row = JNull
         \<or> looksLikeSearchOnly)"

text \<open>
  \<open>readEpisode\<close>: the episode row of \<open>first\<close> and the guest rows of \<open>all\<close>, and the decision
  of \<open>handleSeriesEpisode\<close>: the stored record, the response cached under the key of the URL
  (when that value is truthy), or the upstream fetch. Only the decision is modelled, not the
  shape of the response. \<open>readEpisode\<close> binds the episode number to the guest-star query as
  well, but the branch of \<open>all\<close> reads the series, the language and the season only, so the
  guest rows are those of every episode of the season.
\<close>

record cached_episode =
  ce_row :: episode
  ce_guest_stars :: "guest_row list"
  ce_updated_at :: json

definition readEpisode ::
  "(json \<Rightarrow> number) \<Rightarrow> (int \<Rightarrow> string) \<Rightarrow> episode list backend \<Rightarrow> int \<Rightarrow> int \<Rightarrow> json \<Rightarrow> string
     \<Rightarrow> cached_episode option" where
  "readEpisode S T env seriesId seasonNumber episodeNumber language =
     (case first_series_episode S T env seriesId language seasonNumber episodeNumber of
        None \<Rightarrow> None
      | Some episodeRow \<Rightarrow>
          Some \<lparr> ce_row = episodeRow,
                 ce_guest_stars = all_episode_guest_stars T env seriesId language seasonNumber,
                 ce_updated_at = ep_updated_at episodeRow \<rparr>)"

datatype served = FromRecord cached_episode | FromResponseCache json | FromUpstream

definition handleSeriesEpisode ::
  "(json \<Rightarrow> number) \<Rightarrow> (int \<Rightarrow> string) \<Rightarrow> (string \<Rightarrow> string) \<Rightarrow> (string \<Rightarrow> 'k::linorder) \<Rightarrow> int
     \<Rightarrow> episode list backend \<Rightarrow> json backend \<Rightarrow> url \<Rightarrow> int \<Rightarrow> int \<Rightarrow> json \<Rightarrow> string \<Rightarrow> served" where
  "handleSeriesEpisode S T lower collate now env renv u seriesId seasonNumber episodeNumber language =
     (let cached = readEpisode S T env seriesId seasonNumber episodeNumber language;
          fallback = (case cacheGet reparse renv (buildCacheKeyFromUrl lower collate u) of
                        Inl e \<Rightarrow> FromUpstream
                      | Inr None \<Rightarrow> FromUpstream
                      | Inr (Some p) \<Rightarrow> if truthy p then FromResponseCache p else FromUpstream)
      in case cached of
           None \<Rightarrow> fallback
         | Some c \<Rightarrow>
             (let ageSeconds = js_minus S (JFinite (of_int now)) (ce_updated_at c);
                  hasGuestStars = (length (ce_guest_stars c) > 0)
              in if js_le ageSeconds CACHE_INTERVAL_SECONDS \<and> hasGuestStars then FromRecord c
                 else fallback))"


text \<open>A lookup misses when the backend is unreachable, holds nothing under the key, or holds a
  text that does not decode.\<close>

definition misses :: "'a backend \<Rightarrow> string \<Rightarrow> bool" where
  "misses env key = (down env \<or> cells env key = Absent \<or> cells env key = Garbled)"


text \<open>Sample values for the concrete instances below.\<close>

definition holding :: "string \<Rightarrow> 'a \<Rightarrow> 'a backend" where
  "holding key v = \<lparr> down = False, cells = (\<lambda>k. Absent)(key := Stringified v) \<rparr>"

definition sample_season :: "json \<Rightarrow> json \<Rightarrow> season" where
  "sample_season i nm =
     \<lparr> se_id = i, se_season_number = JFinite 1, se_name = nm, se_overview = JStr ''o'',
       se_poster_path = JNull, se_air_date = JStr ''2011-04-17'', se_episode_count = JFinite 10,
       se_vote_average = JFinite 8, se_updated_at = JFinite 1700000000 \<rparr>"

definition sample_season_insert :: "json \<Rightarrow> json \<Rightarrow> season_insert" where
  "sample_season_insert i nm =
     \<lparr> si_seriesId = 1399, si_language = ''en'', si_season_id = i, si_season_number = JFinite 1,
       si_name = nm, si_overview = JStr ''o'', si_poster_path = JNull,
       si_air_date = JStr ''2011-04-17'', si_episode_count = JFinite 10, si_vote_average = JFinite 8,
       si_updated_at = JFinite 1700000000 \<rparr>"

definition sample_guest :: "json \<Rightarrow> json \<Rightarrow> guest" where
  "sample_guest i nm =
     \<lparr> g_id = i, g_name = nm, g_original_name = nm, g_character = JStr ''c'',
       g_profile_path = JNull, g_order = JFinite 0 \<rparr>"

definition sample_episode :: "json \<Rightarrow> json \<Rightarrow> guest list \<Rightarrow> episode" where
  "sample_episode i nm gs =
     \<lparr> ep_series_id = JFinite 1399, ep_id = i, ep_episode_id = i, ep_episode_number = JFinite 2,
       ep_name = nm, ep_overview = JStr ''o'', ep_still_path = JNull,
       ep_air_date = JStr ''2011-04-24'', ep_vote_average = JFinite 8, ep_vote_count = JFinite 100,
       ep_updated_at = JFinite 1700000000, ep_guest_stars = Some gs \<rparr>"

definition sample_episode_insert :: "json \<Rightarrow> json \<Rightarrow> episode_insert" where
  "sample_episode_insert i nm =
     \<lparr> ei_seriesId = 1399, ei_language = ''en'', ei_season_number = 1, ei_episode_id = i,
       ei_episode_number = JFinite 2, ei_name = nm, ei_overview = JStr ''o'', ei_still_path = JNull,
       ei_air_date = JStr ''2011-04-24'', ei_vote_average = JFinite 8, ei_vote_count = JFinite 100,
       ei_updated_at = JFinite 1700000000 \<rparr>"

definition sample_guest_insert :: "json \<Rightarrow> json \<Rightarrow> json \<Rightarrow> guest_insert" where
  "sample_guest_insert e i nm =
     \<lparr> gi_seriesId = 1399, gi_language = ''en'', gi_season_number = 1, gi_episode_id = e,
       gi_episode_number = JFinite 2, gi_guest_id = i, gi_name = nm, gi_original_name = nm,
       gi_character = JStr ''c'', gi_profile_path = JNull, gi_order_index = JFinite 0,
       gi_updated_at = JFinite 1700000000 \<rparr>"

section \<open>The series routes\<close>

text \<open>
  An episode and a guest star as the upstream JSON gives them. \<open>te_guest_stars\<close> is \<open>None\<close>
  when the property is not an array; an element of that array, and an element of the episode
  array, is \<open>None\<close> when it is falsy (\<open>null\<close>).
\<close>

record tmdb_guest =
  tg_id :: json
  tg_name :: json
  tg_original_name :: json
  tg_character :: json
  tg_profile_path :: json
  tg_order :: json

record tmdb_episode =
  te_id :: json
  te_episode_number :: json
  te_name :: json
  te_overview :: json
  te_still_path :: json
  te_air_date :: json
  te_vote_average :: json
  te_vote_count :: json
  te_guest_stars :: "tmdb_guest option list option"

text \<open>
  \<open>upsertSeasonEpisodes\<close>: for each episode with a numeric id, the episode insert and then,
  when \<open>guest_stars\<close> is an array, one guest-star insert for each guest with a numeric id.
  Each statement awaits the previous one.
\<close>

definition episode_insert_of :: "int \<Rightarrow> int \<Rightarrow> int \<Rightarrow> string \<Rightarrow> tmdb_episode \<Rightarrow> episode_insert" where
  "episode_insert_of now seriesId seasonNumber language episode =
     \<lparr> ei_seriesId = seriesId, ei_language = language, ei_season_number = seasonNumber,
       ei_episode_id = te_id episode, ei_episode_number = te_episode_number episode,
       ei_name = te_name episode, ei_overview = te_overview episode,
       ei_still_path = te_still_path episode, ei_air_date = te_air_date episode,
       ei_vote_average = nullish (te_vote_average episode) (JFinite 0),
       ei_vote_count = nullish (te_vote_count episode) (JFinite 0),
       ei_updated_at = JFinite (of_int now) \<rparr>"

definition guest_insert_of ::
  "int \<Rightarrow> int \<Rightarrow> int \<Rightarrow> string \<Rightarrow> tmdb_episode \<Rightarrow> tmdb_guest \<Rightarrow> guest_insert" where
  "guest_insert_of now seriesId seasonNumber language episode guest =
     \<lparr> gi_seriesId = seriesId, gi_language = language, gi_season_number = seasonNumber,
       gi_episode_id = te_id episode, gi_episode_number = te_episode_number episode,
       gi_guest_id = tg_id guest, gi_name = tg_name guest,
       gi_original_name = tg_original_name guest, gi_character = tg_character guest,
       gi_profile_path = tg_profile_path guest, gi_order_index = nullish (tg_order guest) JNull,
       gi_updated_at = JFinite (of_int now) \<rparr>"

definition upsertGuest ::
  "(json \<Rightarrow> number) \<Rightarrow> (int \<Rightarrow> string) \<Rightarrow> int \<Rightarrow> int \<Rightarrow> int \<Rightarrow> string \<Rightarrow> tmdb_episode
     \<Rightarrow> episode list backend \<Rightarrow> tmdb_guest option \<Rightarrow> episode list backend" where
  "upsertGuest S T now seriesId seasonNumber language episode env guest =
     (case guest of
        None \<Rightarrow> env
      | Some g \<Rightarrow>
          (if \<not> is_number (tg_id g) then env
           else run_episode_guest_stars S T env
                  (guest_insert_of now seriesId seasonNumber language episode g)))"

definition upsertEpisode ::
  "(json \<Rightarrow> number) \<Rightarrow> (int \<Rightarrow> string) \<Rightarrow> int \<Rightarrow> int \<Rightarrow> int \<Rightarrow> string
     \<Rightarrow> episode list backend \<Rightarrow> tmdb_episode option \<Rightarrow> episode list backend" where
  "upsertEpisode S T now seriesId seasonNumber language env episode =
     (case episode of
        None \<Rightarrow> env
      | Some e \<Rightarrow>
          (if \<not> is_number (te_id e) then env
           else (let env1 = run_series_episodes S T env
                              (episode_insert_of now seriesId seasonNumber language e)
                 in case te_guest_stars e of
                      None \<Rightarrow> env1
                    | Some guests \<Rightarrow>
                        foldl (upsertGuest S T now seriesId seasonNumber language e) env1 guests)))"

definition upsertSeasonEpisodes ::
  "(json \<Rightarrow> number) \<Rightarrow> (int \<Rightarrow> string) \<Rightarrow> int \<Rightarrow> episode list backend \<Rightarrow> int \<Rightarrow> int \<Rightarrow> string
     \<Rightarrow> tmdb_episode option list option \<Rightarrow> episode list backend" where
  "upsertSeasonEpisodes S T now env seriesId seasonNumber language episodes =
     (case episodes of
        None \<Rightarrow> env
      | Some eps \<Rightarrow> foldl (upsertEpisode S T now seriesId seasonNumber language) env eps)"

text \<open>
  The guest stars stored for an episode id: those of the first element of the season's list
  whose \<open>episode_id\<close> equals the id as a number; \<open>None\<close> when there is no such element.
\<close>

definition stored_guest_stars ::
  "(json \<Rightarrow> number) \<Rightarrow> (int \<Rightarrow> string) \<Rightarrow> episode list backend \<Rightarrow> int \<Rightarrow> string \<Rightarrow> int \<Rightarrow> json
     \<Rightarrow> guest list option" where
  "stored_guest_stars S T env seriesId language seasonNumber episode_id =
     (case find (\<lambda>e. num_eq S (ep_episode_id e) episode_id)
             (all_series_episodes T env seriesId language seasonNumber) of
        None \<Rightarrow> None
      | Some e \<Rightarrow> Some (or_empty (ep_guest_stars e)))"

text \<open>
  The second-level upsert of one guest star into a stored guest-star array, as the array
  reads afterwards: the guest replaces the first entry whose id equals its id as a number, or
  is appended, and is then read in its stored form.
\<close>

definition put_guest :: "(json \<Rightarrow> number) \<Rightarrow> guest list \<Rightarrow> guest \<Rightarrow> guest list" where
  "put_guest S gs g =
     store_at (findIndex (\<lambda>x. num_eq S (g_id x) (g_id g)) gs) (reparse_guest g) gs"

definition guest_of_tmdb :: "tmdb_guest \<Rightarrow> guest" where
  "guest_of_tmdb g =
     \<lparr> g_id = tg_id g, g_name = tg_name g, g_original_name = tg_original_name g,
       g_character = tg_character g, g_profile_path = tg_profile_path g,
       g_order = nullish (tg_order g) JNull \<rparr>"

text \<open>
  The guests of an upstream array that the loop of \<open>upsertSeasonEpisodes\<close> does not skip:
  those whose \<open>id\<close> is a number.
\<close>

definition numbered_guests :: "tmdb_guest option list \<Rightarrow> guest list" where
  "numbered_guests guests =
     map guest_of_tmdb
       (filter (\<lambda>g. is_number (tg_id g)) (concat (map (\<lambda>g. case g of None \<Rightarrow> [] | Some x \<Rightarrow> [x]) guests)))"

definition sample_tmdb_guest :: "json \<Rightarrow> json \<Rightarrow> tmdb_guest" where
  "sample_tmdb_guest i nm =
     \<lparr> tg_id = i, tg_name = nm, tg_original_name = nm, tg_character = JStr ''c'',
       tg_profile_path = JNull, tg_order = JFinite 0 \<rparr>"

definition sample_tmdb_episode :: "json \<Rightarrow> json \<Rightarrow> tmdb_guest option list option \<Rightarrow> tmdb_episode" where
  "sample_tmdb_episode i nm guests =
     \<lparr> te_id = i, te_episode_number = JFinite 2, te_name = nm, te_overview = JStr ''o'',
       te_still_path = JNull, te_air_date = JStr ''2011-04-24'', te_vote_average = JFinite 8,
       te_vote_count = JFinite 100, te_guest_stars = guests \<rparr>"


section \<open>Verified properties\<close>

subsection \<open>Values as the store returns them\<close>

lemma reparse_undefined: "reparse v = JUndefined \<longleftrightarrow> v = JUndefined"
  by (cases v) (auto split: number.splits)

lemma reparse_idem: "reparse (reparse v) = reparse v"
proof (induction v rule: reparse.induct)
  case (1 n)
  then show ?case by (cases n) simp_all
next
  case (2 xs)
  then show ?case by (auto simp add: reparse_undefined)
next
  case (3 kvs)
  then show ?case
    by (auto simp add: reparse_undefined filter_map comp_def split_def intro!: filter_cong)
qed simp_all

lemma reparse_movie_row_idem: "reparse_movie_row (reparse_movie_row r) = reparse_movie_row r"
  by (simp add: reparse_movie_row_def reparse_idem)

lemma reparse_series_row_idem: "reparse_series_row (reparse_series_row r) = reparse_series_row r"
  by (simp add: reparse_series_row_def reparse_idem)

lemma reparse_season_idem: "reparse_season (reparse_season s) = reparse_season s"
  by (simp add: reparse_season_def reparse_idem)

lemma reparse_guest_idem: "reparse_guest (reparse_guest g) = reparse_guest g"
  by (simp add: reparse_guest_def reparse_idem)

lemma reparse_episode_idem: "reparse_episode (reparse_episode e) = reparse_episode e"
  by (simp add: reparse_episode_def reparse_idem reparse_guest_idem option.map_comp comp_def)

lemma reparse_guests_of_stable:
  assumes "reparse_episode e = e"
  shows "map reparse_guest (or_empty (ep_guest_stars e)) = or_empty (ep_guest_stars e)"
proof -
  from assms have "ep_guest_stars (reparse_episode e) = ep_guest_stars e" by simp
  then have "map_option (map reparse_guest) (ep_guest_stars e) = ep_guest_stars e"
    by (simp add: reparse_episode_def)
  then show ?thesis by (cases "ep_guest_stars e") (simp_all add: or_empty_def)
qed

lemma reparse_episode_guest_update:
  assumes "reparse_episode e = e"
  shows "reparse_episode (e\<lparr>ep_guest_stars := Some gs\<rparr>) = e\<lparr>ep_guest_stars := Some (map reparse_guest gs)\<rparr>"
proof -
  have "reparse_episode (e\<lparr>ep_guest_stars := Some gs\<rparr>)
      = (reparse_episode e)\<lparr>ep_guest_stars := Some (map reparse_guest gs)\<rparr>"
    by (simp add: reparse_episode_def)
  with assms show ?thesis by simp
qed

lemma num_eq_refl: "Number_js S a \<noteq> NaN \<Longrightarrow> num_eq S a a"
  by (simp add: num_eq_def)

lemma num_eq_sym: "num_eq S a b \<Longrightarrow> num_eq S b a"
  by (auto simp add: num_eq_def)

lemma num_eq_trans: "num_eq S a b \<Longrightarrow> num_eq S b c \<Longrightarrow> num_eq S a c"
  by (auto simp add: num_eq_def)

lemma num_eq_numbers: "num_eq S (JNum a) (JNum b) \<longleftrightarrow> a = b \<and> a \<noteq> NaN"
  by (auto simp add: num_eq_def)

lemma num_eq_kept:
  "keeps_number S c \<Longrightarrow> num_eq S x (reparse c) = num_eq S x c"
  "keeps_number S c \<Longrightarrow> num_eq S (reparse c) x = num_eq S c x"
  by (auto simp add: keeps_number_def num_eq_def)

lemma finite_keeps_number: "is_finite_number v \<Longrightarrow> keeps_number S v \<and> Number_js S v \<noteq> NaN"
  by (cases v rule: is_finite_number.cases) (simp_all add: keeps_number_def)

lemma num_eq_stored: "keeps_number S c \<Longrightarrow> Number_js S c \<noteq> NaN \<Longrightarrow> num_eq S (reparse c) c"
  by (simp add: keeps_number_def num_eq_def)

lemma infinity_is_not_kept:
  "is_number (JNum PosInf)" "reparse (JNum PosInf) = JNull" "\<not> keeps_number S (JNum PosInf)"
  by (simp_all add: keeps_number_def)

subsection \<open>Freshness policy\<close>

lemma age_gt_iff:
  "js_gt (js_minus S (JFinite (of_int now)) (JFinite u)) CACHE_INTERVAL_SECONDS
     \<longleftrightarrow> of_int now - u > CACHE_INTERVAL_SECONDS"
  by (simp add: js_minus_def)

lemma shouldRefresh_movie_zero:
  "m_rating m = JFinite 0 \<Longrightarrow> m_rating_count m = JFinite 0 \<Longrightarrow> shouldRefresh_movie S now (Some m)"
  by (simp add: shouldRefresh_movie_def)

lemma shouldRefresh_movie_rated:
  "nullish (m_rating m) (JFinite 0) \<noteq> JFinite 0 \<or> nullish (m_rating_count m) (JFinite 0) \<noteq> JFinite 0 \<Longrightarrow>
   m_updated_at m = JFinite u \<Longrightarrow>
   shouldRefresh_movie S now (Some m) \<longleftrightarrow> of_int now - u > CACHE_INTERVAL_SECONDS"
  by (auto simp add: shouldRefresh_movie_def Let_def age_gt_iff)

lemma first_after_upsertMovieById:
  "\<not> down env \<Longrightarrow>
   \<exists>m. first_movies_by_id T (upsertMovieById T st now env lang p) (mp_movieId p) lang = Some m
     \<and> m_rating m = reparse (nullish (mp_rating p) (JFinite 0))
     \<and> m_rating_count m = reparse (nullish (mp_ratingCount p) (JFinite 0))
     \<and> m_updated_at m = JFinite (of_int now)"
  by (simp add: first_movies_by_id_def upsertMovieById_def run_movies_by_id_def
        cacheGet_def cacheSet_def Let_def reparse_movie_row_def)

lemma first_after_upsertMovieByChannel:
  "\<not> down env \<Longrightarrow>
   \<exists>m. first_movies_by_channel (upsertMovieByChannel st now env ch lang p) ch lang = Some m
     \<and> m_rating m = reparse (nullish (mp_rating p) (JFinite 0))
     \<and> m_rating_count m = reparse (nullish (mp_ratingCount p) (JFinite 0))
     \<and> m_updated_at m = JFinite (of_int now)"
  by (simp add: first_movies_by_channel_def upsertMovieByChannel_def run_movies_by_channel_def
        cacheGet_def cacheSet_def Let_def reparse_movie_row_def)

lemma first_down_movies:
  "down env \<Longrightarrow> first_movies_by_id T (upsertMovieById T st now env lang p) i lang = None"
  "down env \<Longrightarrow> first_movies_by_channel (upsertMovieByChannel st now env ch lang p) ch lang = None"
  by (simp_all add: first_movies_by_id_def upsertMovieById_def run_movies_by_id_def
        first_movies_by_channel_def upsertMovieByChannel_def run_movies_by_channel_def
        cacheGet_def cacheSet_def Let_def)




text \<open>
  C7. A movie record whose rating and rating count are both exactly zero is stale at any time,
  whatever its \<open>updated_at\<close>; in particular the record read back after an upsert (by id or by
  channel) of a payload with rating 0 and rating count 0 is stale although its \<open>updated_at\<close> is
  current. The record read back after an upsert of a payload with rating 8.4 and rating count
  1000 is fresh at the time of the upsert and for the 30 days that follow (the backend being
  reachable).
\<close>

theorem C7_movie_zero_rating:
  "(m_rating m = JFinite 0 \<and> m_rating_count m = JFinite 0 \<longrightarrow> shouldRefresh_movie S t (Some m))
   \<and> (mp_rating p = JFinite 0 \<and> mp_ratingCount p = JFinite 0 \<longrightarrow>
        shouldRefresh_movie S t
          (first_movies_by_id T (upsertMovieById T st now env lang p) (mp_movieId p) lang)
        \<and> shouldRefresh_movie S t
          (first_movies_by_channel (upsertMovieByChannel st now cenv ch lang p) ch lang))
   \<and> (\<not> down env \<and> \<not> down cenv \<and> mp_rating q = JFinite (42 / 5) \<and> mp_ratingCount q = JFinite 1000
        \<and> t \<le> now + 2592000 \<longrightarrow>
        \<not> shouldRefresh_movie S t
          (first_movies_by_id T (upsertMovieById T st now env lang q) (mp_movieId q) lang)
        \<and> \<not> shouldRefresh_movie S t
          (first_movies_by_channel (upsertMovieByChannel st now cenv ch lang q) ch lang))"
proof -
  have zero_id: "shouldRefresh_movie S t
      (first_movies_by_id T (upsertMovieById T st now env lang p) (mp_movieId p) lang)"
    if "mp_rating p = JFinite 0" "mp_ratingCount p = JFinite 0"
  proof (cases "down env")
    case True
    then show ?thesis by (simp add: first_down_movies shouldRefresh_movie_def)
  next
    case False
    from first_after_upsertMovieById [OF False, of T st now lang p] that show ?thesis
      by (auto simp add: shouldRefresh_movie_zero)
  qed
  have zero_ch: "shouldRefresh_movie S t
      (first_movies_by_channel (upsertMovieByChannel st now cenv ch lang p) ch lang)"
    if "mp_rating p = JFinite 0" "mp_ratingCount p = JFinite 0"
  proof (cases "down cenv")
    case True
    then show ?thesis by (simp add: first_down_movies shouldRefresh_movie_def)
  next
    case False
    from first_after_upsertMovieByChannel [OF False, of st now ch lang p] that show ?thesis
      by (auto simp add: shouldRefresh_movie_zero)
  qed
  have age: "\<not> of_int t - (of_int now :: rat) > CACHE_INTERVAL_SECONDS" if "t \<le> now + 2592000"
  proof -
    from that have "(of_int t :: rat) \<le> of_int (now + 2592000)" by (simp only: of_int_le_iff)
    then show ?thesis by (simp add: CACHE_INTERVAL_SECONDS_def)
  qed
  have rated_id: "\<not> shouldRefresh_movie S t
      (first_movies_by_id T (upsertMovieById T st now env lang q) (mp_movieId q) lang)"
    if "\<not> down env" "mp_rating q = JFinite (42 / 5)" "mp_ratingCount q = JFinite 1000" "t \<le> now + 2592000"
  proof -
    from first_after_upsertMovieById [OF that(1), of T st now lang q] obtain m where
      m: "first_movies_by_id T (upsertMovieById T st now env lang q) (mp_movieId q) lang = Some m"
         "m_rating m = reparse (nullish (mp_rating q) (JFinite 0))" "m_updated_at m = JFinite (of_int now)"
      by blast
    have "nullish (m_rating m) (JFinite 0) \<noteq> JFinite 0" using m(2) that(2) by simp
    with shouldRefresh_movie_rated [of m "of_int now" S t] m(3) age [OF that(4)] m(1)
    show ?thesis by simp
  qed
  have rated_ch: "\<not> shouldRefresh_movie S t
      (first_movies_by_channel (upsertMovieByChannel st now cenv ch lang q) ch lang)"
    if "\<not> down cenv" "mp_rating q = JFinite (42 / 5)" "mp_ratingCount q = JFinite 1000" "t \<le> now + 2592000"
  proof -
    from first_after_upsertMovieByChannel [OF that(1), of st now ch lang q] obtain m where
      m: "first_movies_by_channel (upsertMovieByChannel st now cenv ch lang q) ch lang = Some m"
         "m_rating m = reparse (nullish (mp_rating q) (JFinite 0))" "m_updated_at m = JFinite (of_int now)"
      by blast
    have "nullish (m_rating m) (JFinite 0) \<noteq> JFinite 0" using m(2) that(2) by simp
    with shouldRefresh_movie_rated [of m "of_int now" S t] m(3) age [OF that(4)] m(1)
    show ?thesis by simp
  qed
  show ?thesis
    using zero_id zero_ch rated_id rated_ch shouldRefresh_movie_zero [of m S t] by blast
qed

theorem C7_movie_zero_rating_witness:
  "shouldRefresh_movie decimal_ids 1700000000
     (first_movies_by_id String_int
        (upsertMovieById String_int (\<lambda>v. ''[]'') 1700000000 \<lparr> down = False, cells = (\<lambda>k. Absent) \<rparr> ''en''
           \<lparr> mp_movieId = 27205, mp_title = JStr ''Inception'', mp_overview = JNull, mp_releaseDate = JNull,
             mp_posterPath = JNull, mp_genres = JArr [], mp_rating = JFinite 0, mp_ratingCount = JFinite 0,
             mp_directorName = JNull, mp_cast = JArr [], mp_castProfilePaths = JArr [] \<rparr>)
        27205 ''en'')
   \<and> \<not> shouldRefresh_movie decimal_ids 1700000000
     (first_movies_by_id String_int
        (upsertMovieById String_int (\<lambda>v. ''[]'') 1700000000 \<lparr> down = False, cells = (\<lambda>k. Absent) \<rparr> ''en''
           \<lparr> mp_movieId = 27205, mp_title = JStr ''Inception'', mp_overview = JNull, mp_releaseDate = JNull,
             mp_posterPath = JNull, mp_genres = JArr [], mp_rating = JFinite (42 / 5), mp_ratingCount = JFinite 1000,
             mp_directorName = JNull, mp_cast = JArr [], mp_castProfilePaths = JArr [] \<rparr>)
        27205 ''en'')"
  using C7_movie_zero_rating [of
      "\<lparr> m_tmdb_id = JFinite 27205, m_title = JStr ''x'', m_overview = JNull, m_release_date = JNull,
         m_poster_path = JNull, m_genres = JStr ''[]'', m_rating = JFinite 0,
         m_rating_count = JFinite 0, m_director_name = JNull, m_cast_names = JStr ''[]'',
         m_cast_profile_paths = JStr ''[]'', m_updated_at = JFinite 1700000000 \<rparr>"
      decimal_ids 1700000000
      "\<lparr> mp_movieId = 27205, mp_title = JStr ''Inception'', mp_overview = JNull, mp_releaseDate = JNull,
         mp_posterPath = JNull, mp_genres = JArr [], mp_rating = JFinite 0, mp_ratingCount = JFinite 0,
         mp_directorName = JNull, mp_cast = JArr [], mp_castProfilePaths = JArr [] \<rparr>"
      String_int "\<lambda>v. ''[]''" 1700000000 "\<lparr> down = False, cells = (\<lambda>k. Absent) \<rparr>" "''en''"
      "\<lparr> down = False, cells = (\<lambda>k. Absent) \<rparr>" "''ch''"
      "\<lparr> mp_movieId = 27205, mp_title = JStr ''Inception'', mp_overview = JNull, mp_releaseDate = JNull,
         mp_posterPath = JNull, mp_genres = JArr [], mp_rating = JFinite (42 / 5), mp_ratingCount = JFinite 1000,
         mp_directorName = JNull, mp_cast = JArr [], mp_castProfilePaths = JArr [] \<rparr>"]
  by simp

subsection \<open>Cache keys\<close>

lemma sort_key_stable_cong:
  fixes f :: "'a \<Rightarrow> 'k::linorder"
  assumes "mset xs = mset ys"
    and "\<And>c. filter (\<lambda>p. f p = c) xs = filter (\<lambda>p. f p = c) ys"
  shows "sort_key f xs = sort_key f ys"
proof (rule properties_for_sort_key)
  show "mset (sort_key f ys) = mset xs" using assms(1) by simp
  show "sorted (map f (sort_key f ys))" by simp
  fix k
  have "filter (\<lambda>x. f k = f x) (sort_key f ys) = filter (\<lambda>x. f x = f k) (sort_key f ys)"
    by (rule filter_cong) auto
  also have "\<dots> = filter (\<lambda>x. f x = f k) ys" by (rule sort_key_stable)
  also have "\<dots> = filter (\<lambda>x. f x = f k) xs" using assms(2) by simp
  also have "\<dots> = filter (\<lambda>x. f k = f x) xs" by (rule filter_cong) auto
  finally show "filter (\<lambda>x. f k = f x) (sort_key f ys) = filter (\<lambda>x. f k = f x) xs" .
qed

lemma sort_key_distinct_cong:
  fixes f :: "'a \<Rightarrow> 'k::linorder"
  assumes "mset xs = mset ys" and "distinct (map f xs)"
  shows "sort_key f xs = sort_key f ys"
proof (rule sort_key_inj_key_eq)
  show "mset xs = mset (sort_key f ys)" using assms(1) by simp
  show "inj_on f (set xs)" using assms(2) by (simp add: distinct_map)
  show "sorted (map f (sort_key f ys))" by simp
qed

lemma key_via_effective:
  "buildCacheKeyFromUrl lower collate u =
     (let query = params_toString (sort_key (\<lambda>(k, v). collate k) (effective_params lower u))
      in if query \<noteq> [] then pathname u @ ''?'' @ query else pathname u)"
  by (simp add: buildCacheKeyFromUrl_def effective_params_def Let_def)

lemma effective_idem:
  "effective_params lower (u\<lparr>searchParams := filter (\<lambda>(k, v). lower k \<noteq> ''api_key'') (searchParams u)\<rparr>)
     = effective_params lower u"
  by (simp add: effective_params_def)

lemma effective_drop_credential:
  "lower k = ''api_key'' \<Longrightarrow>
   effective_params lower (u\<lparr>searchParams := ps @ (k, x) # qs\<rparr>)
     = effective_params lower (u\<lparr>searchParams := ps @ qs\<rparr>)"
  by (simp add: effective_params_def)

text \<open>
  C5 (as amended). \<open>buildCacheKeyFromUrl\<close> is a function of the path and of the entries that
  are not credentials. Two URLs with the same path derive the same key when those entries are
  the same up to order and the entries whose names \<open>localeCompare\<close> ranks equal stand in the
  same relative order in both; in particular when no two of those names are ranked equal by
  \<open>localeCompare\<close>, any reordering of the query gives the same key. Every entry whose name
  \<open>toLowerCase\<close> turns into \<open>api_key\<close> is stripped: removing all of them, or inserting one
  anywhere, does not change the key.
\<close>

theorem C5_key_canonical:
  fixes collate :: "string \<Rightarrow> 'k::linorder"
  shows
  "(pathname u = pathname v
      \<and> mset (effective_params lower u) = mset (effective_params lower v)
      \<and> (\<forall>c. filter (\<lambda>(k, x). collate k = c) (effective_params lower u)
              = filter (\<lambda>(k, x). collate k = c) (effective_params lower v))
      \<longrightarrow> buildCacheKeyFromUrl lower collate u = buildCacheKeyFromUrl lower collate v)
   \<and> (pathname u = pathname v
      \<and> mset (effective_params lower u) = mset (effective_params lower v)
      \<and> distinct (map (\<lambda>(k, x). collate k) (effective_params lower u))
      \<longrightarrow> buildCacheKeyFromUrl lower collate u = buildCacheKeyFromUrl lower collate v)
   \<and> buildCacheKeyFromUrl lower collate
        (u\<lparr>searchParams := filter (\<lambda>(k, x). lower k \<noteq> ''api_key'') (searchParams u)\<rparr>)
      = buildCacheKeyFromUrl lower collate u
   \<and> (lower n = ''api_key'' \<longrightarrow>
        buildCacheKeyFromUrl lower collate (u\<lparr>searchParams := ps @ (n, s) # qs\<rparr>)
        = buildCacheKeyFromUrl lower collate (u\<lparr>searchParams := ps @ qs\<rparr>))"
proof -
  let ?f = "\<lambda>(k, x). collate k"
  have stable: "buildCacheKeyFromUrl lower collate u = buildCacheKeyFromUrl lower collate v"
    if "pathname u = pathname v" "mset (effective_params lower u) = mset (effective_params lower v)"
       "\<forall>c. filter (\<lambda>(k, x). collate k = c) (effective_params lower u)
              = filter (\<lambda>(k, x). collate k = c) (effective_params lower v)"
  proof -
    have "filter (\<lambda>p. ?f p = c) (effective_params lower u)
        = filter (\<lambda>p. ?f p = c) (effective_params lower v)" for c
      using that(3) [rule_format, of c] by (simp add: split_def)
    with that(2) have "sort_key ?f (effective_params lower u) = sort_key ?f (effective_params lower v)"
      by (rule sort_key_stable_cong)
    with that(1) show ?thesis by (simp add: key_via_effective Let_def)
  qed
  have norepeat: "buildCacheKeyFromUrl lower collate u = buildCacheKeyFromUrl lower collate v"
    if "pathname u = pathname v" "mset (effective_params lower u) = mset (effective_params lower v)"
       "distinct (map ?f (effective_params lower u))"
  proof -
    from that(2,3) have "sort_key ?f (effective_params lower u) = sort_key ?f (effective_params lower v)"
      by (rule sort_key_distinct_cong)
    with that(1) show ?thesis by (simp add: key_via_effective Let_def)
  qed
  have strip: "buildCacheKeyFromUrl lower collate
        (u\<lparr>searchParams := filter (\<lambda>(k, x). lower k \<noteq> ''api_key'') (searchParams u)\<rparr>)
      = buildCacheKeyFromUrl lower collate u"
    by (simp add: key_via_effective effective_idem Let_def)
  have cred: "buildCacheKeyFromUrl lower collate (u\<lparr>searchParams := ps @ (n, s) # qs\<rparr>)
        = buildCacheKeyFromUrl lower collate (u\<lparr>searchParams := ps @ qs\<rparr>)"
    if "lower n = ''api_key''"
    using effective_drop_credential [where lower = lower and k = n and u = u and ps = ps and x = s and qs = qs] that
    by (simp add: key_via_effective Let_def)
  from stable norepeat strip cred show ?thesis by blast
qed

theorem C5_key_canonical_witness:
  "buildCacheKeyFromUrl ascii_lower (\<lambda>k. k)
      \<lparr> pathname = ''/v1/search'',
        searchParams = [(''query'', ''dune''), (''API_KEY'', ''s3''), (''language'', ''en'')] \<rparr>
   = buildCacheKeyFromUrl ascii_lower (\<lambda>k. k)
      \<lparr> pathname = ''/v1/search'', searchParams = [(''language'', ''en''), (''query'', ''dune'')] \<rparr>
   \<and> buildCacheKeyFromUrl ascii_lower (\<lambda>k. k)
      \<lparr> pathname = ''/v1/search'', searchParams = [(''language'', ''en''), (''Api_Key'', ''s3''), (''query'', ''dune'')] \<rparr>
     = buildCacheKeyFromUrl ascii_lower (\<lambda>k. k)
      \<lparr> pathname = ''/v1/search'', searchParams = [(''language'', ''en''), (''query'', ''dune'')] \<rparr>"
proof -
  let ?u = "\<lparr> pathname = ''/v1/search'',
        searchParams = [(''query'', ''dune''), (''API_KEY'', ''s3''), (''language'', ''en'')] \<rparr>"
  let ?v = "\<lparr> pathname = ''/v1/search'', searchParams = [(''language'', ''en''), (''query'', ''dune'')] \<rparr>"
  have low: "ascii_lower ''API_KEY'' = ''api_key''" "ascii_lower ''Api_Key'' = ''api_key''"
    "ascii_lower ''query'' \<noteq> ''api_key''" "ascii_lower ''language'' \<noteq> ''api_key''"
    by (simp_all add: ascii_lower_def lower_char_def)
  have eu: "effective_params ascii_lower ?u = [(''query'', ''dune''), (''language'', ''en'')]"
    by (simp add: effective_params_def low)
  have ev: "effective_params ascii_lower ?v = [(''language'', ''en''), (''query'', ''dune'')]"
    by (simp add: effective_params_def low)
  have cls: "filter (\<lambda>(k, x). k = c) (effective_params ascii_lower ?u)
      = filter (\<lambda>(k, x). k = c) (effective_params ascii_lower ?v)"
    for c :: string
    unfolding eu ev by auto
  have ms: "mset (effective_params ascii_lower ?u) = mset (effective_params ascii_lower ?v)"
    unfolding eu ev by simp
  have ds: "distinct (map (\<lambda>(k, x). k) (effective_params ascii_lower ?u))"
    unfolding eu by simp
  from C5_key_canonical [of ?u ?v ascii_lower "\<lambda>k. k" "''Api_Key''" "[(''language'', ''en'')]" "''s3''"
      "[(''query'', ''dune'')]"] cls ms ds low(2)
  show ?thesis by simp
qed

text \<open>
  The claim as stated fails when a name is repeated with different values: the sort compares
  names only and is stable, so the two orders of \<open>a=1\<close> and \<open>a=2\<close> (the same parameter pairs)
  give different keys.
\<close>

theorem C5_counterexample:
  "pathname \<lparr> pathname = ''/x'', searchParams = [(''a'', ''1''), (''a'', ''2'')] \<rparr>
     = pathname \<lparr> pathname = ''/x'', searchParams = [(''a'', ''2''), (''a'', ''1'')] \<rparr>
   \<and> mset (searchParams \<lparr> pathname = ''/x'', searchParams = [(''a'', ''1''), (''a'', ''2'')] \<rparr>)
     = mset (searchParams \<lparr> pathname = ''/x'', searchParams = [(''a'', ''2''), (''a'', ''1'')] \<rparr>)
   \<and> buildCacheKeyFromUrl ascii_lower (\<lambda>k. k)
        \<lparr> pathname = ''/x'', searchParams = [(''a'', ''1''), (''a'', ''2'')] \<rparr>
       = ''/x?a=1&a=2''
   \<and> buildCacheKeyFromUrl ascii_lower (\<lambda>k. k)
        \<lparr> pathname = ''/x'', searchParams = [(''a'', ''2''), (''a'', ''1'')] \<rparr>
       = ''/x?a=2&a=1''"
  by (simp add: buildCacheKeyFromUrl_def params_toString_def form_encode_def encode_byte_def
        form_safe_def ascii_lower_def lower_char_def)

subsection \<open>List upserts\<close>

lemma findIndex_Some:
  "findIndex P xs = Some i \<Longrightarrow> i < length xs \<and> P (xs ! i) \<and> (\<forall>j<i. \<not> P (xs ! j))"
proof (induction xs arbitrary: i)
  case Nil
  then show ?case by simp
next
  case (Cons x xs)
  show ?case
  proof (cases "P x")
    case True
    with Cons.prems show ?thesis by simp
  next
    case False
    with Cons.prems obtain k where k: "findIndex P xs = Some k" "i = Suc k" by auto
    from Cons.IH [OF k(1)] False k(2) show ?thesis 
      by (auto simp add: nth_Cons split: nat.splits)
  qed
qed

lemma findIndex_None: "findIndex P xs = None \<longleftrightarrow> (\<forall>x\<in>set xs. \<not> P x)"
  by (induction xs) auto

lemma findIndex_exists: "(\<exists>x\<in>set xs. P x) \<Longrightarrow> \<exists>i. findIndex P xs = Some i"
  using findIndex_None [of P xs] by (cases "findIndex P xs") auto

lemma find_findIndex: "find P xs = map_option (\<lambda>i. xs ! i) (findIndex P xs)"
  by (induction xs) (auto simp add: option.map_comp comp_def)

lemma findIndex_append_new:
  "findIndex P xs = None \<Longrightarrow> P y \<Longrightarrow> findIndex P (xs @ [y]) = Some (length xs)"
  by (induction xs) (auto split: if_splits)

lemma findIndex_append_none:
  "findIndex P xs = None \<Longrightarrow> \<not> P y \<Longrightarrow> findIndex P (xs @ [y]) = None"
  by (simp add: findIndex_None)

lemma or_empty_Some: "or_empty (Some xs) = xs" "or_empty None = []"
  by (simp_all add: or_empty_def)

lemma map_store_at: "map f (store_at idx y xs) = store_at idx (f y) (map f xs)"
  by (cases idx) (simp_all add: store_at_def map_update)

lemma unique_ids_nth:
  "unique_ids S ids \<longleftrightarrow> (\<forall>i j. i < j \<longrightarrow> j < length ids \<longrightarrow> \<not> num_eq S (ids ! i) (ids ! j))"
  by (simp add: unique_ids_def sorted_wrt_iff_nth_less)

lemma unique_ids_neq:
  "unique_ids S ids \<Longrightarrow> i < length ids \<Longrightarrow> j < length ids \<Longrightarrow> i \<noteq> j \<Longrightarrow> \<not> num_eq S (ids ! i) (ids ! j)"
proof -
  assume u: "unique_ids S ids" and i: "i < length ids" and j: "j < length ids" and n: "i \<noteq> j"
  show ?thesis
  proof (cases "i < j")
    case True
    with u j show ?thesis by (simp add: unique_ids_nth)
  next
    case False
    with n have "j < i" by simp
    with u i have "\<not> num_eq S (ids ! j) (ids ! i)" by (simp add: unique_ids_nth)
    then show ?thesis using num_eq_sym by blast
  qed
qed

lemma unique_ids_distinct:
  assumes "\<forall>a\<in>set ids. Number_js S a \<noteq> NaN" and "unique_ids S ids"
  shows "distinct ids"
  unfolding distinct_conv_nth
proof (intro allI impI)
  fix i j assume i: "i < length ids" and j: "j < length ids" and n: "i \<noteq> j"
  from unique_ids_neq [OF assms(2) i j n] have ne: "\<not> num_eq S (ids ! i) (ids ! j)" .
  show "ids ! i \<noteq> ids ! j"
  proof
    assume e: "ids ! i = ids ! j"
    from assms(1) i have "Number_js S (ids ! i) \<noteq> NaN" by simp
    then have "num_eq S (ids ! i) (ids ! i)" by (rule num_eq_refl)
    with e ne show False by simp
  qed
qed

lemma unique_ids_append:
  "unique_ids S ids \<Longrightarrow> \<forall>a\<in>set ids. \<not> num_eq S a c \<Longrightarrow> unique_ids S (ids @ [c])"
  by (simp add: unique_ids_def sorted_wrt_append)

lemma unique_ids_update:
  assumes u: "unique_ids S ids" and i: "i < length ids" and m: "num_eq S (ids ! i) c"
  shows "unique_ids S (ids[i := c])"
  unfolding unique_ids_nth
proof (intro allI impI)
  fix a b assume ab: "a < b" and b: "b < length (ids[i := c])"
  then have bl: "b < length ids" and al: "a < length ids" by simp_all
  show "\<not> num_eq S (ids[i := c] ! a) (ids[i := c] ! b)"
  proof (cases "a = i")
    case True
    with ab have bi: "b \<noteq> i" by simp
    have "\<not> num_eq S (ids ! i) (ids ! b)" using unique_ids_neq [OF u i bl] bi by blast
    then have "\<not> num_eq S c (ids ! b)" using m num_eq_trans by blast
    with True bi i show ?thesis by simp
  next
    case False
    show ?thesis
    proof (cases "b = i")
      case True
      have "\<not> num_eq S (ids ! a) (ids ! i)" using unique_ids_neq [OF u al i False] .
      then have "\<not> num_eq S (ids ! a) c" using m num_eq_trans num_eq_sym by blast
      with True False i show ?thesis by simp
    next
      case bi: False
      from u ab bl have "\<not> num_eq S (ids ! a) (ids ! b)" by (simp add: unique_ids_nth)
      with False bi show ?thesis by simp
    qed
  qed
qed

lemma unique_ids_store_at:
  assumes u: "unique_ids S (map f xs)" and c: "f y = reparse c" and k: "keeps_number S c"
  shows "unique_ids S (map f (store_at (findIndex (\<lambda>x. num_eq S (f x) c) xs) y xs))"
proof (cases "findIndex (\<lambda>x. num_eq S (f x) c) xs")
  case None
  then have "\<forall>a\<in>set (map f xs). \<not> num_eq S a (reparse c)"
    by (auto simp add: findIndex_None num_eq_kept [OF k])
  from unique_ids_append [OF u this] None c show ?thesis by (simp add: store_at_def)
next
  case (Some i)
  from findIndex_Some [OF Some] have i: "i < length (map f xs)"
    and m: "num_eq S (map f xs ! i) (reparse c)"
    by (simp_all add: num_eq_kept [OF k])
  from unique_ids_update [OF u i m] Some c show ?thesis by (simp add: store_at_def map_update)
qed

lemma unique_match_index:
  assumes u: "unique_ids S (map f xs)" and i: "i < length xs" and m: "num_eq S (f (xs ! i)) c"
  shows "findIndex (\<lambda>x. num_eq S (f x) c) xs = Some i"
proof -
  from i m have "\<exists>x\<in>set xs. num_eq S (f x) c" by auto
  from findIndex_exists [OF this] obtain k where k: "findIndex (\<lambda>x. num_eq S (f x) c) xs = Some k" by blast
  from findIndex_Some [OF k] have kl: "k < length xs" and km: "num_eq S (f (xs ! k)) c" by simp_all
  have "k = i"
  proof (rule ccontr)
    assume "k \<noteq> i"
    with unique_ids_neq [OF u, of k i] kl i have "\<not> num_eq S (f (xs ! k)) (f (xs ! i))" by simp
    moreover from km m have "num_eq S (f (xs ! k)) (f (xs ! i))" using num_eq_trans num_eq_sym by blast
    ultimately show False by simp
  qed
  with k show ?thesis by simp
qed

lemma first_match_index:
  assumes "i < length xs" "P (xs ! i)" "\<forall>j<i. \<not> P (xs ! j)"
  shows "findIndex P xs = Some i"
proof -
  from assms(1,2) have "\<exists>x\<in>set xs. P x" by auto
  from findIndex_exists [OF this] obtain k where k: "findIndex P xs = Some k" by blast
  from findIndex_Some [OF k] have "P (xs ! k)" "\<forall>j<k. \<not> P (xs ! j)" by simp_all
  with assms(2,3) have "k = i" by (meson linorder_neqE_nat)
  with k show ?thesis by simp
qed

lemma match_index:
  assumes "i < length xs" "num_eq S (f (xs ! i)) c"
    and "unique_ids S (map f xs) \<or> (\<forall>j<i. \<not> num_eq S (f (xs ! j)) c)"
  shows "findIndex (\<lambda>x. num_eq S (f x) c) xs = Some i"
  using assms unique_match_index [of S f xs i c]
    first_match_index [of i xs "\<lambda>x. num_eq S (f x) c"] by blast

lemma store_at_append:
  assumes "\<forall>x\<in>set xs. \<not> P x"
  shows "store_at (findIndex P xs) y xs = xs @ [y]"
  using assms by (simp add: store_at_def findIndex_None [symmetric])

lemma list_all_store_at:
  assumes "list_all Q xs" "Q y"
  shows "list_all Q (store_at idx y xs)"
proof (cases idx)
  case None
  with assms show ?thesis by (simp add: store_at_def)
next
  case (Some i)
  have "set (xs[i := y]) \<subseteq> insert y (set xs)" by (rule set_update_subset_insert)
  with assms Some show ?thesis by (auto simp add: store_at_def list_all_iff)
qed

text \<open>What \<open>all\<close> reads, and what the three list statements write.\<close>

lemma cacheGet_up:
  "\<not> down env \<Longrightarrow>
   cacheGet decode env key = Inr (case cells env key of Stringified v \<Rightarrow> Some (decode v) | _ \<Rightarrow> None)"
  by (simp add: cacheGet_def split: cell.splits)

lemma run_series_seasons_down: "down env \<Longrightarrow> run_series_seasons S T env p = env"
  by (simp add: run_series_seasons_def cacheGet_def)

lemma run_series_episodes_down: "down env \<Longrightarrow> run_series_episodes S T env p = env"
  by (simp add: run_series_episodes_def cacheGet_def)

lemma run_episode_guest_stars_down: "down env \<Longrightarrow> run_episode_guest_stars S T env p = env"
  by (simp add: run_episode_guest_stars_def cacheGet_def)

lemma all_series_seasons_cells:
  "all_series_seasons T env sid lang =
     (if down env then []
      else case cells env (seasons_key T sid lang) of Stringified v \<Rightarrow> map reparse_season v | _ \<Rightarrow> [])"
  by (simp add: all_series_seasons_def cacheGet_def or_empty_def split: cell.splits)

lemma all_series_episodes_cells:
  "all_series_episodes T env sid lang sn =
     (if down env then []
      else case cells env (episodes_key T sid sn lang) of Stringified v \<Rightarrow> map reparse_episode v | _ \<Rightarrow> [])"
  by (simp add: all_series_episodes_def cacheGet_def or_empty_def split: cell.splits)

lemma all_series_seasons_stable:
  "map reparse_season (all_series_seasons T env sid lang) = all_series_seasons T env sid lang"
  by (simp add: all_series_seasons_cells reparse_season_idem split: cell.splits)

lemma all_series_episodes_stable:
  "map reparse_episode (all_series_episodes T env sid lang sn) = all_series_episodes T env sid lang sn"
  by (simp add: all_series_episodes_cells reparse_episode_idem split: cell.splits)

lemma stable_nth: "map f xs = xs \<Longrightarrow> i < length xs \<Longrightarrow> f (xs ! i) = xs ! i"
  by (metis nth_map)

lemma run_series_seasons_up:
  assumes "\<not> down env"
  shows "run_series_seasons S T env p =
     env\<lparr>cells := (cells env)(seasons_key T (si_seriesId p) (si_language p) :=
        Stringified (store_at (findIndex (\<lambda>s. num_eq S (se_id s) (si_season_id p))
                    (all_series_seasons T env (si_seriesId p) (si_language p)))
                 (season_of p) (all_series_seasons T env (si_seriesId p) (si_language p))))\<rparr>"
  using assms
  by (simp add: run_series_seasons_def all_series_seasons_def cacheGet_up cacheSet_def Let_def)

lemma run_series_episodes_up:
  assumes "\<not> down env"
  shows "run_series_episodes S T env p =
     (let arr = all_series_episodes T env (ei_seriesId p) (ei_language p) (ei_season_number p);
          idx = findIndex (\<lambda>e. num_eq S (ep_episode_id e) (ei_episode_id p)) arr
      in env\<lparr>cells := (cells env)(episodes_key T (ei_seriesId p) (ei_season_number p) (ei_language p) :=
           Stringified (store_at idx
              (episode_of p (case idx of None \<Rightarrow> [] | Some i \<Rightarrow> or_empty (ep_guest_stars (arr ! i))))
              arr))\<rparr>)"
  using assms
  by (simp add: run_series_episodes_def all_series_episodes_def cacheGet_up cacheSet_def Let_def
        find_findIndex split: option.splits)

lemma run_episode_guest_stars_up:
  assumes "\<not> down env"
  shows "run_episode_guest_stars S T env p =
     (let arr = all_series_episodes T env (gi_seriesId p) (gi_language p) (gi_season_number p);
          m = (\<lambda>e. num_eq S (ep_episode_id e) (gi_episode_id p));
          arr1 = (if findIndex m arr = None then arr @ [placeholder_of p] else arr)
      in case findIndex m arr1 of
           None \<Rightarrow> env
         | Some i \<Rightarrow>
             env\<lparr>cells := (cells env)(episodes_key T (gi_seriesId p) (gi_season_number p) (gi_language p) :=
               Stringified (arr1[i := (arr1 ! i)\<lparr>ep_guest_stars :=
                  Some (store_at (findIndex (\<lambda>g. num_eq S (g_id g) (gi_guest_id p))
                                   (or_empty (ep_guest_stars (arr1 ! i))))
                          (guest_of p) (or_empty (ep_guest_stars (arr1 ! i))))\<rparr>]))\<rparr>)"
  using assms
  by (simp add: run_episode_guest_stars_def all_series_episodes_def cacheGet_up cacheSet_def Let_def
        split: option.splits)

lemma seasons_after_run:
  assumes "\<not> down env"
  shows "all_series_seasons T (run_series_seasons S T env p) (si_seriesId p) (si_language p) =
     store_at (findIndex (\<lambda>s. num_eq S (se_id s) (si_season_id p))
                 (all_series_seasons T env (si_seriesId p) (si_language p)))
       (reparse_season (season_of p)) (all_series_seasons T env (si_seriesId p) (si_language p))"
proof -
  let ?arr = "all_series_seasons T env (si_seriesId p) (si_language p)"
  have "all_series_seasons T (run_series_seasons S T env p) (si_seriesId p) (si_language p)
      = map reparse_season (store_at (findIndex (\<lambda>s. num_eq S (se_id s) (si_season_id p)) ?arr)
                              (season_of p) ?arr)"
    using assms by (simp add: run_series_seasons_up) (simp add: all_series_seasons_cells)
  then show ?thesis by (simp add: map_store_at all_series_seasons_stable)
qed

lemma episodes_after_run:
  assumes "\<not> down env"
  shows "all_series_episodes T (run_series_episodes S T env p)
            (ei_seriesId p) (ei_language p) (ei_season_number p) =
     (let arr = all_series_episodes T env (ei_seriesId p) (ei_language p) (ei_season_number p);
          idx = findIndex (\<lambda>e. num_eq S (ep_episode_id e) (ei_episode_id p)) arr
      in store_at idx
           (reparse_episode
              (episode_of p (case idx of None \<Rightarrow> [] | Some i \<Rightarrow> or_empty (ep_guest_stars (arr ! i)))))
           arr)"
proof -
  let ?arr = "all_series_episodes T env (ei_seriesId p) (ei_language p) (ei_season_number p)"
  let ?idx = "findIndex (\<lambda>e. num_eq S (ep_episode_id e) (ei_episode_id p)) ?arr"
  let ?new = "episode_of p (case ?idx of None \<Rightarrow> [] | Some i \<Rightarrow> or_empty (ep_guest_stars (?arr ! i)))"
  have "all_series_episodes T (run_series_episodes S T env p)
            (ei_seriesId p) (ei_language p) (ei_season_number p)
      = map reparse_episode (store_at ?idx ?new ?arr)"
    using assms by (simp add: run_series_episodes_up Let_def) (simp add: all_series_episodes_cells)
  then show ?thesis by (simp add: map_store_at all_series_episodes_stable Let_def)
qed

lemma stored_episode_of:
  assumes "map reparse_guest gs = gs"
  shows "ep_guest_stars (reparse_episode (episode_of p gs)) = Some gs"
    and "ep_episode_id (reparse_episode (episode_of p gs)) = reparse (ei_episode_id p)"
  using assms by (simp_all add: reparse_episode_def episode_of_def)

lemma put_guest_stored:
  assumes "map reparse_guest gs = gs"
  shows "map reparse_guest (store_at (findIndex (\<lambda>g. num_eq S (g_id g) (gi_guest_id p)) gs) (guest_of p) gs)
       = put_guest S gs (guest_of p)"
  using assms by (simp add: map_store_at put_guest_def guest_of_def)

lemma episodes_after_guest_run:
  assumes up: "\<not> down env"
  shows "all_series_episodes T (run_episode_guest_stars S T env p)
            (gi_seriesId p) (gi_language p) (gi_season_number p) =
     (let arr = all_series_episodes T env (gi_seriesId p) (gi_language p) (gi_season_number p)
      in case findIndex (\<lambda>e. num_eq S (ep_episode_id e) (gi_episode_id p)) arr of
           Some i \<Rightarrow>
             arr[i := (arr ! i)\<lparr>ep_guest_stars :=
                  Some (put_guest S (or_empty (ep_guest_stars (arr ! i))) (guest_of p))\<rparr>]
         | None \<Rightarrow>
             (if Number_js S (gi_episode_id p) \<noteq> NaN
              then arr @ [(reparse_episode (placeholder_of p))
                            \<lparr>ep_guest_stars := Some [reparse_guest (guest_of p)]\<rparr>]
              else arr))"
proof -
  let ?key = "episodes_key T (gi_seriesId p) (gi_season_number p) (gi_language p)"
  let ?arr = "all_series_episodes T env (gi_seriesId p) (gi_language p) (gi_season_number p)"
  let ?m = "\<lambda>e. num_eq S (ep_episode_id e) (gi_episode_id p)"
  let ?h = "\<lambda>g. num_eq S (g_id g) (gi_guest_id p)"
  have stable: "map reparse_episode ?arr = ?arr" by (rule all_series_episodes_stable)
  have read: "all_series_episodes T (env\<lparr>cells := (cells env)(?key := Stringified xs)\<rparr>)
                (gi_seriesId p) (gi_language p) (gi_season_number p) = map reparse_episode xs" for xs
    using up by (simp add: all_series_episodes_cells)
  show ?thesis
  proof (cases "findIndex ?m ?arr")
    case (Some i)
    from findIndex_Some [OF Some] have i: "i < length ?arr" by simp
    let ?gs = "or_empty (ep_guest_stars (?arr ! i))"
    have ei: "reparse_episode (?arr ! i) = ?arr ! i" using stable_nth [OF stable i] .
    have gs: "map reparse_guest ?gs = ?gs" by (rule reparse_guests_of_stable [OF ei])
    have run: "run_episode_guest_stars S T env p =
        env\<lparr>cells := (cells env)(?key :=
          Stringified (?arr[i := (?arr ! i)\<lparr>ep_guest_stars := Some (store_at (findIndex ?h ?gs) (guest_of p) ?gs)\<rparr>]))\<rparr>"
      unfolding run_episode_guest_stars_up [OF up] by (simp add: Let_def Some)
    have "all_series_episodes T (run_episode_guest_stars S T env p)
            (gi_seriesId p) (gi_language p) (gi_season_number p)
        = (map reparse_episode ?arr)[i := reparse_episode
             ((?arr ! i)\<lparr>ep_guest_stars := Some (store_at (findIndex ?h ?gs) (guest_of p) ?gs)\<rparr>)]"
      unfolding run read by (simp add: map_update)
    also have "\<dots> = ?arr[i := (?arr ! i)\<lparr>ep_guest_stars := Some (put_guest S ?gs (guest_of p))\<rparr>]"
      by (simp add: stable reparse_episode_guest_update [OF ei] put_guest_stored [OF gs])
    finally show ?thesis by (simp add: Let_def Some)
  next
    case None
    show ?thesis
    proof (cases "Number_js S (gi_episode_id p) = NaN")
      case True
      then have "\<not> ?m (placeholder_of p)" by (simp add: num_eq_def placeholder_of_def)
      from findIndex_append_none [OF None this]
      have "run_episode_guest_stars S T env p = env"
        unfolding run_episode_guest_stars_up [OF up] by (simp add: Let_def None)
      with True None show ?thesis by (simp add: Let_def)
    next
      case False
      then have "?m (placeholder_of p)" by (simp add: num_eq_def placeholder_of_def)
      from findIndex_append_new [OF None this]
      have idx: "findIndex ?m (?arr @ [placeholder_of p]) = Some (length ?arr)" .
      have run: "run_episode_guest_stars S T env p =
          env\<lparr>cells := (cells env)(?key :=
            Stringified (?arr @ [(placeholder_of p)\<lparr>ep_guest_stars := Some [guest_of p]\<rparr>]))\<rparr>"
        unfolding run_episode_guest_stars_up [OF up]
        by (simp add: Let_def None idx) (simp add: store_at_def or_empty_def placeholder_of_def)
      have "all_series_episodes T (run_episode_guest_stars S T env p)
              (gi_seriesId p) (gi_language p) (gi_season_number p)
          = ?arr @ [reparse_episode ((placeholder_of p)\<lparr>ep_guest_stars := Some [guest_of p]\<rparr>)]"
        unfolding run read by (simp add: stable)
      also have "reparse_episode ((placeholder_of p)\<lparr>ep_guest_stars := Some [guest_of p]\<rparr>)
          = (reparse_episode (placeholder_of p))\<lparr>ep_guest_stars := Some [reparse_guest (guest_of p)]\<rparr>"
        by (simp add: reparse_episode_def)
      finally show ?thesis using False None by (simp add: Let_def)
    qed
  qed
qed

text \<open>Uniqueness of ids is kept by an upsert whose id keeps its number in the store.\<close>

lemma seasons_unique_store_at:
  "seasons_unique S arr \<Longrightarrow> keeps_number S (si_season_id p) \<Longrightarrow>
   seasons_unique S (store_at (findIndex (\<lambda>s. num_eq S (se_id s) (si_season_id p)) arr)
                       (reparse_season (season_of p)) arr)"
  unfolding seasons_unique_def
  by (rule unique_ids_store_at) (simp_all add: season_of_def reparse_season_def)

lemma episodes_unique_store_at:
  assumes u: "episodes_unique S arr" and k: "keeps_number S (ei_episode_id p)"
    and stable: "map reparse_episode arr = arr"
  shows "episodes_unique S
     (store_at (findIndex (\<lambda>e. num_eq S (ep_episode_id e) (ei_episode_id p)) arr)
        (reparse_episode
           (episode_of p (case findIndex (\<lambda>e. num_eq S (ep_episode_id e) (ei_episode_id p)) arr of
                            None \<Rightarrow> [] | Some i \<Rightarrow> or_empty (ep_guest_stars (arr ! i))))) arr)"
proof -
  let ?idx = "findIndex (\<lambda>e. num_eq S (ep_episode_id e) (ei_episode_id p)) arr"
  let ?gs = "case ?idx of None \<Rightarrow> [] | Some i \<Rightarrow> or_empty (ep_guest_stars (arr ! i))"
  from u have ids: "unique_ids S (map ep_episode_id arr)" and gs: "list_all (guests_unique S) arr"
    by (simp_all add: episodes_unique_def)
  have sg: "map reparse_guest ?gs = ?gs"
  proof (cases ?idx)
    case None
    then show ?thesis by simp
  next
    case (Some i)
    from findIndex_Some [OF Some] have "i < length arr" by simp
    from reparse_guests_of_stable [OF stable_nth [OF stable this]] Some show ?thesis by simp
  qed
  have a: "unique_ids S (map ep_episode_id (store_at ?idx (reparse_episode (episode_of p ?gs)) arr))"
    by (rule unique_ids_store_at [OF ids _ k]) (simp add: stored_episode_of [OF sg])
  have "unique_ids S (map g_id ?gs)"
  proof (cases ?idx)
    case None
    then show ?thesis by (simp add: unique_ids_def)
  next
    case (Some i)
    from findIndex_Some [OF Some] have "arr ! i \<in> set arr" by simp
    with gs have "guests_unique S (arr ! i)" by (simp add: list_all_iff)
    with Some show ?thesis by (simp add: guests_unique_def)
  qed
  then have "guests_unique S (reparse_episode (episode_of p ?gs))"
    by (simp add: guests_unique_def stored_episode_of [OF sg] or_empty_def)
  from list_all_store_at [OF gs this] a show ?thesis by (simp add: episodes_unique_def)
qed

lemma put_guest_unique:
  assumes "unique_ids S (map g_id gs)" and "keeps_number S (g_id g)"
  shows "unique_ids S (map g_id (put_guest S gs g))"
  unfolding put_guest_def
  by (rule unique_ids_store_at [OF assms(1) _ assms(2)]) (simp add: reparse_guest_def)

lemma episodes_unique_guest_update:
  assumes u: "episodes_unique S arr" and i: "i < length arr" and g: "guests_unique S e'"
    and id: "ep_episode_id e' = ep_episode_id (arr ! i)"
  shows "episodes_unique S (arr[i := e'])"
proof -
  have "map ep_episode_id (arr[i := e']) = map ep_episode_id arr"
    using i id by (simp add: map_update list_update_same_conv)
  moreover have "list_all (guests_unique S) (arr[i := e'])"
    using list_all_store_at [of "guests_unique S" arr e' "Some i"] u g
    by (simp add: episodes_unique_def store_at_def)
  ultimately show ?thesis using u by (simp add: episodes_unique_def)
qed

lemma episodes_unique_guest_run:
  assumes u: "episodes_unique S arr"
    and ke: "keeps_number S (gi_episode_id p)" and kg: "keeps_number S (gi_guest_id p)"
  shows "episodes_unique S
     (case findIndex (\<lambda>e. num_eq S (ep_episode_id e) (gi_episode_id p)) arr of
           Some i \<Rightarrow>
             arr[i := (arr ! i)\<lparr>ep_guest_stars :=
                  Some (put_guest S (or_empty (ep_guest_stars (arr ! i))) (guest_of p))\<rparr>]
         | None \<Rightarrow>
             (if Number_js S (gi_episode_id p) \<noteq> NaN
              then arr @ [(reparse_episode (placeholder_of p))
                            \<lparr>ep_guest_stars := Some [reparse_guest (guest_of p)]\<rparr>]
              else arr))"
proof (cases "findIndex (\<lambda>e. num_eq S (ep_episode_id e) (gi_episode_id p)) arr")
  case (Some i)
  from findIndex_Some [OF Some] have i: "i < length arr" by simp
  then have "arr ! i \<in> set arr" by (rule nth_mem)
  with u have "unique_ids S (map g_id (or_empty (ep_guest_stars (arr ! i))))"
    by (simp add: episodes_unique_def list_all_iff guests_unique_def)
  from put_guest_unique [OF this, of "guest_of p"] kg
  have "guests_unique S ((arr ! i)\<lparr>ep_guest_stars :=
                  Some (put_guest S (or_empty (ep_guest_stars (arr ! i))) (guest_of p))\<rparr>)"
    by (simp add: guests_unique_def or_empty_def guest_of_def)
  then have "episodes_unique S (arr[i := (arr ! i)\<lparr>ep_guest_stars :=
                  Some (put_guest S (or_empty (ep_guest_stars (arr ! i))) (guest_of p))\<rparr>])"
    by (intro episodes_unique_guest_update [OF u i]) simp_all
  with Some show ?thesis by simp
next
  case None
  let ?ph = "(reparse_episode (placeholder_of p))\<lparr>ep_guest_stars := Some [reparse_guest (guest_of p)]\<rparr>"
  from None have "\<forall>a\<in>set (map ep_episode_id arr). \<not> num_eq S a (reparse (gi_episode_id p))"
    by (auto simp add: findIndex_None num_eq_kept [OF ke])
  with u have "unique_ids S (map ep_episode_id arr @ [reparse (gi_episode_id p)])"
    by (simp add: episodes_unique_def unique_ids_append)
  moreover have "guests_unique S ?ph"
    by (simp add: guests_unique_def or_empty_def unique_ids_def)
  ultimately have "episodes_unique S (arr @ [?ph])"
    using u by (simp add: episodes_unique_def placeholder_of_def reparse_episode_def)
  with u None show ?thesis by simp
qed

lemma guest_of_id: "g_id (guest_of p) = gi_guest_id p"
  by (simp add: guest_of_def)

lemma reparse_sample_season:
  "reparse_season (sample_season i nm) = sample_season (reparse i) (reparse nm)"
  by (simp add: reparse_season_def sample_season_def)

lemma reparse_sample_guest:
  "reparse_guest (sample_guest i nm) = sample_guest (reparse i) (reparse nm)"
  by (simp add: reparse_guest_def sample_guest_def)

lemma reparse_sample_episode:
  "reparse_episode (sample_episode i nm gs) = sample_episode (reparse i) (reparse nm) (map reparse_guest gs)"
  by (simp add: reparse_episode_def sample_episode_def)

lemma stored_samples:
  "reparse_season (season_of (sample_season_insert i nm)) = sample_season (reparse i) (reparse nm)"
  "reparse_guest (guest_of (sample_guest_insert e i nm)) = sample_guest (reparse i) (reparse nm)"
  "map reparse_guest gs = gs \<Longrightarrow>
   reparse_episode (episode_of (sample_episode_insert i nm) gs) = sample_episode (reparse i) (reparse nm) gs"
  by (simp_all add: reparse_season_def season_of_def sample_season_insert_def sample_season_def
        reparse_guest_def guest_of_def sample_guest_insert_def sample_guest_def
        reparse_episode_def episode_of_def sample_episode_insert_def sample_episode_def)

lemma num_eq_samples:
  "num_eq decimal_ids (JFinite 20) (JStr ''20'')"
  "num_eq decimal_ids (JFinite 102) (JFinite 102)"
  "\<not> num_eq decimal_ids (JFinite 10) (JStr ''20'')"
  "\<not> num_eq decimal_ids (JFinite 101) (JFinite 102)"
  "num_eq decimal_ids (JFinite 8) (JStr ''8'')"
  "\<not> num_eq decimal_ids (JFinite 7) (JStr ''8'')"
  by (simp_all add: num_eq_def decimal_of_string_def digits_value_def is_digit_def)

text \<open>
  C3 (as amended). In each of the three parent-scoped lists (the seasons of a series, the
  episodes of a season, the guest stars of an episode) an upsert whose child id matches the id
  of an existing element (ids are compared as numbers; the element is the first such one, the
  only one when the ids of the list are unique) replaces that element at its index by the new
  element as the store returns it: the length of the list is unchanged and every other
  element is the one that was there before. For the guest stars the owning episode keeps its
  place and its other fields, and the other episodes are untouched. An upsert whose child id
  matches no element appends the new element at the end. When the incoming id keeps its number
  in the store (as every finite number does), a list whose ids are unique has unique ids
  afterwards; ids are unique when no two of them are equal as numbers, which for ids that all
  have a numeric value means that they are pairwise different. The lists are read with \<open>all\<close>
  before and after the statement, the backend being reachable.
\<close>

theorem C3_list_upsert_in_place:
  assumes up: "\<not> down senv" "\<not> down env" "\<not> down genv"
    and sarr: "sarr = all_series_seasons T senv (si_seriesId sp) (si_language sp)"
    and sarr': "sarr' = all_series_seasons T (run_series_seasons S T senv sp) (si_seriesId sp) (si_language sp)"
    and earr: "earr = all_series_episodes T env (ei_seriesId ep) (ei_language ep) (ei_season_number ep)"
    and earr': "earr' = all_series_episodes T (run_series_episodes S T env ep)
                          (ei_seriesId ep) (ei_language ep) (ei_season_number ep)"
    and garr: "garr = all_series_episodes T genv (gi_seriesId gp) (gi_language gp) (gi_season_number gp)"
    and garr': "garr' = all_series_episodes T (run_episode_guest_stars S T genv gp)
                          (gi_seriesId gp) (gi_language gp) (gi_season_number gp)"
  shows
    "(i < length sarr \<and> num_eq S (se_id (sarr ! i)) (si_season_id sp)
        \<and> (seasons_unique S sarr \<or> (\<forall>j<i. \<not> num_eq S (se_id (sarr ! j)) (si_season_id sp)))
      \<longrightarrow> sarr' = sarr[i := reparse_season (season_of sp)] \<and> length sarr' = length sarr
          \<and> (\<forall>j<length sarr. j \<noteq> i \<longrightarrow> sarr' ! j = sarr ! j))
     \<and> ((\<forall>s\<in>set sarr. \<not> num_eq S (se_id s) (si_season_id sp))
          \<longrightarrow> sarr' = sarr @ [reparse_season (season_of sp)])
     \<and> (seasons_unique S sarr \<and> keeps_number S (si_season_id sp) \<longrightarrow> seasons_unique S sarr')
     \<and> (i < length earr \<and> num_eq S (ep_episode_id (earr ! i)) (ei_episode_id ep)
        \<and> (episodes_unique S earr \<or> (\<forall>j<i. \<not> num_eq S (ep_episode_id (earr ! j)) (ei_episode_id ep)))
      \<longrightarrow> earr' = earr[i := reparse_episode (episode_of ep (or_empty (ep_guest_stars (earr ! i))))]
          \<and> length earr' = length earr
          \<and> (\<forall>j<length earr. j \<noteq> i \<longrightarrow> earr' ! j = earr ! j))
     \<and> ((\<forall>e\<in>set earr. \<not> num_eq S (ep_episode_id e) (ei_episode_id ep))
          \<longrightarrow> earr' = earr @ [reparse_episode (episode_of ep [])])
     \<and> (episodes_unique S earr \<and> keeps_number S (ei_episode_id ep) \<longrightarrow> episodes_unique S earr')
     \<and> (k < length garr \<and> num_eq S (ep_episode_id (garr ! k)) (gi_episode_id gp)
        \<and> (episodes_unique S garr \<or> (\<forall>j<k. \<not> num_eq S (ep_episode_id (garr ! j)) (gi_episode_id gp)))
      \<longrightarrow> length garr' = length garr
          \<and> (\<forall>j<length garr. j \<noteq> k \<longrightarrow> garr' ! j = garr ! j)
          \<and> garr' ! k = (garr ! k)\<lparr>ep_guest_stars := ep_guest_stars (garr' ! k)\<rparr>
          \<and> (i < length (or_empty (ep_guest_stars (garr ! k)))
               \<and> num_eq S (g_id (or_empty (ep_guest_stars (garr ! k)) ! i)) (gi_guest_id gp)
               \<and> (episodes_unique S garr
                    \<or> (\<forall>j<i. \<not> num_eq S (g_id (or_empty (ep_guest_stars (garr ! k)) ! j)) (gi_guest_id gp)))
              \<longrightarrow> ep_guest_stars (garr' ! k)
                    = Some ((or_empty (ep_guest_stars (garr ! k)))[i := reparse_guest (guest_of gp)]))
          \<and> ((\<forall>g\<in>set (or_empty (ep_guest_stars (garr ! k))). \<not> num_eq S (g_id g) (gi_guest_id gp))
              \<longrightarrow> ep_guest_stars (garr' ! k)
                    = Some (or_empty (ep_guest_stars (garr ! k)) @ [reparse_guest (guest_of gp)])))
     \<and> (episodes_unique S garr \<and> keeps_number S (gi_episode_id gp) \<and> keeps_number S (gi_guest_id gp)
          \<longrightarrow> episodes_unique S garr')
     \<and> ((\<forall>a\<in>set ids. Number_js S a \<noteq> NaN) \<and> unique_ids S ids \<longrightarrow> distinct ids)"
proof -
  let ?sm = "\<lambda>s. num_eq S (se_id s) (si_season_id sp)"
  let ?em = "\<lambda>e. num_eq S (ep_episode_id e) (ei_episode_id ep)"
  let ?gm = "\<lambda>e. num_eq S (ep_episode_id e) (gi_episode_id gp)"
  let ?hm = "\<lambda>g. num_eq S (g_id g) (gi_guest_id gp)"
  have s_eq: "sarr' = store_at (findIndex ?sm sarr) (reparse_season (season_of sp)) sarr"
    unfolding sarr sarr' by (rule seasons_after_run [OF up(1)])
  have s1: "sarr' = sarr[i := reparse_season (season_of sp)] \<and> length sarr' = length sarr
          \<and> (\<forall>j<length sarr. j \<noteq> i \<longrightarrow> sarr' ! j = sarr ! j)"
    if "i < length sarr" "?sm (sarr ! i)"
       "seasons_unique S sarr \<or> (\<forall>j<i. \<not> ?sm (sarr ! j))"
  proof -
    from that have "findIndex ?sm sarr = Some i"
      by (intro match_index) (simp_all add: seasons_unique_def)
    with s_eq have "sarr' = sarr[i := reparse_season (season_of sp)]" by (simp add: store_at_def)
    with that(1) show ?thesis by simp
  qed
  have s2: "sarr' = sarr @ [reparse_season (season_of sp)]" if "\<forall>s\<in>set sarr. \<not> ?sm s"
    using s_eq store_at_append [OF that] by simp
  have s3: "seasons_unique S sarr'" if "seasons_unique S sarr" "keeps_number S (si_season_id sp)"
    unfolding s_eq by (rule seasons_unique_store_at [OF that])
  have e_eq: "earr' = store_at (findIndex ?em earr)
        (reparse_episode (episode_of ep (case findIndex ?em earr of None \<Rightarrow> []
                        | Some i \<Rightarrow> or_empty (ep_guest_stars (earr ! i))))) earr"
    unfolding earr earr' using episodes_after_run [OF up(2), of T S ep] by (simp add: Let_def)
  have e1: "earr' = earr[i := reparse_episode (episode_of ep (or_empty (ep_guest_stars (earr ! i))))]
          \<and> length earr' = length earr
          \<and> (\<forall>j<length earr. j \<noteq> i \<longrightarrow> earr' ! j = earr ! j)"
    if "i < length earr" "?em (earr ! i)"
       "episodes_unique S earr \<or> (\<forall>j<i. \<not> ?em (earr ! j))"
  proof -
    from that have "findIndex ?em earr = Some i"
      by (intro match_index) (auto simp add: episodes_unique_def)
    with e_eq have "earr' = earr[i := reparse_episode (episode_of ep (or_empty (ep_guest_stars (earr ! i))))]"
      by (simp add: store_at_def)
    with that(1) show ?thesis by simp
  qed
  have e2: "earr' = earr @ [reparse_episode (episode_of ep [])]" if "\<forall>e\<in>set earr. \<not> ?em e"
  proof -
    from that have "findIndex ?em earr = None" by (simp add: findIndex_None)
    with e_eq show ?thesis by (simp add: store_at_def)
  qed
  have e3: "episodes_unique S earr'" if "episodes_unique S earr" "keeps_number S (ei_episode_id ep)"
    unfolding e_eq
    by (rule episodes_unique_store_at [OF that]) (simp add: earr all_series_episodes_stable)
  have g_eq: "garr' =
     (case findIndex ?gm garr of
           Some i \<Rightarrow>
             garr[i := (garr ! i)\<lparr>ep_guest_stars :=
                  Some (put_guest S (or_empty (ep_guest_stars (garr ! i))) (guest_of gp))\<rparr>]
         | None \<Rightarrow>
             (if Number_js S (gi_episode_id gp) \<noteq> NaN
              then garr @ [(reparse_episode (placeholder_of gp))
                            \<lparr>ep_guest_stars := Some [reparse_guest (guest_of gp)]\<rparr>]
              else garr))"
    unfolding garr garr' using episodes_after_guest_run [OF up(3), of T S gp] by (simp add: Let_def)
  have g3: "episodes_unique S garr'"
    if "episodes_unique S garr" "keeps_number S (gi_episode_id gp)" "keeps_number S (gi_guest_id gp)"
    unfolding g_eq by (rule episodes_unique_guest_run [OF that])
  have g1: "length garr' = length garr
          \<and> (\<forall>j<length garr. j \<noteq> k \<longrightarrow> garr' ! j = garr ! j)
          \<and> garr' ! k = (garr ! k)\<lparr>ep_guest_stars := ep_guest_stars (garr' ! k)\<rparr>
          \<and> (i < length (or_empty (ep_guest_stars (garr ! k)))
               \<and> ?hm (or_empty (ep_guest_stars (garr ! k)) ! i)
               \<and> (episodes_unique S garr
                    \<or> (\<forall>j<i. \<not> ?hm (or_empty (ep_guest_stars (garr ! k)) ! j)))
              \<longrightarrow> ep_guest_stars (garr' ! k)
                    = Some ((or_empty (ep_guest_stars (garr ! k)))[i := reparse_guest (guest_of gp)]))
          \<and> ((\<forall>g\<in>set (or_empty (ep_guest_stars (garr ! k))). \<not> ?hm g)
              \<longrightarrow> ep_guest_stars (garr' ! k)
                    = Some (or_empty (ep_guest_stars (garr ! k)) @ [reparse_guest (guest_of gp)]))"
    if k: "k < length garr" "?gm (garr ! k)"
       "episodes_unique S garr \<or> (\<forall>j<k. \<not> ?gm (garr ! j))"
  proof -
    let ?gs = "or_empty (ep_guest_stars (garr ! k))"
    let ?hm' = "\<lambda>x. num_eq S (g_id x) (g_id (guest_of gp))"
    have hm: "?hm' = ?hm" by (simp add: guest_of_def)
    from k have fk: "findIndex ?gm garr = Some k"
      by (intro match_index) (auto simp add: episodes_unique_def)
    with g_eq have eq: "garr' = garr[k := (garr ! k)\<lparr>ep_guest_stars :=
        Some (put_guest S ?gs (guest_of gp))\<rparr>]"
      by simp
    have gk: "ep_guest_stars (garr' ! k)
        = Some (store_at (findIndex ?hm ?gs) (reparse_guest (guest_of gp)) ?gs)"
      using eq k(1) by (simp add: put_guest_def hm)
    have a: "length garr' = length garr" using eq by simp
    have b: "\<forall>j<length garr. j \<noteq> k \<longrightarrow> garr' ! j = garr ! j" using eq by simp
    have c: "garr' ! k = (garr ! k)\<lparr>ep_guest_stars := ep_guest_stars (garr' ! k)\<rparr>"
      using eq k(1) by simp
    have d: "ep_guest_stars (garr' ! k) = Some (?gs[i := reparse_guest (guest_of gp)])"
      if h: "i < length ?gs" "?hm (?gs ! i)" "episodes_unique S garr \<or> (\<forall>j<i. \<not> ?hm (?gs ! j))"
    proof -
      have "episodes_unique S garr \<Longrightarrow> unique_ids S (map g_id ?gs)"
        using k(1) by (simp add: episodes_unique_def list_all_iff guests_unique_def)
      with h have "findIndex ?hm ?gs = Some i" by (intro match_index) auto
      with gk show ?thesis by (simp add: store_at_def)
    qed
    have e: "ep_guest_stars (garr' ! k) = Some (?gs @ [reparse_guest (guest_of gp)])"
      if "\<forall>g\<in>set ?gs. \<not> ?hm g"
      using gk store_at_append [OF that] by simp
    from d have d': "i < length ?gs \<and> ?hm (?gs ! i)
        \<and> (episodes_unique S garr \<or> (\<forall>j<i. \<not> ?hm (?gs ! j)))
        \<longrightarrow> ep_guest_stars (garr' ! k) = Some (?gs[i := reparse_guest (guest_of gp)])" by blast
    from e have e': "(\<forall>g\<in>set ?gs. \<not> ?hm g)
        \<longrightarrow> ep_guest_stars (garr' ! k) = Some (?gs @ [reparse_guest (guest_of gp)])" by blast
    show ?thesis using a b c d' e' by (intro conjI) assumption+
  qed
  from s1 have S1: "i < length sarr \<and> ?sm (sarr ! i)
        \<and> (seasons_unique S sarr \<or> (\<forall>j<i. \<not> ?sm (sarr ! j)))
      \<longrightarrow> sarr' = sarr[i := reparse_season (season_of sp)] \<and> length sarr' = length sarr
          \<and> (\<forall>j<length sarr. j \<noteq> i \<longrightarrow> sarr' ! j = sarr ! j)" by blast
  from s2 have S2: "(\<forall>s\<in>set sarr. \<not> ?sm s) \<longrightarrow> sarr' = sarr @ [reparse_season (season_of sp)]" by blast
  from s3 have S3: "seasons_unique S sarr \<and> keeps_number S (si_season_id sp) \<longrightarrow> seasons_unique S sarr'"
    by blast
  from e1 have E1: "i < length earr \<and> ?em (earr ! i)
        \<and> (episodes_unique S earr \<or> (\<forall>j<i. \<not> ?em (earr ! j)))
      \<longrightarrow> earr' = earr[i := reparse_episode (episode_of ep (or_empty (ep_guest_stars (earr ! i))))]
          \<and> length earr' = length earr
          \<and> (\<forall>j<length earr. j \<noteq> i \<longrightarrow> earr' ! j = earr ! j)" by blast
  from e2 have E2: "(\<forall>e\<in>set earr. \<not> ?em e) \<longrightarrow> earr' = earr @ [reparse_episode (episode_of ep [])]"
    by blast
  from e3 have E3: "episodes_unique S earr \<and> keeps_number S (ei_episode_id ep) \<longrightarrow> episodes_unique S earr'"
    by blast
  from g1 have G1: "k < length garr \<and> ?gm (garr ! k)
        \<and> (episodes_unique S garr \<or> (\<forall>j<k. \<not> ?gm (garr ! j)))
      \<longrightarrow> length garr' = length garr
          \<and> (\<forall>j<length garr. j \<noteq> k \<longrightarrow> garr' ! j = garr ! j)
          \<and> garr' ! k = (garr ! k)\<lparr>ep_guest_stars := ep_guest_stars (garr' ! k)\<rparr>
          \<and> (i < length (or_empty (ep_guest_stars (garr ! k)))
               \<and> ?hm (or_empty (ep_guest_stars (garr ! k)) ! i)
               \<and> (episodes_unique S garr
                    \<or> (\<forall>j<i. \<not> ?hm (or_empty (ep_guest_stars (garr ! k)) ! j)))
              \<longrightarrow> ep_guest_stars (garr' ! k)
                    = Some ((or_empty (ep_guest_stars (garr ! k)))[i := reparse_guest (guest_of gp)]))
          \<and> ((\<forall>g\<in>set (or_empty (ep_guest_stars (garr ! k))). \<not> ?hm g)
              \<longrightarrow> ep_guest_stars (garr' ! k)
                    = Some (or_empty (ep_guest_stars (garr ! k)) @ [reparse_guest (guest_of gp)]))" by blast
  from g3 have G3: "episodes_unique S garr \<and> keeps_number S (gi_episode_id gp)
        \<and> keeps_number S (gi_guest_id gp) \<longrightarrow> episodes_unique S garr'" by blast
  have D: "(\<forall>a\<in>set ids. Number_js S a \<noteq> NaN) \<and> unique_ids S ids \<longrightarrow> distinct ids"
    using unique_ids_distinct [of ids S] by blast
  show ?thesis using S1 S2 S3 E1 E2 E3 G1 G3 D by (intro conjI) assumption+
qed

theorem C3_list_upsert_in_place_witness:
  "all_series_seasons String_int
      (run_series_seasons decimal_ids String_int
         (holding (seasons_key String_int 1399 ''en'')
            [sample_season (JFinite 10) (JStr ''a''), sample_season (JFinite 20) (JStr ''b'')])
         (sample_season_insert (JStr ''20'') (JStr ''B''))) 1399 ''en''
     = [sample_season (JFinite 10) (JStr ''a''), sample_season (JStr ''20'') (JStr ''B'')]
   \<and> all_series_episodes String_int
      (run_series_episodes decimal_ids String_int
         (holding (episodes_key String_int 1399 1 ''en'')
            [sample_episode (JFinite 101) (JStr ''a'') [], 
             sample_episode (JFinite 102) (JStr ''b'') [sample_guest (JFinite 7) (JStr ''x''), sample_guest (JFinite 8) (JStr ''y'')],
             sample_episode (JFinite 103) (JStr ''c'') []])
         (sample_episode_insert (JFinite 102) (JStr ''B''))) 1399 ''en'' 1
     = [sample_episode (JFinite 101) (JStr ''a'') [], 
        sample_episode (JFinite 102) (JStr ''B'') [sample_guest (JFinite 7) (JStr ''x''), sample_guest (JFinite 8) (JStr ''y'')],
        sample_episode (JFinite 103) (JStr ''c'') []]
   \<and> length (all_series_episodes String_int
      (run_episode_guest_stars decimal_ids String_int
         (holding (episodes_key String_int 1399 1 ''en'')
            [sample_episode (JFinite 101) (JStr ''a'') [],
             sample_episode (JFinite 102) (JStr ''b'') [sample_guest (JFinite 7) (JStr ''x''), sample_guest (JFinite 8) (JStr ''y'')],
             sample_episode (JFinite 103) (JStr ''c'') []])
         (sample_guest_insert (JFinite 102) (JStr ''8'') (JStr ''Y''))) 1399 ''en'' 1) = 3
   \<and> all_series_episodes String_int
      (run_episode_guest_stars decimal_ids String_int
         (holding (episodes_key String_int 1399 1 ''en'')
            [sample_episode (JFinite 101) (JStr ''a'') [],
             sample_episode (JFinite 102) (JStr ''b'') [sample_guest (JFinite 7) (JStr ''x''), sample_guest (JFinite 8) (JStr ''y'')],
             sample_episode (JFinite 103) (JStr ''c'') []])
         (sample_guest_insert (JFinite 102) (JStr ''8'') (JStr ''Y''))) 1399 ''en'' 1 ! 1
     = sample_episode (JFinite 102) (JStr ''b'') [sample_guest (JFinite 7) (JStr ''x''), sample_guest (JStr ''8'') (JStr ''Y'')]
   \<and> seasons_unique decimal_ids
       (all_series_seasons String_int
          (run_series_seasons decimal_ids String_int
             (holding (seasons_key String_int 1399 ''en'')
                [sample_season (JFinite 10) (JStr ''a''), sample_season (JFinite 20) (JStr ''b'')])
             (sample_season_insert (JStr ''20'') (JStr ''B''))) 1399 ''en'')
   \<and> distinct [JFinite 10, JStr ''20'']"
proof -
  let ?ssn = "[sample_season (JFinite 10) (JStr ''a''), sample_season (JFinite 20) (JStr ''b'')]"
  let ?senv = "holding (seasons_key String_int 1399 ''en'') ?ssn"
  let ?sp = "sample_season_insert (JStr ''20'') (JStr ''B'')"
  let ?earr = "[sample_episode (JFinite 101) (JStr ''a'') [], 
             sample_episode (JFinite 102) (JStr ''b'') [sample_guest (JFinite 7) (JStr ''x''), sample_guest (JFinite 8) (JStr ''y'')],
             sample_episode (JFinite 103) (JStr ''c'') []]"
  let ?env = "holding (episodes_key String_int 1399 1 ''en'') ?earr"
  let ?ep = "sample_episode_insert (JFinite 102) (JStr ''B'')"
  let ?gp = "sample_guest_insert (JFinite 102) (JStr ''8'') (JStr ''Y'')"
  let ?sarr' = "all_series_seasons String_int (run_series_seasons decimal_ids String_int ?senv ?sp) 1399 ''en''"
  let ?earr' = "all_series_episodes String_int (run_series_episodes decimal_ids String_int ?env ?ep) 1399 ''en'' 1"
  let ?garr' = "all_series_episodes String_int (run_episode_guest_stars decimal_ids String_int ?env ?gp) 1399 ''en'' 1"
  have up: "\<not> down ?senv" "\<not> down ?env" by (simp_all add: holding_def)
  have sarr: "?ssn = all_series_seasons String_int ?senv (si_seriesId ?sp) (si_language ?sp)"
    by (simp add: all_series_seasons_cells holding_def sample_season_insert_def reparse_sample_season)
  have sarr': "?sarr' = all_series_seasons String_int (run_series_seasons decimal_ids String_int ?senv ?sp)
                          (si_seriesId ?sp) (si_language ?sp)"
    by (simp add: sample_season_insert_def)
  have earr: "?earr = all_series_episodes String_int ?env (ei_seriesId ?ep) (ei_language ?ep) (ei_season_number ?ep)"
    by (simp add: all_series_episodes_cells holding_def sample_episode_insert_def
          reparse_sample_episode reparse_sample_guest)
  have earr': "?earr' = all_series_episodes String_int (run_series_episodes decimal_ids String_int ?env ?ep)
                          (ei_seriesId ?ep) (ei_language ?ep) (ei_season_number ?ep)"
    by (simp add: sample_episode_insert_def)
  have garr: "?earr = all_series_episodes String_int ?env (gi_seriesId ?gp) (gi_language ?gp) (gi_season_number ?gp)"
    by (simp add: all_series_episodes_cells holding_def sample_guest_insert_def
          reparse_sample_episode reparse_sample_guest)
  have garr': "?garr' = all_series_episodes String_int (run_episode_guest_stars decimal_ids String_int ?env ?gp)
                          (gi_seriesId ?gp) (gi_language ?gp) (gi_season_number ?gp)"
    by (simp add: sample_guest_insert_def)
  note c3 = C3_list_upsert_in_place [OF up(1) up(2) up(2) sarr sarr' earr earr' garr garr',
      where i = 1 and k = 1 and ids = "[JFinite 10, JStr ''20'']"]
  have ids: "se_id (sample_season i nm) = i" "ep_episode_id (sample_episode i nm gs) = i"
    "ep_guest_stars (sample_episode i nm gs) = Some gs" "g_id (sample_guest i nm) = i"
    "si_season_id (sample_season_insert i nm) = i" "ei_episode_id (sample_episode_insert i nm) = i"
    "gi_episode_id (sample_guest_insert e i nm) = e" "gi_guest_id (sample_guest_insert e i nm) = i"
    for i nm gs e
    by (simp_all add: sample_season_def sample_episode_def sample_guest_def sample_season_insert_def
          sample_episode_insert_def sample_guest_insert_def)
  have sg: "map reparse_guest [sample_guest (JFinite 7) (JStr ''x''), sample_guest (JFinite 8) (JStr ''y'')]
      = [sample_guest (JFinite 7) (JStr ''x''), sample_guest (JFinite 8) (JStr ''y'')]"
    by (simp add: reparse_sample_guest)
  have s: "?sarr' = [sample_season (JFinite 10) (JStr ''a''), sample_season (JStr ''20'') (JStr ''B'')]"
    using c3 by (simp add: num_eq_samples ids stored_samples)
  have e: "?earr' = [sample_episode (JFinite 101) (JStr ''a'') [], 
        sample_episode (JFinite 102) (JStr ''B'') [sample_guest (JFinite 7) (JStr ''x''), sample_guest (JFinite 8) (JStr ''y'')],
        sample_episode (JFinite 103) (JStr ''c'') []]"
    using c3 by (simp add: num_eq_samples ids or_empty_def stored_samples(3) [OF sg])
  have gl: "length ?garr' = 3"
    using c3 by (simp add: num_eq_samples ids)
  have gk: "?garr' ! 1 = (?earr ! 1)\<lparr>ep_guest_stars := ep_guest_stars (?garr' ! 1)\<rparr>"
    using c3 by (simp add: num_eq_samples ids)
  have gg: "ep_guest_stars (?garr' ! 1) = Some [sample_guest (JFinite 7) (JStr ''x''), sample_guest (JStr ''8'') (JStr ''Y'')]"
    using c3 by (simp add: num_eq_samples ids or_empty_def stored_samples)
  have g: "?garr' ! 1 = sample_episode (JFinite 102) (JStr ''b'') [sample_guest (JFinite 7) (JStr ''x''), sample_guest (JStr ''8'') (JStr ''Y'')]"
    using gk gg by (simp add: sample_episode_def)
  have kept: "keeps_number decimal_ids (JStr ''20'')" by (simp add: keeps_number_def)
  have uq0: "seasons_unique decimal_ids ?ssn"
    by (simp add: seasons_unique_def unique_ids_def ids num_eq_numbers)
  have uq: "seasons_unique decimal_ids ?sarr'"
    using c3 [THEN conjunct2, THEN conjunct2, THEN conjunct1] uq0 kept by (simp add: ids)
  have numeric: "Number_js decimal_ids (JStr ''20'') \<noteq> NaN"
    by (simp add: decimal_of_string_def digits_value_def is_digit_def)
  have dd: "distinct [JFinite 10, JStr ''20'']"
    using c3 numeric by (simp add: unique_ids_def num_eq_samples)
  from s e gl g uq dd show ?thesis by (intro conjI)
qed

text \<open>
  The claim as stated fails for an id that does not keep its number in the store. The number
  \<open>Infinity\<close> (which \<open>JSON.parse\<close> returns for an upstream \<open>1e400\<close>, and of which
  \<open>typeof x === "number"\<close> holds) is stored as \<open>null\<close>: a second upsert of the same id finds no
  match, appends, and the list then holds two ids that are equal as numbers. An id without a
  numeric value (\<open>Number\<close> gives \<open>NaN\<close>) never matches: upserting it twice leaves two elements
  with the same id.
\<close>

theorem C3_counterexample:
  "all_series_seasons String_int
      (run_series_seasons decimal_ids String_int
         (holding (seasons_key String_int 1399 ''en'') [sample_season (JFinite 10) (JStr ''a'')])
         (sample_season_insert (JNum PosInf) (JStr ''b''))) 1399 ''en''
     = [sample_season (JFinite 10) (JStr ''a''), sample_season JNull (JStr ''b'')]
   \<and> seasons_unique decimal_ids [sample_season (JFinite 10) (JStr ''a''), sample_season JNull (JStr ''b'')]
   \<and> all_series_seasons String_int
      (run_series_seasons decimal_ids String_int
         (run_series_seasons decimal_ids String_int
            (holding (seasons_key String_int 1399 ''en'') [sample_season (JFinite 10) (JStr ''a'')])
            (sample_season_insert (JNum PosInf) (JStr ''b'')))
         (sample_season_insert (JNum PosInf) (JStr ''B''))) 1399 ''en''
     = [sample_season (JFinite 10) (JStr ''a''), sample_season JNull (JStr ''b''),
        sample_season JNull (JStr ''B'')]
   \<and> \<not> seasons_unique decimal_ids
         [sample_season (JFinite 10) (JStr ''a''), sample_season JNull (JStr ''b''),
          sample_season JNull (JStr ''B'')]
   \<and> all_series_seasons String_int
      (run_series_seasons decimal_ids String_int
         (holding (seasons_key String_int 1399 ''en'') [sample_season (JStr ''tba'') (JStr ''a'')])
         (sample_season_insert (JStr ''tba'') (JStr ''B''))) 1399 ''en''
     = [sample_season (JStr ''tba'') (JStr ''a''), sample_season (JStr ''tba'') (JStr ''B'')]
   \<and> \<not> distinct (map se_id [sample_season (JStr ''tba'') (JStr ''a''), sample_season (JStr ''tba'') (JStr ''B'')])"
proof -
  let ?key = "seasons_key String_int 1399 ''en''"
  let ?env0 = "holding ?key [sample_season (JFinite 10) (JStr ''a'')]"
  let ?p = "sample_season_insert (JNum PosInf) (JStr ''b'')"
  let ?q = "sample_season_insert (JNum PosInf) (JStr ''B'')"
  let ?env1 = "run_series_seasons decimal_ids String_int ?env0 ?p"
  have k: "si_seriesId (sample_season_insert i nm) = 1399" "si_language (sample_season_insert i nm) = ''en''"
    "si_season_id (sample_season_insert i nm) = i" for i nm
    by (simp_all add: sample_season_insert_def)
  have ids: "se_id (sample_season i nm) = i" for i nm by (simp add: sample_season_def)
  have up0: "\<not> down ?env0" by (simp add: holding_def)
  have r0: "all_series_seasons String_int ?env0 1399 ''en'' = [sample_season (JFinite 10) (JStr ''a'')]"
    by (simp add: all_series_seasons_cells holding_def reparse_sample_season)
  have a: "all_series_seasons String_int ?env1 1399 ''en''
      = [sample_season (JFinite 10) (JStr ''a''), sample_season JNull (JStr ''b'')]"
    using seasons_after_run [OF up0, of String_int decimal_ids ?p]
    by (simp add: k r0 ids num_eq_numbers store_at_def stored_samples)
  have up1: "\<not> down ?env1" using up0 by (simp add: run_series_seasons_up)
  have b: "all_series_seasons String_int (run_series_seasons decimal_ids String_int ?env1 ?q) 1399 ''en''
      = [sample_season (JFinite 10) (JStr ''a''), sample_season JNull (JStr ''b''),
         sample_season JNull (JStr ''B'')]"
    using seasons_after_run [OF up1, of String_int decimal_ids ?q]
    by (simp add: k a ids num_eq_def store_at_def stored_samples)
  have u1: "seasons_unique decimal_ids [sample_season (JFinite 10) (JStr ''a''), sample_season JNull (JStr ''b'')]"
    by (simp add: seasons_unique_def unique_ids_def ids num_eq_def)
  have u2: "\<not> seasons_unique decimal_ids
         [sample_season (JFinite 10) (JStr ''a''), sample_season JNull (JStr ''b''),
          sample_season JNull (JStr ''B'')]"
    by (simp add: seasons_unique_def unique_ids_def ids num_eq_def)
  let ?env2 = "holding ?key [sample_season (JStr ''tba'') (JStr ''a'')]"
  let ?t = "sample_season_insert (JStr ''tba'') (JStr ''B'')"
  have up2: "\<not> down ?env2" by (simp add: holding_def)
  have r2: "all_series_seasons String_int ?env2 1399 ''en'' = [sample_season (JStr ''tba'') (JStr ''a'')]"
    by (simp add: all_series_seasons_cells holding_def reparse_sample_season)
  have nan: "\<not> num_eq decimal_ids (JStr ''tba'') (JStr ''tba'')"
    by (simp add: num_eq_def decimal_of_string_def is_digit_def)
  have c: "all_series_seasons String_int (run_series_seasons decimal_ids String_int ?env2 ?t) 1399 ''en''
      = [sample_season (JStr ''tba'') (JStr ''a''), sample_season (JStr ''tba'') (JStr ''B'')]"
    using seasons_after_run [OF up2, of String_int decimal_ids ?t]
    by (simp add: k r2 ids nan store_at_def stored_samples)
  have d: "\<not> distinct (map se_id [sample_season (JStr ''tba'') (JStr ''a''), sample_season (JStr ''tba'') (JStr ''B'')])"
    by (simp add: ids)
  from a u1 b u2 c d show ?thesis by (intro conjI)
qed

subsection \<open>Stores built by upserts\<close>

lemma down_run_series_seasons: "down (run_series_seasons S T env p) = down env"
  by (cases "down env") (simp_all add: run_series_seasons_down run_series_seasons_up)

lemma down_run_series_episodes: "down (run_series_episodes S T env p) = down env"
  by (cases "down env") (simp_all add: run_series_episodes_down run_series_episodes_up Let_def)

lemma down_run_episode_guest_stars: "down (run_episode_guest_stars S T env p) = down env"
  by (cases "down env")
     (simp_all add: run_episode_guest_stars_down run_episode_guest_stars_up Let_def split: option.splits)

lemma down_run_episodes_statement: "down (run_episodes_statement S T env st) = down env"
  by (cases st) (simp_all add: down_run_series_episodes down_run_episode_guest_stars)

lemma down_foldl_seasons: "down (foldl (run_series_seasons S T) env ps) = down env"
  by (induction ps arbitrary: env) (simp_all add: down_run_series_seasons)

lemma down_foldl_episodes: "down (foldl (run_episodes_statement S T) env sts) = down env"
  by (induction sts arbitrary: env) (simp_all add: down_run_episodes_statement)

lemma all_seasons_other_key:
  "seasons_key T sid lang \<noteq> seasons_key T (si_seriesId p) (si_language p) \<Longrightarrow>
   all_series_seasons T (run_series_seasons S T env p) sid lang = all_series_seasons T env sid lang"
  by (cases "down env") (simp_all add: run_series_seasons_down run_series_seasons_up all_series_seasons_cells)

lemma all_episodes_other_key:
  "episodes_key T sid sn lang \<noteq> episodes_key T (ei_seriesId p) (ei_season_number p) (ei_language p) \<Longrightarrow>
   all_series_episodes T (run_series_episodes S T env p) sid lang sn = all_series_episodes T env sid lang sn"
  by (cases "down env")
     (simp_all add: run_series_episodes_down run_series_episodes_up all_series_episodes_cells Let_def)

lemma all_episodes_other_key_guest:
  "episodes_key T sid sn lang \<noteq> episodes_key T (gi_seriesId p) (gi_season_number p) (gi_language p) \<Longrightarrow>
   all_series_episodes T (run_episode_guest_stars S T env p) sid lang sn = all_series_episodes T env sid lang sn"
  by (cases "down env")
     (simp_all add: run_episode_guest_stars_down run_episode_guest_stars_up all_series_episodes_cells
        Let_def split: option.splits)

lemma seasons_unique_run:
  assumes "seasons_unique S (all_series_seasons T env sid lang)" and k: "keeps_number S (si_season_id p)"
  shows "seasons_unique S (all_series_seasons T (run_series_seasons S T env p) sid lang)"
proof (cases "down env")
  case True
  with assms show ?thesis by (simp add: run_series_seasons_down)
next
  case False
  show ?thesis
  proof (cases "seasons_key T sid lang = seasons_key T (si_seriesId p) (si_language p)")
    case True
    then have same: "all_series_seasons T e sid lang = all_series_seasons T e (si_seriesId p) (si_language p)" for e
      by (simp add: all_series_seasons_def)
    from assms(1) have "seasons_unique S (all_series_seasons T env (si_seriesId p) (si_language p))"
      by (simp add: same)
    from seasons_unique_store_at [OF this k] show ?thesis
      unfolding same seasons_after_run [OF False] .
  next
    case False
    with assms show ?thesis by (simp add: all_seasons_other_key)
  qed
qed

lemma episodes_unique_run:
  assumes "episodes_unique S (all_series_episodes T env sid lang sn)" and k: "keeps_number S (ei_episode_id p)"
  shows "episodes_unique S (all_series_episodes T (run_series_episodes S T env p) sid lang sn)"
proof (cases "down env")
  case True
  with assms show ?thesis by (simp add: run_series_episodes_down)
next
  case False
  show ?thesis
  proof (cases "episodes_key T sid sn lang = episodes_key T (ei_seriesId p) (ei_season_number p) (ei_language p)")
    case True
    then have same: "all_series_episodes T e sid lang sn
        = all_series_episodes T e (ei_seriesId p) (ei_language p) (ei_season_number p)" for e
      by (simp add: all_series_episodes_def)
    from assms(1) have "episodes_unique S (all_series_episodes T env (ei_seriesId p) (ei_language p) (ei_season_number p))"
      by (simp add: same)
    from episodes_unique_store_at [OF this k all_series_episodes_stable] show ?thesis
      unfolding same episodes_after_run [OF False] Let_def .
  next
    case False
    with assms show ?thesis by (simp add: all_episodes_other_key)
  qed
qed

lemma episodes_unique_run_guest:
  assumes "episodes_unique S (all_series_episodes T env sid lang sn)"
    and ke: "keeps_number S (gi_episode_id p)" and kg: "keeps_number S (gi_guest_id p)"
  shows "episodes_unique S (all_series_episodes T (run_episode_guest_stars S T env p) sid lang sn)"
proof (cases "down env")
  case True
  with assms show ?thesis by (simp add: run_episode_guest_stars_down)
next
  case False
  show ?thesis
  proof (cases "episodes_key T sid sn lang = episodes_key T (gi_seriesId p) (gi_season_number p) (gi_language p)")
    case True
    then have same: "all_series_episodes T e sid lang sn
        = all_series_episodes T e (gi_seriesId p) (gi_language p) (gi_season_number p)" for e
      by (simp add: all_series_episodes_def)
    from assms(1) have "episodes_unique S (all_series_episodes T env (gi_seriesId p) (gi_language p) (gi_season_number p))"
      by (simp add: same)
    from episodes_unique_guest_run [OF this ke kg] show ?thesis
      unfolding same episodes_after_guest_run [OF False] Let_def .
  next
    case False
    with assms show ?thesis by (simp add: all_episodes_other_key_guest)
  qed
qed

lemma seasons_unique_foldl:
  "seasons_unique S (all_series_seasons T env sid lang) \<Longrightarrow>
   \<forall>p\<in>set ps. keeps_number S (si_season_id p) \<Longrightarrow>
   seasons_unique S (all_series_seasons T (foldl (run_series_seasons S T) env ps) sid lang)"
  by (induction ps arbitrary: env) (simp_all add: seasons_unique_run)

lemma episodes_unique_foldl:
  "episodes_unique S (all_series_episodes T env sid lang sn) \<Longrightarrow>
   \<forall>st\<in>set sts. statement_keeps_ids S st \<Longrightarrow>
   episodes_unique S (all_series_episodes T (foldl (run_episodes_statement S T) env sts) sid lang sn)"
proof (induction sts arbitrary: env)
  case Nil
  then show ?case by simp
next
  case (Cons st sts)
  have "episodes_unique S (all_series_episodes T (run_episodes_statement S T env st) sid lang sn)"
    using Cons.prems by (cases st) (simp_all add: episodes_unique_run episodes_unique_run_guest)
  from Cons.IH [OF this] Cons.prems(2) show ?case by simp
qed

lemma empty_backend_lists:
  "all_series_seasons T empty_backend sid lang = []"
  "all_series_episodes T empty_backend sid lang sn = []"
  "\<not> down empty_backend"
  by (simp_all add: all_series_seasons_cells all_series_episodes_cells empty_backend_def)

lemma reachable_seasons_unique:
  "\<forall>p\<in>set ps. keeps_number S (si_season_id p) \<Longrightarrow>
   seasons_unique S (all_series_seasons T (foldl (run_series_seasons S T) empty_backend ps) sid lang)"
  by (rule seasons_unique_foldl) (simp_all add: empty_backend_lists seasons_unique_def unique_ids_def)

lemma reachable_episodes_unique:
  "\<forall>st\<in>set sts. statement_keeps_ids S st \<Longrightarrow>
   episodes_unique S (all_series_episodes T (foldl (run_episodes_statement S T) empty_backend sts) sid lang sn)"
  by (rule episodes_unique_foldl)
     (simp_all add: empty_backend_lists episodes_unique_def unique_ids_def)

text \<open>
  C10 (as amended). The three list upserts compare ids as numbers: an element matches when
  \<open>Number(existing id) === Number(incoming id)\<close>. In every store built from the empty store
  by any sequence of list statements whose ids keep their numbers in the store (as every
  finite number does), no list holds two elements whose ids are equal as numbers (seasons by
  \<open>id\<close>, episodes by \<open>episode_id\<close>, the guest stars of each episode by \<open>id\<close>). In such a store an
  upsert whose child id is equal as a number to the id of the element at index \<open>i\<close> (for
  instance the string form of that numeric id) replaces exactly that element, by the new
  element as the store returns it, and appends nothing; an upsert whose id equals no existing
  id as a number appends.
\<close>

theorem C10_numeric_id_matching:
  assumes senv: "senv = foldl (run_series_seasons S T) empty_backend sps"
    and skept: "\<forall>p\<in>set sps. keeps_number S (si_season_id p)"
    and eenv: "eenv = foldl (run_episodes_statement S T) empty_backend stmts"
    and ekept: "\<forall>st\<in>set stmts. statement_keeps_ids S st"
    and sarr: "sarr = all_series_seasons T senv (si_seriesId sp) (si_language sp)"
    and earr: "earr = all_series_episodes T eenv (ei_seriesId ep) (ei_language ep) (ei_season_number ep)"
    and garr: "garr = all_series_episodes T eenv (gi_seriesId gp) (gi_language gp) (gi_season_number gp)"
  shows
    "seasons_unique S (all_series_seasons T senv sid lang)
     \<and> episodes_unique S (all_series_episodes T eenv sid lang sn)
     \<and> (i < length sarr \<and> num_eq S (se_id (sarr ! i)) (si_season_id sp)
        \<longrightarrow> all_series_seasons T (run_series_seasons S T senv sp) (si_seriesId sp) (si_language sp)
              = sarr[i := reparse_season (season_of sp)])
     \<and> ((\<forall>s\<in>set sarr. \<not> num_eq S (se_id s) (si_season_id sp))
        \<longrightarrow> all_series_seasons T (run_series_seasons S T senv sp) (si_seriesId sp) (si_language sp)
              = sarr @ [reparse_season (season_of sp)])
     \<and> (j < length earr \<and> num_eq S (ep_episode_id (earr ! j)) (ei_episode_id ep)
        \<longrightarrow> all_series_episodes T (run_series_episodes S T eenv ep)
                (ei_seriesId ep) (ei_language ep) (ei_season_number ep)
              = earr[j := reparse_episode (episode_of ep (or_empty (ep_guest_stars (earr ! j))))])
     \<and> ((\<forall>e\<in>set earr. \<not> num_eq S (ep_episode_id e) (ei_episode_id ep))
        \<longrightarrow> all_series_episodes T (run_series_episodes S T eenv ep)
                (ei_seriesId ep) (ei_language ep) (ei_season_number ep)
              = earr @ [reparse_episode (episode_of ep [])])
     \<and> (k < length garr \<and> num_eq S (ep_episode_id (garr ! k)) (gi_episode_id gp)
          \<and> m < length (or_empty (ep_guest_stars (garr ! k)))
          \<and> num_eq S (g_id (or_empty (ep_guest_stars (garr ! k)) ! m)) (gi_guest_id gp)
        \<longrightarrow> all_series_episodes T (run_episode_guest_stars S T eenv gp)
                (gi_seriesId gp) (gi_language gp) (gi_season_number gp)
              = garr[k := (garr ! k)\<lparr>ep_guest_stars :=
                    Some ((or_empty (ep_guest_stars (garr ! k)))[m := reparse_guest (guest_of gp)])\<rparr>])
     \<and> (k < length garr \<and> num_eq S (ep_episode_id (garr ! k)) (gi_episode_id gp)
          \<and> (\<forall>g\<in>set (or_empty (ep_guest_stars (garr ! k))). \<not> num_eq S (g_id g) (gi_guest_id gp))
        \<longrightarrow> all_series_episodes T (run_episode_guest_stars S T eenv gp)
                (gi_seriesId gp) (gi_language gp) (gi_season_number gp)
              = garr[k := (garr ! k)\<lparr>ep_guest_stars :=
                    Some (or_empty (ep_guest_stars (garr ! k)) @ [reparse_guest (guest_of gp)])\<rparr>])"
proof -
  let ?sm = "\<lambda>s. num_eq S (se_id s) (si_season_id sp)"
  let ?em = "\<lambda>e. num_eq S (ep_episode_id e) (ei_episode_id ep)"
  let ?gm = "\<lambda>e. num_eq S (ep_episode_id e) (gi_episode_id gp)"
  let ?hm = "\<lambda>g. num_eq S (g_id g) (gi_guest_id gp)"
  have hm: "(\<lambda>x. num_eq S (g_id x) (g_id (guest_of gp))) = ?hm" by (simp add: guest_of_def)
  have sup: "\<not> down senv" unfolding senv by (simp add: down_foldl_seasons empty_backend_lists)
  have eup: "\<not> down eenv" unfolding eenv by (simp add: down_foldl_episodes empty_backend_lists)
  have U1: "seasons_unique S (all_series_seasons T senv sid lang)" for sid lang
    unfolding senv by (rule reachable_seasons_unique [OF skept])
  have U2: "episodes_unique S (all_series_episodes T eenv sid lang sn)" for sid lang sn
    unfolding eenv by (rule reachable_episodes_unique [OF ekept])
  have su: "unique_ids S (map se_id sarr)" using U1 unfolding sarr seasons_unique_def .
  have eu: "unique_ids S (map ep_episode_id earr)" using U2 unfolding earr episodes_unique_def by simp
  have gu: "episodes_unique S garr" using U2 unfolding garr .
  have s_eq: "all_series_seasons T (run_series_seasons S T senv sp) (si_seriesId sp) (si_language sp)
      = store_at (findIndex ?sm sarr) (reparse_season (season_of sp)) sarr"
    unfolding sarr by (rule seasons_after_run [OF sup])
  have e_eq: "all_series_episodes T (run_series_episodes S T eenv ep)
                (ei_seriesId ep) (ei_language ep) (ei_season_number ep)
      = store_at (findIndex ?em earr)
        (reparse_episode (episode_of ep (case findIndex ?em earr of None \<Rightarrow> []
                        | Some i \<Rightarrow> or_empty (ep_guest_stars (earr ! i))))) earr"
    unfolding earr using episodes_after_run [OF eup, of T S ep] by (simp add: Let_def)
  have g_eq: "all_series_episodes T (run_episode_guest_stars S T eenv gp)
                (gi_seriesId gp) (gi_language gp) (gi_season_number gp) =
     (case findIndex ?gm garr of
           Some i \<Rightarrow>
             garr[i := (garr ! i)\<lparr>ep_guest_stars :=
                  Some (put_guest S (or_empty (ep_guest_stars (garr ! i))) (guest_of gp))\<rparr>]
         | None \<Rightarrow>
             (if Number_js S (gi_episode_id gp) \<noteq> NaN
              then garr @ [(reparse_episode (placeholder_of gp))
                            \<lparr>ep_guest_stars := Some [reparse_guest (guest_of gp)]\<rparr>]
              else garr))"
    unfolding garr using episodes_after_guest_run [OF eup, of T S gp] by (simp add: Let_def)
  have A1: "i < length sarr \<and> ?sm (sarr ! i)
        \<longrightarrow> all_series_seasons T (run_series_seasons S T senv sp) (si_seriesId sp) (si_language sp)
              = sarr[i := reparse_season (season_of sp)]"
  proof (intro impI, elim conjE)
    assume h: "i < length sarr" "?sm (sarr ! i)"
    from unique_match_index [OF su h(1) h(2)] s_eq
    show "all_series_seasons T (run_series_seasons S T senv sp) (si_seriesId sp) (si_language sp)
              = sarr[i := reparse_season (season_of sp)]" by (simp add: store_at_def)
  qed
  have A2: "(\<forall>s\<in>set sarr. \<not> ?sm s)
        \<longrightarrow> all_series_seasons T (run_series_seasons S T senv sp) (si_seriesId sp) (si_language sp)
              = sarr @ [reparse_season (season_of sp)]"
    using s_eq store_at_append [of sarr ?sm "reparse_season (season_of sp)"] by simp
  have B1: "j < length earr \<and> ?em (earr ! j)
        \<longrightarrow> all_series_episodes T (run_series_episodes S T eenv ep)
                (ei_seriesId ep) (ei_language ep) (ei_season_number ep)
              = earr[j := reparse_episode (episode_of ep (or_empty (ep_guest_stars (earr ! j))))]"
  proof (intro impI, elim conjE)
    assume h: "j < length earr" "?em (earr ! j)"
    from unique_match_index [OF eu h(1) h(2)] e_eq
    show "all_series_episodes T (run_series_episodes S T eenv ep)
                (ei_seriesId ep) (ei_language ep) (ei_season_number ep)
              = earr[j := reparse_episode (episode_of ep (or_empty (ep_guest_stars (earr ! j))))]"
      by (simp add: store_at_def)
  qed
  have B2: "(\<forall>e\<in>set earr. \<not> ?em e)
        \<longrightarrow> all_series_episodes T (run_series_episodes S T eenv ep)
                (ei_seriesId ep) (ei_language ep) (ei_season_number ep)
              = earr @ [reparse_episode (episode_of ep [])]"
  proof
    assume "\<forall>e\<in>set earr. \<not> ?em e"
    then have "findIndex ?em earr = None" by (simp add: findIndex_None)
    with e_eq show "all_series_episodes T (run_series_episodes S T eenv ep)
                (ei_seriesId ep) (ei_language ep) (ei_season_number ep)
              = earr @ [reparse_episode (episode_of ep [])]" by (simp add: store_at_def)
  qed
  have owner: "all_series_episodes T (run_episode_guest_stars S T eenv gp)
                (gi_seriesId gp) (gi_language gp) (gi_season_number gp)
      = garr[k := (garr ! k)\<lparr>ep_guest_stars :=
           Some (store_at (findIndex ?hm (or_empty (ep_guest_stars (garr ! k))))
                   (reparse_guest (guest_of gp)) (or_empty (ep_guest_stars (garr ! k))))\<rparr>]"
    if h: "k < length garr" "?gm (garr ! k)"
  proof -
    from gu have "unique_ids S (map ep_episode_id garr)" by (simp add: episodes_unique_def)
    from unique_match_index [OF this h(1) h(2)]
    have "findIndex ?gm garr = Some k" .
    with g_eq show ?thesis by (simp add: put_guest_def hm)
  qed
  have C1: "k < length garr \<and> ?gm (garr ! k)
          \<and> m < length (or_empty (ep_guest_stars (garr ! k)))
          \<and> ?hm (or_empty (ep_guest_stars (garr ! k)) ! m)
        \<longrightarrow> all_series_episodes T (run_episode_guest_stars S T eenv gp)
                (gi_seriesId gp) (gi_language gp) (gi_season_number gp)
              = garr[k := (garr ! k)\<lparr>ep_guest_stars :=
                    Some ((or_empty (ep_guest_stars (garr ! k)))[m := reparse_guest (guest_of gp)])\<rparr>]"
  proof (intro impI, elim conjE)
    let ?gs = "or_empty (ep_guest_stars (garr ! k))"
    assume h: "k < length garr" "?gm (garr ! k)" "m < length ?gs" "?hm (?gs ! m)"
    from gu h(1) have "unique_ids S (map g_id ?gs)"
      by (simp add: episodes_unique_def list_all_iff guests_unique_def)
    from unique_match_index [OF this h(3) h(4)]
    have "findIndex ?hm ?gs = Some m" .
    with owner [OF h(1,2)]
    show "all_series_episodes T (run_episode_guest_stars S T eenv gp)
                (gi_seriesId gp) (gi_language gp) (gi_season_number gp)
              = garr[k := (garr ! k)\<lparr>ep_guest_stars := Some (?gs[m := reparse_guest (guest_of gp)])\<rparr>]"
      by (simp add: store_at_def)
  qed
  have C2: "k < length garr \<and> ?gm (garr ! k)
          \<and> (\<forall>g\<in>set (or_empty (ep_guest_stars (garr ! k))). \<not> ?hm g)
        \<longrightarrow> all_series_episodes T (run_episode_guest_stars S T eenv gp)
                (gi_seriesId gp) (gi_language gp) (gi_season_number gp)
              = garr[k := (garr ! k)\<lparr>ep_guest_stars :=
                    Some (or_empty (ep_guest_stars (garr ! k)) @ [reparse_guest (guest_of gp)])\<rparr>]"
  proof (intro impI, elim conjE)
    let ?gs = "or_empty (ep_guest_stars (garr ! k))"
    assume h: "k < length garr" "?gm (garr ! k)" "\<forall>g\<in>set ?gs. \<not> ?hm g"
    from owner [OF h(1,2)] store_at_append [OF h(3)]
    show "all_series_episodes T (run_episode_guest_stars S T eenv gp)
                (gi_seriesId gp) (gi_language gp) (gi_season_number gp)
              = garr[k := (garr ! k)\<lparr>ep_guest_stars := Some (?gs @ [reparse_guest (guest_of gp)])\<rparr>]"
      by simp
  qed
  show ?thesis using U1 [of sid lang] U2 [of sid lang sn] A1 A2 B1 B2 C1 C2
    by (intro conjI) assumption+
qed

theorem C10_numeric_id_matching_witness:
  "seasons_unique decimal_ids
     (all_series_seasons String_int
        (foldl (run_series_seasons decimal_ids String_int) empty_backend
           [sample_season_insert (JFinite 10) (JStr ''a''), sample_season_insert (JFinite 20) (JStr ''b'')])
        1399 ''en'')
   \<and> all_series_seasons String_int
        (run_series_seasons decimal_ids String_int
           (foldl (run_series_seasons decimal_ids String_int) empty_backend
              [sample_season_insert (JFinite 10) (JStr ''a''), sample_season_insert (JFinite 20) (JStr ''b'')])
           (sample_season_insert (JStr ''20'') (JStr ''B'')))
        1399 ''en''
      = [sample_season (JFinite 10) (JStr ''a''), sample_season (JStr ''20'') (JStr ''B'')]
   \<and> all_series_episodes String_int
        (run_episode_guest_stars decimal_ids String_int
           (foldl (run_episodes_statement decimal_ids String_int) empty_backend
              [InsertEpisode (sample_episode_insert (JFinite 101) (JStr ''a'')),
               InsertEpisode (sample_episode_insert (JFinite 102) (JStr ''b'')),
               InsertGuestStar (sample_guest_insert (JFinite 102) (JFinite 7) (JStr ''x'')),
               InsertGuestStar (sample_guest_insert (JFinite 102) (JFinite 8) (JStr ''y''))])
           (sample_guest_insert (JStr ''102'') (JStr ''8'') (JStr ''Y'')))
        1399 ''en'' 1
      = [sample_episode (JFinite 101) (JStr ''a'') [],
         sample_episode (JFinite 102) (JStr ''b'')
           [sample_guest (JFinite 7) (JStr ''x''), sample_guest (JStr ''8'') (JStr ''Y'')]]
   \<and> all_series_episodes String_int
        (run_series_episodes decimal_ids String_int
           (foldl (run_episodes_statement decimal_ids String_int) empty_backend
              [InsertEpisode (sample_episode_insert (JFinite 101) (JStr ''a'')),
               InsertEpisode (sample_episode_insert (JFinite 102) (JStr ''b'')),
               InsertGuestStar (sample_guest_insert (JFinite 102) (JFinite 7) (JStr ''x'')),
               InsertGuestStar (sample_guest_insert (JFinite 102) (JFinite 8) (JStr ''y''))])
           (sample_episode_insert (JStr ''102'') (JStr ''B'')))
        1399 ''en'' 1
      = [sample_episode (JFinite 101) (JStr ''a'') [],
         sample_episode (JStr ''102'') (JStr ''B'')
           [sample_guest (JFinite 7) (JStr ''x''), sample_guest (JFinite 8) (JStr ''y'')]]"
proof -
  let ?sps = "[sample_season_insert (JFinite 10) (JStr ''a''), sample_season_insert (JFinite 20) (JStr ''b'')]"
  let ?sts = "[InsertEpisode (sample_episode_insert (JFinite 101) (JStr ''a'')),
               InsertEpisode (sample_episode_insert (JFinite 102) (JStr ''b'')),
               InsertGuestStar (sample_guest_insert (JFinite 102) (JFinite 7) (JStr ''x'')),
               InsertGuestStar (sample_guest_insert (JFinite 102) (JFinite 8) (JStr ''y''))]"
  let ?sp = "sample_season_insert (JStr ''20'') (JStr ''B'')"
  let ?ep = "sample_episode_insert (JStr ''102'') (JStr ''B'')"
  let ?gp = "sample_guest_insert (JStr ''102'') (JStr ''8'') (JStr ''Y'')"
  let ?senv = "foldl (run_series_seasons decimal_ids String_int) empty_backend ?sps"
  let ?eenv = "foldl (run_episodes_statement decimal_ids String_int) empty_backend ?sts"
  let ?sarr = "[sample_season (JFinite 10) (JStr ''a''), sample_season (JFinite 20) (JStr ''b'')]"
  let ?gs = "[sample_guest (JFinite 7) (JStr ''x''), sample_guest (JFinite 8) (JStr ''y'')]"
  let ?earr = "[sample_episode (JFinite 101) (JStr ''a'') [], sample_episode (JFinite 102) (JStr ''b'') ?gs]"
  have ids: "se_id (sample_season i nm) = i" "ep_episode_id (sample_episode i nm gs) = i"
    "ep_guest_stars (sample_episode i nm gs) = Some gs" "g_id (sample_guest i nm) = i"
    "si_season_id (sample_season_insert i nm) = i" "ei_episode_id (sample_episode_insert i nm) = i"
    "gi_episode_id (sample_guest_insert e i nm) = e" "gi_guest_id (sample_guest_insert e i nm) = i"
    for i nm gs e
    by (simp_all add: sample_season_def sample_episode_def sample_guest_def sample_season_insert_def
          sample_episode_insert_def sample_guest_insert_def)
  have keys: "si_seriesId (sample_season_insert i nm) = 1399" "si_language (sample_season_insert i nm) = ''en''"
    "ei_seriesId (sample_episode_insert i nm) = 1399" "ei_language (sample_episode_insert i nm) = ''en''"
    "ei_season_number (sample_episode_insert i nm) = 1"
    "gi_seriesId (sample_guest_insert e i nm) = 1399" "gi_language (sample_guest_insert e i nm) = ''en''"
    "gi_season_number (sample_guest_insert e i nm) = 1" for i nm e
    by (simp_all add: sample_season_insert_def sample_episode_insert_def sample_guest_insert_def)
  have sg: "map reparse_guest ?gs = ?gs" by (simp add: reparse_sample_guest)
  have sread: "all_series_seasons String_int ?senv 1399 ''en'' = ?sarr"
  proof -
    let ?e1 = "run_series_seasons decimal_ids String_int empty_backend (sample_season_insert (JFinite 10) (JStr ''a''))"
    have r1: "all_series_seasons String_int ?e1 1399 ''en'' = [sample_season (JFinite 10) (JStr ''a'')]"
      using seasons_after_run [OF empty_backend_lists(3), of String_int decimal_ids "sample_season_insert (JFinite 10) (JStr ''a'')"]
      by (simp add: keys empty_backend_lists store_at_def stored_samples)
    have u1: "\<not> down ?e1" by (simp add: down_run_series_seasons empty_backend_lists)
    show ?thesis
      using seasons_after_run [OF u1, of String_int decimal_ids "sample_season_insert (JFinite 20) (JStr ''b'')"]
      by (simp add: keys r1 ids num_eq_numbers store_at_def stored_samples)
  qed
  have eread: "all_series_episodes String_int ?eenv 1399 ''en'' 1 = ?earr"
  proof -
    let ?e1 = "run_series_episodes decimal_ids String_int empty_backend (sample_episode_insert (JFinite 101) (JStr ''a''))"
    let ?e2 = "run_series_episodes decimal_ids String_int ?e1 (sample_episode_insert (JFinite 102) (JStr ''b''))"
    let ?e3 = "run_episode_guest_stars decimal_ids String_int ?e2 (sample_guest_insert (JFinite 102) (JFinite 7) (JStr ''x''))"
    have r1: "all_series_episodes String_int ?e1 1399 ''en'' 1 = [sample_episode (JFinite 101) (JStr ''a'') []]"
      using episodes_after_run [OF empty_backend_lists(3), of String_int decimal_ids "sample_episode_insert (JFinite 101) (JStr ''a'')"]
      by (simp add: keys empty_backend_lists store_at_def stored_samples)
    have u1: "\<not> down ?e1" by (simp add: down_run_series_episodes empty_backend_lists)
    have r2: "all_series_episodes String_int ?e2 1399 ''en'' 1
        = [sample_episode (JFinite 101) (JStr ''a'') [], sample_episode (JFinite 102) (JStr ''b'') []]"
      using episodes_after_run [OF u1, of String_int decimal_ids "sample_episode_insert (JFinite 102) (JStr ''b'')"]
      by (simp add: keys r1 ids num_eq_numbers store_at_def stored_samples)
    have u2: "\<not> down ?e2" using u1 by (simp add: down_run_series_episodes)
    have r3: "all_series_episodes String_int ?e3 1399 ''en'' 1
        = [sample_episode (JFinite 101) (JStr ''a'') [],
           sample_episode (JFinite 102) (JStr ''b'') [sample_guest (JFinite 7) (JStr ''x'')]]"
      using episodes_after_guest_run [OF u2, of String_int decimal_ids "sample_guest_insert (JFinite 102) (JFinite 7) (JStr ''x'')"]
      by (simp add: keys r2 ids num_eq_numbers or_empty_def put_guest_def store_at_def stored_samples guest_of_id)
         (simp add: sample_episode_def)
    have u3: "\<not> down ?e3" using u2 by (simp add: down_run_episode_guest_stars)
    show ?thesis
      using episodes_after_guest_run [OF u3, of String_int decimal_ids "sample_guest_insert (JFinite 102) (JFinite 8) (JStr ''y'')"]
      by (simp add: keys r3 ids num_eq_numbers or_empty_def put_guest_def store_at_def stored_samples guest_of_id)
         (simp add: sample_episode_def)
  qed
  have skept: "\<forall>p\<in>set ?sps. keeps_number decimal_ids (si_season_id p)"
    by (simp add: ids keeps_number_def)
  have ekept: "\<forall>st\<in>set ?sts. statement_keeps_ids decimal_ids st"
    by (simp add: ids keeps_number_def)
  have sarr: "?sarr = all_series_seasons String_int ?senv (si_seriesId ?sp) (si_language ?sp)"
    using sread by (simp add: keys)
  have earr: "?earr = all_series_episodes String_int ?eenv (ei_seriesId ?ep) (ei_language ?ep) (ei_season_number ?ep)"
    using eread by (simp add: keys)
  have garr: "?earr = all_series_episodes String_int ?eenv (gi_seriesId ?gp) (gi_language ?gp) (gi_season_number ?gp)"
    using eread by (simp add: keys)
  note c10 = C10_numeric_id_matching [OF refl skept refl ekept sarr earr garr,
      where i = 1 and j = 1 and k = 1 and m = 1
        and sid = 1399 and lang = "''en''" and sn = 1]
  note season_case = c10 [THEN conjunct2, THEN conjunct2, THEN conjunct1]
  note episode_case = c10 [THEN conjunct2, THEN conjunct2, THEN conjunct2, THEN conjunct2, THEN conjunct1]
  note guest_case = c10 [THEN conjunct2, THEN conjunct2, THEN conjunct2, THEN conjunct2,
      THEN conjunct2, THEN conjunct2, THEN conjunct1]
  have n102: "num_eq decimal_ids (JFinite 102) (JStr ''102'')"
    by (simp add: num_eq_def decimal_of_string_def digits_value_def is_digit_def)
  have a: "seasons_unique decimal_ids (all_series_seasons String_int ?senv 1399 ''en'')"
    by (rule c10 [THEN conjunct1])
  have hs: "1 < length ?sarr \<and> num_eq decimal_ids (se_id (?sarr ! 1)) (si_season_id ?sp)"
    by (simp add: ids num_eq_samples)
  have he: "1 < length ?earr \<and> num_eq decimal_ids (ep_episode_id (?earr ! 1)) (ei_episode_id ?ep)"
    by (simp add: ids n102)
  have hg: "1 < length ?earr \<and> num_eq decimal_ids (ep_episode_id (?earr ! 1)) (gi_episode_id ?gp)
      \<and> 1 < length (or_empty (ep_guest_stars (?earr ! 1)))
      \<and> num_eq decimal_ids (g_id (or_empty (ep_guest_stars (?earr ! 1)) ! 1)) (gi_guest_id ?gp)"
    by (simp add: ids n102 num_eq_samples or_empty_def)
  have b: "all_series_seasons String_int (run_series_seasons decimal_ids String_int ?senv ?sp) 1399 ''en''
      = [sample_season (JFinite 10) (JStr ''a''), sample_season (JStr ''20'') (JStr ''B'')]"
    using season_case [THEN mp, OF hs] by (simp add: keys stored_samples)
  have c: "all_series_episodes String_int (run_episode_guest_stars decimal_ids String_int ?eenv ?gp) 1399 ''en'' 1
      = [sample_episode (JFinite 101) (JStr ''a'') [],
         sample_episode (JFinite 102) (JStr ''b'')
           [sample_guest (JFinite 7) (JStr ''x''), sample_guest (JStr ''8'') (JStr ''Y'')]]"
    using guest_case [THEN mp, OF hg]
    by (simp add: keys ids or_empty_def stored_samples) (simp add: sample_episode_def)
  have d: "all_series_episodes String_int (run_series_episodes decimal_ids String_int ?eenv ?ep) 1399 ''en'' 1
      = [sample_episode (JFinite 101) (JStr ''a'') [],
         sample_episode (JStr ''102'') (JStr ''B'')
           [sample_guest (JFinite 7) (JStr ''x''), sample_guest (JFinite 8) (JStr ''y'')]]"
    using episode_case [THEN mp, OF he]
    by (simp add: keys ids or_empty_def stored_samples(3) [OF sg])
  from a b c d show ?thesis by (intro conjI)
qed

text \<open>
  The claim as stated fails for ids that do not keep their numbers in the store: two upserts
  of the season id \<open>Infinity\<close> into the empty store leave a list of two seasons, both with the
  id \<open>null\<close>, which are equal as numbers.
\<close>

theorem C10_counterexample:
  "is_number (JNum PosInf)
   \<and> all_series_seasons String_int
       (foldl (run_series_seasons decimal_ids String_int) empty_backend
          [sample_season_insert (JNum PosInf) (JStr ''a''), sample_season_insert (JNum PosInf) (JStr ''b'')])
       1399 ''en''
     = [sample_season JNull (JStr ''a''), sample_season JNull (JStr ''b'')]
   \<and> num_eq decimal_ids (se_id (sample_season JNull (JStr ''a''))) (se_id (sample_season JNull (JStr ''b'')))
   \<and> \<not> seasons_unique decimal_ids [sample_season JNull (JStr ''a''), sample_season JNull (JStr ''b'')]"
proof -
  let ?p = "sample_season_insert (JNum PosInf) (JStr ''a'')"
  let ?q = "sample_season_insert (JNum PosInf) (JStr ''b'')"
  let ?e1 = "run_series_seasons decimal_ids String_int empty_backend ?p"
  have k: "si_seriesId (sample_season_insert i nm) = 1399" "si_language (sample_season_insert i nm) = ''en''"
    "si_season_id (sample_season_insert i nm) = i" for i nm
    by (simp_all add: sample_season_insert_def)
  have ids: "se_id (sample_season i nm) = i" for i nm by (simp add: sample_season_def)
  have r1: "all_series_seasons String_int ?e1 1399 ''en'' = [sample_season JNull (JStr ''a'')]"
    using seasons_after_run [OF empty_backend_lists(3), of String_int decimal_ids ?p]
    by (simp add: k empty_backend_lists store_at_def stored_samples)
  have u1: "\<not> down ?e1" by (simp add: down_run_series_seasons empty_backend_lists)
  have r2: "all_series_seasons String_int (run_series_seasons decimal_ids String_int ?e1 ?q) 1399 ''en''
      = [sample_season JNull (JStr ''a''), sample_season JNull (JStr ''b'')]"
    using seasons_after_run [OF u1, of String_int decimal_ids ?q]
    by (simp add: k r1 ids num_eq_def store_at_def stored_samples)
  have e: "num_eq decimal_ids (se_id (sample_season JNull (JStr ''a''))) (se_id (sample_season JNull (JStr ''b'')))"
    by (simp add: ids num_eq_def)
  have n: "\<not> seasons_unique decimal_ids [sample_season JNull (JStr ''a''), sample_season JNull (JStr ''b'')]"
    by (simp add: seasons_unique_def unique_ids_def ids num_eq_def)
  from r2 e n show ?thesis by simp
qed

subsection \<open>Guest stars of an episode that is not stored yet\<close>

lemma guest_run_absent_episode:
  assumes up: "\<not> down env"
    and absent: "\<forall>e\<in>set (all_series_episodes T env (gi_seriesId gp) (gi_language gp) (gi_season_number gp)).
                   \<not> num_eq S (ep_episode_id e) (gi_episode_id gp)"
    and numeric: "Number_js S (gi_episode_id gp) \<noteq> NaN"
  shows "run_episode_guest_stars S T env gp =
     env\<lparr>cells := (cells env)(episodes_key T (gi_seriesId gp) (gi_season_number gp) (gi_language gp) :=
       Stringified (all_series_episodes T env (gi_seriesId gp) (gi_language gp) (gi_season_number gp)
                @ [(placeholder_of gp)\<lparr>ep_guest_stars := Some [guest_of gp]\<rparr>]))\<rparr>"
proof -
  let ?arr = "all_series_episodes T env (gi_seriesId gp) (gi_language gp) (gi_season_number gp)"
  let ?m = "\<lambda>e. num_eq S (ep_episode_id e) (gi_episode_id gp)"
  from absent have none: "findIndex ?m ?arr = None" by (simp add: findIndex_None)
  have "?m (placeholder_of gp)" using num_eq_refl [OF numeric] by (simp add: placeholder_of_def)
  from findIndex_append_new [OF none this]
  have some: "findIndex ?m (?arr @ [placeholder_of gp]) = Some (length ?arr)" .
  have gs: "or_empty (ep_guest_stars (placeholder_of gp)) = []"
    by (simp add: placeholder_of_def or_empty_def)
  show ?thesis
    unfolding run_episode_guest_stars_up [OF up]
    by (simp add: Let_def none some gs store_at_def)
qed

text \<open>
  An episode id without a numeric value matches nothing, not even the placeholder pushed for
  it: \<open>episode\<close> is then \<open>undefined\<close>, the statement ends in the \<open>catch\<close> and the store is
  unchanged.
\<close>

lemma guest_run_without_numeric_id:
  assumes "Number_js S (gi_episode_id gp) = NaN"
  shows "run_episode_guest_stars S T env gp = env"
proof (cases "down env")
  case True
  then show ?thesis by (rule run_episode_guest_stars_down)
next
  case False
  have n: "findIndex (\<lambda>e. num_eq S (ep_episode_id e) (gi_episode_id gp)) xs = None" for xs
    using assms by (simp add: findIndex_None num_eq_def)
  show ?thesis
    unfolding run_episode_guest_stars_up [OF False] by (simp add: Let_def n)
qed

text \<open>
  C4 (as amended). A guest-star upsert whose episode id matches no element of the season's
  episode list, the id having a numeric value and keeping it in the store (as every finite
  number does; the backend being reachable), writes, under the key of that season, the
  previous list followed by one new entry. The entry holds the series id, the episode id (as
  \<open>id\<close> and as \<open>episode_id\<close>) and the episode number, no other field, and a guest-star array
  that contains exactly the upserted guest star; it is read back with these values in their
  stored form. No other key of the store changes. A later episode upsert for the same season
  whose id equals that episode id as a number replaces the entry by the full episode, which
  keeps the guest star.
\<close>

theorem C4_guest_star_placeholder:
  assumes up: "\<not> down env"
    and arr: "arr = all_series_episodes T env (gi_seriesId gp) (gi_language gp) (gi_season_number gp)"
    and absent: "\<forall>e\<in>set arr. \<not> num_eq S (ep_episode_id e) (gi_episode_id gp)"
    and numeric: "Number_js S (gi_episode_id gp) \<noteq> NaN"
    and kept: "keeps_number S (gi_episode_id gp)"
    and env': "env' = run_episode_guest_stars S T env gp"
    and season: "ei_seriesId ep = gi_seriesId gp" "ei_language ep = gi_language gp"
      "ei_season_number ep = gi_season_number gp"
    and same_id: "num_eq S (gi_episode_id gp) (ei_episode_id ep)"
  shows
    "cells env' (episodes_key T (gi_seriesId gp) (gi_season_number gp) (gi_language gp))
       = Stringified (arr @
           [\<lparr> ep_series_id = JFinite (of_int (gi_seriesId gp)), ep_id = gi_episode_id gp,
              ep_episode_id = gi_episode_id gp, ep_episode_number = gi_episode_number gp,
              ep_name = JUndefined, ep_overview = JUndefined, ep_still_path = JUndefined,
              ep_air_date = JUndefined, ep_vote_average = JUndefined, ep_vote_count = JUndefined,
              ep_updated_at = JUndefined, ep_guest_stars = Some [guest_of gp] \<rparr>])
     \<and> (\<forall>key. key \<noteq> episodes_key T (gi_seriesId gp) (gi_season_number gp) (gi_language gp)
            \<longrightarrow> cells env' key = cells env key)
     \<and> all_series_episodes T env' (gi_seriesId gp) (gi_language gp) (gi_season_number gp)
       = arr @
           [\<lparr> ep_series_id = JFinite (of_int (gi_seriesId gp)), ep_id = reparse (gi_episode_id gp),
              ep_episode_id = reparse (gi_episode_id gp),
              ep_episode_number = reparse (gi_episode_number gp),
              ep_name = JUndefined, ep_overview = JUndefined, ep_still_path = JUndefined,
              ep_air_date = JUndefined, ep_vote_average = JUndefined, ep_vote_count = JUndefined,
              ep_updated_at = JUndefined, ep_guest_stars = Some [reparse_guest (guest_of gp)] \<rparr>]
     \<and> all_series_episodes T (run_series_episodes S T env' ep)
          (gi_seriesId gp) (gi_language gp) (gi_season_number gp)
       = arr @ [reparse_episode (episode_of ep [reparse_guest (guest_of gp)])]"
proof -
  let ?key = "episodes_key T (gi_seriesId gp) (gi_season_number gp) (gi_language gp)"
  let ?ph = "(placeholder_of gp)\<lparr>ep_guest_stars := Some [guest_of gp]\<rparr>"
  let ?sph = "\<lparr> ep_series_id = JFinite (of_int (gi_seriesId gp)), ep_id = reparse (gi_episode_id gp),
              ep_episode_id = reparse (gi_episode_id gp),
              ep_episode_number = reparse (gi_episode_number gp),
              ep_name = JUndefined, ep_overview = JUndefined, ep_still_path = JUndefined,
              ep_air_date = JUndefined, ep_vote_average = JUndefined, ep_vote_count = JUndefined,
              ep_updated_at = JUndefined, ep_guest_stars = Some [reparse_guest (guest_of gp)] \<rparr>"
  let ?em = "\<lambda>e. num_eq S (ep_episode_id e) (ei_episode_id ep)"
  have run: "env' = env\<lparr>cells := (cells env)(?key := Stringified (arr @ [?ph]))\<rparr>"
    unfolding env' arr by (rule guest_run_absent_episode [OF up absent [unfolded arr] numeric])
  have ph: "?ph = \<lparr> ep_series_id = JFinite (of_int (gi_seriesId gp)), ep_id = gi_episode_id gp,
              ep_episode_id = gi_episode_id gp, ep_episode_number = gi_episode_number gp,
              ep_name = JUndefined, ep_overview = JUndefined, ep_still_path = JUndefined,
              ep_air_date = JUndefined, ep_vote_average = JUndefined, ep_vote_count = JUndefined,
              ep_updated_at = JUndefined, ep_guest_stars = Some [guest_of gp] \<rparr>"
    by (simp add: placeholder_of_def)
  have sph: "reparse_episode ?ph = ?sph"
    by (simp add: placeholder_of_def reparse_episode_def)
  have stable: "map reparse_episode arr = arr" unfolding arr by (rule all_series_episodes_stable)
  have a: "cells env' ?key = Stringified (arr @ [?ph])" using run by simp
  have b: "\<forall>key. key \<noteq> ?key \<longrightarrow> cells env' key = cells env key" using run by simp
  have up': "\<not> down env'" using run up by simp
  have arr': "all_series_episodes T env' (gi_seriesId gp) (gi_language gp) (gi_season_number gp) = arr @ [?sph]"
    using a up' by (simp add: all_series_episodes_cells stable sph)
  have "\<not> ?em e" if "e \<in> set arr" for e
  proof
    assume "?em e"
    with same_id have "num_eq S (ep_episode_id e) (gi_episode_id gp)"
      using num_eq_trans num_eq_sym by blast
    with absent that show False by blast
  qed
  then have none: "findIndex ?em arr = None" by (simp add: findIndex_None)
  have "num_eq S (reparse (gi_episode_id gp)) (gi_episode_id gp)"
    by (rule num_eq_stored [OF kept numeric])
  with same_id have "?em ?sph" using num_eq_trans by fastforce
  with none have idx: "findIndex ?em (arr @ [?sph]) = Some (length arr)"
    by (rule findIndex_append_new)
  have c: "all_series_episodes T (run_series_episodes S T env' ep)
          (gi_seriesId gp) (gi_language gp) (gi_season_number gp)
        = arr @ [reparse_episode (episode_of ep [reparse_guest (guest_of gp)])]"
    using episodes_after_run [OF up', of T S ep]
    by (simp add: Let_def season arr' idx store_at_def or_empty_def)
  from a b arr' c show ?thesis unfolding ph by (intro conjI)
qed

theorem C4_guest_star_placeholder_witness:
  "all_series_episodes String_int
     (run_episode_guest_stars decimal_ids String_int
        (holding (episodes_key String_int 1399 1 ''en'') [sample_episode (JFinite 101) (JStr ''a'') []])
        (sample_guest_insert (JFinite 102) (JFinite 7) (JStr ''x''))) 1399 ''en'' 1
     = [sample_episode (JFinite 101) (JStr ''a'') [],
        \<lparr> ep_series_id = JFinite 1399, ep_id = JFinite 102, ep_episode_id = JFinite 102,
          ep_episode_number = JFinite 2, ep_name = JUndefined, ep_overview = JUndefined,
          ep_still_path = JUndefined, ep_air_date = JUndefined, ep_vote_average = JUndefined,
          ep_vote_count = JUndefined, ep_updated_at = JUndefined,
          ep_guest_stars = Some [sample_guest (JFinite 7) (JStr ''x'')] \<rparr>]
   \<and> all_series_episodes String_int
     (run_series_episodes decimal_ids String_int
        (run_episode_guest_stars decimal_ids String_int
           (holding (episodes_key String_int 1399 1 ''en'') [sample_episode (JFinite 101) (JStr ''a'') []])
           (sample_guest_insert (JFinite 102) (JFinite 7) (JStr ''x'')))
        (sample_episode_insert (JFinite 102) (JStr ''b''))) 1399 ''en'' 1
     = [sample_episode (JFinite 101) (JStr ''a'') [],
        sample_episode (JFinite 102) (JStr ''b'') [sample_guest (JFinite 7) (JStr ''x'')]]"
proof -
  let ?arr = "[sample_episode (JFinite 101) (JStr ''a'') []]"
  let ?env = "holding (episodes_key String_int 1399 1 ''en'') ?arr"
  let ?gp = "sample_guest_insert (JFinite 102) (JFinite 7) (JStr ''x'')"
  let ?ep = "sample_episode_insert (JFinite 102) (JStr ''b'')"
  have up: "\<not> down ?env" by (simp add: holding_def)
  have arr: "?arr = all_series_episodes String_int ?env (gi_seriesId ?gp) (gi_language ?gp) (gi_season_number ?gp)"
    by (simp add: all_series_episodes_cells holding_def sample_guest_insert_def reparse_sample_episode)
  have absent: "\<forall>e\<in>set ?arr. \<not> num_eq decimal_ids (ep_episode_id e) (gi_episode_id ?gp)"
    by (simp add: sample_episode_def sample_guest_insert_def num_eq_numbers)
  have numeric: "Number_js decimal_ids (gi_episode_id ?gp) \<noteq> NaN"
    by (simp add: sample_guest_insert_def)
  have kept: "keeps_number decimal_ids (gi_episode_id ?gp)"
    by (simp add: sample_guest_insert_def keeps_number_def)
  have season: "ei_seriesId ?ep = gi_seriesId ?gp" "ei_language ?ep = gi_language ?gp"
      "ei_season_number ?ep = gi_season_number ?gp"
    by (simp_all add: sample_guest_insert_def sample_episode_insert_def)
  have same_id: "num_eq decimal_ids (gi_episode_id ?gp) (ei_episode_id ?ep)"
    by (simp add: sample_guest_insert_def sample_episode_insert_def num_eq_numbers)
  note c4 = C4_guest_star_placeholder [OF up arr absent numeric kept refl season same_id]
  have k: "gi_seriesId ?gp = 1399" "gi_language ?gp = ''en''" "gi_season_number ?gp = 1"
    "gi_episode_id ?gp = JFinite 102" "gi_episode_number ?gp = JFinite 2"
    by (simp_all add: sample_guest_insert_def)
  have sg: "map reparse_guest [sample_guest (JFinite 7) (JStr ''x'')] = [sample_guest (JFinite 7) (JStr ''x'')]"
    by (simp add: reparse_sample_guest)
  have a: "all_series_episodes String_int (run_episode_guest_stars decimal_ids String_int ?env ?gp) 1399 ''en'' 1
     = [sample_episode (JFinite 101) (JStr ''a'') [],
        \<lparr> ep_series_id = JFinite 1399, ep_id = JFinite 102, ep_episode_id = JFinite 102,
          ep_episode_number = JFinite 2, ep_name = JUndefined, ep_overview = JUndefined,
          ep_still_path = JUndefined, ep_air_date = JUndefined, ep_vote_average = JUndefined,
          ep_vote_count = JUndefined, ep_updated_at = JUndefined,
          ep_guest_stars = Some [sample_guest (JFinite 7) (JStr ''x'')] \<rparr>]"
    using c4 [THEN conjunct2, THEN conjunct2, THEN conjunct1]
    by (simp add: k stored_samples)
  have b: "all_series_episodes String_int (run_series_episodes decimal_ids String_int
        (run_episode_guest_stars decimal_ids String_int ?env ?gp) ?ep) 1399 ''en'' 1
     = [sample_episode (JFinite 101) (JStr ''a'') [],
        sample_episode (JFinite 102) (JStr ''b'') [sample_guest (JFinite 7) (JStr ''x'')]]"
    using c4 [THEN conjunct2, THEN conjunct2, THEN conjunct2]
    by (simp add: k stored_samples(2) stored_samples(3) [OF sg])
  from a b show ?thesis by (intro conjI)
qed

text \<open>
  The claim as stated fails for two kinds of episode id. For an id without a numeric value
  (here \<open>undefined\<close>) the placeholder that is pushed is not found again and nothing is written:
  the list is as before. For the id \<open>Infinity\<close> the placeholder is stored with the id \<open>null\<close>,
  so a later episode upsert for \<open>Infinity\<close> does not find it: it appends a third entry with no
  guest stars and the placeholder stays as it was.
\<close>

theorem C4_counterexample:
  "all_series_episodes String_int
     (run_episode_guest_stars decimal_ids String_int
        (holding (episodes_key String_int 1399 1 ''en'') [sample_episode (JFinite 101) (JStr ''a'') []])
        (sample_guest_insert JUndefined (JFinite 7) (JStr ''x''))) 1399 ''en'' 1
     = [sample_episode (JFinite 101) (JStr ''a'') []]
   \<and> all_series_episodes String_int
     (run_episode_guest_stars decimal_ids String_int
        (holding (episodes_key String_int 1399 1 ''en'') [sample_episode (JFinite 101) (JStr ''a'') []])
        (sample_guest_insert (JNum PosInf) (JFinite 7) (JStr ''x''))) 1399 ''en'' 1
     = [sample_episode (JFinite 101) (JStr ''a'') [],
        \<lparr> ep_series_id = JFinite 1399, ep_id = JNull, ep_episode_id = JNull,
          ep_episode_number = JFinite 2, ep_name = JUndefined, ep_overview = JUndefined,
          ep_still_path = JUndefined, ep_air_date = JUndefined, ep_vote_average = JUndefined,
          ep_vote_count = JUndefined, ep_updated_at = JUndefined,
          ep_guest_stars = Some [sample_guest (JFinite 7) (JStr ''x'')] \<rparr>]
   \<and> all_series_episodes String_int
     (run_series_episodes decimal_ids String_int
        (run_episode_guest_stars decimal_ids String_int
           (holding (episodes_key String_int 1399 1 ''en'') [sample_episode (JFinite 101) (JStr ''a'') []])
           (sample_guest_insert (JNum PosInf) (JFinite 7) (JStr ''x'')))
        (sample_episode_insert (JNum PosInf) (JStr ''b''))) 1399 ''en'' 1
     = [sample_episode (JFinite 101) (JStr ''a'') [],
        \<lparr> ep_series_id = JFinite 1399, ep_id = JNull, ep_episode_id = JNull,
          ep_episode_number = JFinite 2, ep_name = JUndefined, ep_overview = JUndefined,
          ep_still_path = JUndefined, ep_air_date = JUndefined, ep_vote_average = JUndefined,
          ep_vote_count = JUndefined, ep_updated_at = JUndefined,
          ep_guest_stars = Some [sample_guest (JFinite 7) (JStr ''x'')] \<rparr>,
        sample_episode JNull (JStr ''b'') []]"
proof -
  let ?arr = "[sample_episode (JFinite 101) (JStr ''a'') []]"
  let ?env = "holding (episodes_key String_int 1399 1 ''en'') ?arr"
  let ?gu = "sample_guest_insert JUndefined (JFinite 7) (JStr ''x'')"
  let ?gi = "sample_guest_insert (JNum PosInf) (JFinite 7) (JStr ''x'')"
  let ?ei = "sample_episode_insert (JNum PosInf) (JStr ''b'')"
  let ?ph = "\<lparr> ep_series_id = JFinite 1399, ep_id = JNull, ep_episode_id = JNull,
          ep_episode_number = JFinite 2, ep_name = JUndefined, ep_overview = JUndefined,
          ep_still_path = JUndefined, ep_air_date = JUndefined, ep_vote_average = JUndefined,
          ep_vote_count = JUndefined, ep_updated_at = JUndefined,
          ep_guest_stars = Some [sample_guest (JFinite 7) (JStr ''x'')] \<rparr>"
  have up: "\<not> down ?env" by (simp add: holding_def)
  have k: "gi_seriesId (sample_guest_insert e i nm) = 1399" "gi_language (sample_guest_insert e i nm) = ''en''"
    "gi_season_number (sample_guest_insert e i nm) = 1" "gi_episode_id (sample_guest_insert e i nm) = e"
    "ei_seriesId (sample_episode_insert i nm) = 1399" "ei_language (sample_episode_insert i nm) = ''en''"
    "ei_season_number (sample_episode_insert i nm) = 1" "ei_episode_id (sample_episode_insert i nm) = i"
    "ep_episode_id (sample_episode i nm gs) = i"
    for e i nm gs
    by (simp_all add: sample_guest_insert_def sample_episode_insert_def sample_episode_def)
  have r0: "all_series_episodes String_int ?env 1399 ''en'' 1 = ?arr"
    by (simp add: all_series_episodes_cells holding_def reparse_sample_episode)
  have "run_episode_guest_stars decimal_ids String_int ?env ?gu = ?env"
    by (rule guest_run_without_numeric_id) (simp add: k)
  with r0 have a: "all_series_episodes String_int
      (run_episode_guest_stars decimal_ids String_int ?env ?gu) 1399 ''en'' 1 = ?arr" by simp
  have sph: "(reparse_episode (placeholder_of ?gi))\<lparr>ep_guest_stars := Some [reparse_guest (guest_of ?gi)]\<rparr> = ?ph"
    by (simp add: stored_samples) (simp add: placeholder_of_def reparse_episode_def sample_guest_insert_def)
  have b: "all_series_episodes String_int
      (run_episode_guest_stars decimal_ids String_int ?env ?gi) 1399 ''en'' 1 = ?arr @ [?ph]"
    using episodes_after_guest_run [OF up, of String_int decimal_ids ?gi]
    by (simp add: k r0 num_eq_numbers sph)
  have up1: "\<not> down (run_episode_guest_stars decimal_ids String_int ?env ?gi)"
    using up by (simp add: down_run_episode_guest_stars)
  have c: "all_series_episodes String_int
      (run_series_episodes decimal_ids String_int
         (run_episode_guest_stars decimal_ids String_int ?env ?gi) ?ei) 1399 ''en'' 1
      = ?arr @ [?ph, sample_episode JNull (JStr ''b'') []]"
    using episodes_after_run [OF up1, of String_int decimal_ids ?ei]
    by (simp add: k b num_eq_def store_at_def stored_samples)
  from a b c show ?thesis by simp
qed

subsection \<open>Guest stars across episode upserts\<close>

lemma findIndex_update_same:
  assumes "findIndex P xs = Some i" "P y"
  shows "findIndex P (xs[i := y]) = Some i"
proof (rule first_match_index)
  from findIndex_Some [OF assms(1)] have i: "i < length xs" and n: "\<forall>j<i. \<not> P (xs ! j)" by simp_all
  show "i < length (xs[i := y])" using i by simp
  show "P (xs[i := y] ! i)" using i assms(2) by simp
  show "\<forall>j<i. \<not> P (xs[i := y] ! j)" using n by simp
qed

lemma stored_guest_stars_find:
  "stored_guest_stars S T env sid lang sn eid =
     (case findIndex (\<lambda>e. num_eq S (ep_episode_id e) eid) (all_series_episodes T env sid lang sn) of
        None \<Rightarrow> None
      | Some i \<Rightarrow> Some (or_empty (ep_guest_stars (all_series_episodes T env sid lang sn ! i))))"
  by (simp add: stored_guest_stars_def find_findIndex split: option.splits)

lemma stored_after_episode_run:
  assumes up: "\<not> down env" and numeric: "Number_js S (ei_episode_id p) \<noteq> NaN"
    and kept: "keeps_number S (ei_episode_id p)"
  shows "stored_guest_stars S T (run_series_episodes S T env p)
           (ei_seriesId p) (ei_language p) (ei_season_number p) (ei_episode_id p)
         = Some (or_empty (stored_guest_stars S T env
                   (ei_seriesId p) (ei_language p) (ei_season_number p) (ei_episode_id p)))"
proof -
  let ?arr = "all_series_episodes T env (ei_seriesId p) (ei_language p) (ei_season_number p)"
  let ?m = "\<lambda>e. num_eq S (ep_episode_id e) (ei_episode_id p)"
  have stable: "map reparse_episode ?arr = ?arr" by (rule all_series_episodes_stable)
  have mnew: "?m (reparse_episode (episode_of p gs))" for gs
    using num_eq_stored [OF kept numeric] by (simp add: episode_of_def reparse_episode_def)
  show ?thesis
  proof (cases "findIndex ?m ?arr")
    case None
    from findIndex_append_new [OF None mnew]
    have "findIndex ?m (?arr @ [reparse_episode (episode_of p [])]) = Some (length ?arr)" .
    with None show ?thesis
      unfolding stored_guest_stars_find episodes_after_run [OF up]
      by (simp add: Let_def store_at_def or_empty_def episode_of_def reparse_episode_def)
  next
    case (Some i)
    from findIndex_Some [OF Some] have i: "i < length ?arr" by simp
    let ?gs = "or_empty (ep_guest_stars (?arr ! i))"
    have gs: "map reparse_guest ?gs = ?gs"
      by (rule reparse_guests_of_stable [OF stable_nth [OF stable i]])
    have new: "ep_guest_stars (reparse_episode (episode_of p ?gs)) = Some ?gs"
      by (rule stored_episode_of(1) [OF gs])
    from findIndex_update_same [OF Some mnew]
    have idx': "findIndex ?m (?arr[i := reparse_episode (episode_of p ?gs)]) = Some i" .
    have after: "all_series_episodes T (run_series_episodes S T env p)
          (ei_seriesId p) (ei_language p) (ei_season_number p)
        = ?arr[i := reparse_episode (episode_of p ?gs)]"
      unfolding episodes_after_run [OF up] by (simp add: Let_def Some store_at_def)
    have before: "stored_guest_stars S T env
          (ei_seriesId p) (ei_language p) (ei_season_number p) (ei_episode_id p) = Some ?gs"
      by (simp add: stored_guest_stars_find Some)
    show ?thesis
      unfolding before stored_guest_stars_find after
      using idx' i by (simp add: new or_empty_Some Some)
  qed
qed

lemma stored_after_guest_run:
  assumes up: "\<not> down env"
    and present: "stored_guest_stars S T env (gi_seriesId gp) (gi_language gp) (gi_season_number gp)
                    (gi_episode_id gp) = Some gs"
  shows "stored_guest_stars S T (run_episode_guest_stars S T env gp)
           (gi_seriesId gp) (gi_language gp) (gi_season_number gp) (gi_episode_id gp)
         = Some (put_guest S gs (guest_of gp))"
proof -
  let ?arr = "all_series_episodes T env (gi_seriesId gp) (gi_language gp) (gi_season_number gp)"
  let ?m = "\<lambda>e. num_eq S (ep_episode_id e) (gi_episode_id gp)"
  from present obtain i where idx: "findIndex ?m ?arr = Some i"
    and gs: "gs = or_empty (ep_guest_stars (?arr ! i))"
    by (auto simp add: stored_guest_stars_find split: option.splits)
  from findIndex_Some [OF idx] have i: "i < length ?arr" and mi: "?m (?arr ! i)" by simp_all
  let ?e' = "(?arr ! i)\<lparr>ep_guest_stars := Some (put_guest S gs (guest_of gp))\<rparr>"
  have "?m ?e'" using mi by simp
  from findIndex_update_same [OF idx this] have idx': "findIndex ?m (?arr[i := ?e']) = Some i" .
  have "all_series_episodes T (run_episode_guest_stars S T env gp)
          (gi_seriesId gp) (gi_language gp) (gi_season_number gp) = ?arr[i := ?e']"
    unfolding episodes_after_guest_run [OF up]
    by (simp add: Let_def idx gs)
  with idx' i show ?thesis
    by (simp add: stored_guest_stars_find or_empty_def)
qed

lemma guest_of_insert: "guest_of (guest_insert_of now sid sn lang e g) = guest_of_tmdb g"
  by (simp add: guest_of_def guest_insert_of_def guest_of_tmdb_def)

lemma numbered_guests_Cons:
  "numbered_guests (None # gs) = numbered_guests gs"
  "numbered_guests (Some g # gs) =
     (if is_number (tg_id g) then guest_of_tmdb g # numbered_guests gs else numbered_guests gs)"
  by (simp_all add: numbered_guests_def)

lemma stored_after_guest_loop:
  assumes up: "\<not> down env"
    and present: "stored_guest_stars S T env sid lang sn (te_id e) = Some gs"
  shows "stored_guest_stars S T (foldl (upsertGuest S T now sid sn lang e) env guests) sid lang sn (te_id e)
         = Some (foldl (put_guest S) gs (numbered_guests guests))
       \<and> \<not> down (foldl (upsertGuest S T now sid sn lang e) env guests)"
  using assms
proof (induction guests arbitrary: env gs)
  case Nil
  then show ?case by (simp add: numbered_guests_def)
next
  case (Cons g guests)
  show ?case
  proof (cases "\<exists>x. g = Some x \<and> is_number (tg_id x)")
    case True
    then obtain x where x: "g = Some x" "is_number (tg_id x)" by blast
    let ?gp = "guest_insert_of now sid sn lang e x"
    let ?env1 = "run_episode_guest_stars S T env ?gp"
    have k: "gi_seriesId ?gp = sid" "gi_language ?gp = lang" "gi_season_number ?gp = sn"
      "gi_episode_id ?gp = te_id e" by (simp_all add: guest_insert_of_def)
    have step: "upsertGuest S T now sid sn lang e env g = ?env1"
      using x by (simp add: upsertGuest_def)
    have up1: "\<not> down ?env1" using Cons.prems(1) by (simp add: down_run_episode_guest_stars)
    have "stored_guest_stars S T ?env1 sid lang sn (te_id e) = Some (put_guest S gs (guest_of ?gp))"
      using stored_after_guest_run [of env S T ?gp gs] Cons.prems by (simp add: k)
    then have st1: "stored_guest_stars S T ?env1 sid lang sn (te_id e) = Some (put_guest S gs (guest_of_tmdb x))"
      by (simp add: guest_of_insert)
    from Cons.IH [OF up1 st1] step x show ?thesis
      by (simp add: numbered_guests_Cons)
  next
    case False
    then have step: "upsertGuest S T now sid sn lang e env g = env"
      by (cases g) (auto simp add: upsertGuest_def)
    from False have "numbered_guests (g # guests) = numbered_guests guests"
      by (cases g) (auto simp add: numbered_guests_Cons)
    with Cons.IH [OF Cons.prems] step show ?thesis by simp
  qed
qed

lemma finite_number_id:
  assumes "is_finite_number (g_id g)"
  shows "g_id (reparse_guest g) = g_id g"
  using assms by (cases "g_id g" rule: is_finite_number.cases) (simp_all add: reparse_guest_def)

lemma finite_numbers_equal:
  assumes "is_finite_number a" "is_finite_number b"
  shows "num_eq S a b \<longleftrightarrow> a = b"
  using assms
  by (cases a rule: is_finite_number.cases; cases b rule: is_finite_number.cases)
     (simp_all add: num_eq_numbers)

lemma put_guests_fresh:
  assumes "\<forall>g\<in>set (acc @ gs). is_finite_number (g_id g)" and "distinct (map g_id (acc @ gs))"
  shows "foldl (put_guest S) acc gs = acc @ map reparse_guest gs"
  using assms
proof (induction gs arbitrary: acc)
  case Nil
  then show ?case by simp
next
  case (Cons g gs)
  have "\<not> num_eq S (g_id a) (g_id g)" if "a \<in> set acc" for a
  proof -
    from Cons.prems(1) that have "is_finite_number (g_id a)" "is_finite_number (g_id g)" by simp_all
    moreover have "g_id a \<noteq> g_id g"
    proof -
      from Cons.prems(2) have "g_id g \<notin> g_id ` set acc" by simp
      with that show ?thesis by (metis imageI)
    qed
    ultimately show ?thesis by (simp add: finite_numbers_equal)
  qed
  then have step: "put_guest S acc g = acc @ [reparse_guest g]"
    unfolding put_guest_def by (intro store_at_append) simp
  have id: "g_id (reparse_guest g) = g_id g"
    using Cons.prems(1) by (simp add: finite_number_id)
  have a: "\<forall>x\<in>set ((acc @ [reparse_guest g]) @ gs). is_finite_number (g_id x)"
    using Cons.prems(1) by (auto simp add: id)
  have b: "distinct (map g_id ((acc @ [reparse_guest g]) @ gs))"
    using Cons.prems(2) by (simp add: id)
  from Cons.IH [OF a b] step show ?case by simp
qed

lemma finite_is_number: "is_finite_number v \<Longrightarrow> is_number v"
  by (cases v rule: is_finite_number.cases) simp_all

lemma stored_after_upsert_single:
  assumes up: "\<not> down env" and fin: "is_finite_number (te_id e)"
  shows "stored_guest_stars S T (upsertSeasonEpisodes S T now env sid sn lang (Some [Some e]))
           sid lang sn (te_id e)
         = Some (foldl (put_guest S) (or_empty (stored_guest_stars S T env sid lang sn (te_id e)))
                   (case te_guest_stars e of None \<Rightarrow> [] | Some guests \<Rightarrow> numbered_guests guests))"
proof -
  let ?p = "episode_insert_of now sid sn lang e"
  let ?env1 = "run_series_episodes S T env ?p"
  have num: "is_number (te_id e)" by (rule finite_is_number [OF fin])
  have k: "ei_seriesId ?p = sid" "ei_language ?p = lang" "ei_season_number ?p = sn"
    "ei_episode_id ?p = te_id e" by (simp_all add: episode_insert_of_def)
  have up1: "\<not> down ?env1" using up by (simp add: down_run_series_episodes)
  have st1: "stored_guest_stars S T ?env1 sid lang sn (te_id e)
      = Some (or_empty (stored_guest_stars S T env sid lang sn (te_id e)))"
    using stored_after_episode_run [of env S ?p T] up finite_keeps_number [OF fin, of S] by (simp add: k)
  show ?thesis
  proof (cases "te_guest_stars e")
    case None
    with st1 num show ?thesis by (simp add: upsertSeasonEpisodes_def upsertEpisode_def)
  next
    case (Some guests)
    from stored_after_guest_loop [OF up1 st1, of now guests] Some num
    show ?thesis by (simp add: upsertSeasonEpisodes_def upsertEpisode_def)
  qed
qed

text \<open>
  C1 (as amended). For an upsert of one upstream episode whose id is a finite number (the
  backend being reachable) into the episode list of a season: when the episode carries no
  guest-star array, the guest stars stored for that id afterwards are the ones stored before,
  and the empty list when the id was not stored; when it carries a guest-star array, each
  guest of the array whose id is a number is upserted into the array carried forward (it
  replaces the first entry whose id equals its id as a number, or is appended, and is then
  read in its stored form), so guest stars stored before and not named by the array stay; for
  an episode not stored before whose numbered guests have finite, pairwise different ids, the
  stored array is the list of those guests in their stored form. The episode insert of the
  shim by itself carries the stored guest stars forward for every id that has a numeric value
  and keeps it in the store.
\<close>

theorem C1_guest_star_carry_forward:
  assumes up: "\<not> down env"
    and plain: "is_finite_number (te_id e)" "te_guest_stars e = None"
    and full: "is_finite_number (te_id f)" "te_guest_stars f = Some guests"
    and numeric: "Number_js S (ei_episode_id p) \<noteq> NaN"
    and kept: "keeps_number S (ei_episode_id p)"
  shows
    "stored_guest_stars S T (upsertSeasonEpisodes S T now env sid sn lang (Some [Some e]))
        sid lang sn (te_id e)
       = Some (or_empty (stored_guest_stars S T env sid lang sn (te_id e)))
     \<and> stored_guest_stars S T (upsertSeasonEpisodes S T now env sid sn lang (Some [Some f]))
        sid lang sn (te_id f)
       = Some (foldl (put_guest S) (or_empty (stored_guest_stars S T env sid lang sn (te_id f)))
                 (numbered_guests guests))
     \<and> (stored_guest_stars S T env sid lang sn (te_id f) = None
          \<and> (\<forall>g\<in>set (numbered_guests guests). is_finite_number (g_id g))
          \<and> distinct (map g_id (numbered_guests guests))
        \<longrightarrow> stored_guest_stars S T (upsertSeasonEpisodes S T now env sid sn lang (Some [Some f]))
              sid lang sn (te_id f)
            = Some (map reparse_guest (numbered_guests guests)))
     \<and> stored_guest_stars S T (run_series_episodes S T env p)
          (ei_seriesId p) (ei_language p) (ei_season_number p) (ei_episode_id p)
       = Some (or_empty (stored_guest_stars S T env
                 (ei_seriesId p) (ei_language p) (ei_season_number p) (ei_episode_id p)))"
proof -
  have a: "stored_guest_stars S T (upsertSeasonEpisodes S T now env sid sn lang (Some [Some e]))
        sid lang sn (te_id e)
       = Some (or_empty (stored_guest_stars S T env sid lang sn (te_id e)))"
    using stored_after_upsert_single [OF up plain(1), of S T now sid sn lang] plain(2) by simp
  have b: "stored_guest_stars S T (upsertSeasonEpisodes S T now env sid sn lang (Some [Some f]))
        sid lang sn (te_id f)
       = Some (foldl (put_guest S) (or_empty (stored_guest_stars S T env sid lang sn (te_id f)))
                 (numbered_guests guests))"
    using stored_after_upsert_single [OF up full(1), of S T now sid sn lang] full(2) by simp
  have c: "stored_guest_stars S T env sid lang sn (te_id f) = None
          \<and> (\<forall>g\<in>set (numbered_guests guests). is_finite_number (g_id g))
          \<and> distinct (map g_id (numbered_guests guests))
        \<longrightarrow> stored_guest_stars S T (upsertSeasonEpisodes S T now env sid sn lang (Some [Some f]))
              sid lang sn (te_id f)
            = Some (map reparse_guest (numbered_guests guests))"
    using b put_guests_fresh [of "[]" "numbered_guests guests" S] by (simp add: or_empty_def)
  have d: "stored_guest_stars S T (run_series_episodes S T env p)
          (ei_seriesId p) (ei_language p) (ei_season_number p) (ei_episode_id p)
       = Some (or_empty (stored_guest_stars S T env
                 (ei_seriesId p) (ei_language p) (ei_season_number p) (ei_episode_id p)))"
    by (rule stored_after_episode_run [OF up numeric kept])
  from a b c d show ?thesis by (intro conjI)
qed

lemma stored_holding:
  "stored_guest_stars S T (holding (episodes_key T sid sn lang) arr) sid lang sn eid
     = (case find (\<lambda>e. num_eq S (ep_episode_id e) eid) (map reparse_episode arr) of
          None \<Rightarrow> None | Some e \<Rightarrow> Some (or_empty (ep_guest_stars e)))"
  by (simp add: stored_guest_stars_def all_series_episodes_cells holding_def)

theorem C1_guest_star_carry_forward_witness:
  "stored_guest_stars decimal_ids String_int
      (upsertSeasonEpisodes decimal_ids String_int 1700000500
         (holding (episodes_key String_int 1399 1 ''en'')
            [sample_episode (JFinite 102) (JStr ''b'') [sample_guest (JFinite 7) (JStr ''x'')]])
         1399 1 ''en'' (Some [Some (sample_tmdb_episode (JFinite 102) (JStr ''B'') None)]))
      1399 ''en'' 1 (JFinite 102)
     = Some [sample_guest (JFinite 7) (JStr ''x'')]
   \<and> stored_guest_stars decimal_ids String_int
      (upsertSeasonEpisodes decimal_ids String_int 1700000500
         (holding (episodes_key String_int 1399 1 ''en'')
            [sample_episode (JFinite 102) (JStr ''b'') [sample_guest (JFinite 7) (JStr ''x'')]])
         1399 1 ''en''
         (Some [Some (sample_tmdb_episode (JFinite 103) (JStr ''c'')
                  (Some [Some (sample_tmdb_guest (JFinite 8) (JStr ''y'')), None,
                         Some (sample_tmdb_guest (JStr ''9'') (JStr ''z''))]))]))
      1399 ''en'' 1 (JFinite 103)
     = Some [sample_guest (JFinite 8) (JStr ''y'')]"
proof -
  let ?env = "holding (episodes_key String_int 1399 1 ''en'')
            [sample_episode (JFinite 102) (JStr ''b'') [sample_guest (JFinite 7) (JStr ''x'')]]"
  let ?e = "sample_tmdb_episode (JFinite 102) (JStr ''B'') None"
  let ?guests = "[Some (sample_tmdb_guest (JFinite 8) (JStr ''y'')), None,
                         Some (sample_tmdb_guest (JStr ''9'') (JStr ''z''))]"
  let ?f = "sample_tmdb_episode (JFinite 103) (JStr ''c'') (Some ?guests)"
  let ?p = "sample_episode_insert (JFinite 102) (JStr ''B'')"
  have up: "\<not> down ?env" by (simp add: holding_def)
  have plain: "is_finite_number (te_id ?e)" "te_guest_stars ?e = None"
    by (simp_all add: sample_tmdb_episode_def)
  have full: "is_finite_number (te_id ?f)" "te_guest_stars ?f = Some ?guests"
    by (simp_all add: sample_tmdb_episode_def)
  have numeric: "Number_js decimal_ids (ei_episode_id ?p) \<noteq> NaN"
    by (simp add: sample_episode_insert_def)
  have kept: "keeps_number decimal_ids (ei_episode_id ?p)"
    by (simp add: sample_episode_insert_def keeps_number_def)
  note c1 = C1_guest_star_carry_forward [OF up plain full numeric kept, of String_int 1700000500 1399 1 "''en''"]
  have ng: "numbered_guests ?guests = [sample_guest (JFinite 8) (JStr ''y'')]"
    by (simp add: numbered_guests_def sample_tmdb_guest_def guest_of_tmdb_def sample_guest_def)
  have before_e: "stored_guest_stars decimal_ids String_int ?env 1399 ''en'' 1 (te_id ?e)
      = Some [sample_guest (JFinite 7) (JStr ''x'')]"
    by (simp add: stored_holding reparse_sample_episode reparse_sample_guest)
       (simp add: sample_tmdb_episode_def sample_episode_def num_eq_numbers or_empty_def)
  have before_f: "stored_guest_stars decimal_ids String_int ?env 1399 ''en'' 1 (te_id ?f) = None"
    by (simp add: stored_holding reparse_sample_episode reparse_sample_guest)
       (simp add: sample_tmdb_episode_def sample_episode_def num_eq_numbers)
  have fin: "\<forall>g\<in>set (numbered_guests ?guests). is_finite_number (g_id g)"
    by (simp add: ng sample_guest_def)
  have uq: "distinct (map g_id (numbered_guests ?guests))"
    by (simp add: ng)
  have a: "stored_guest_stars decimal_ids String_int
      (upsertSeasonEpisodes decimal_ids String_int 1700000500 ?env 1399 1 ''en'' (Some [Some ?e]))
      1399 ''en'' 1 (JFinite 102) = Some [sample_guest (JFinite 7) (JStr ''x'')]"
    using c1 [THEN conjunct1] before_e by (simp add: or_empty_def sample_tmdb_episode_def)
  have b: "stored_guest_stars decimal_ids String_int
      (upsertSeasonEpisodes decimal_ids String_int 1700000500 ?env 1399 1 ''en'' (Some [Some ?f]))
      1399 ''en'' 1 (JFinite 103) = Some [sample_guest (JFinite 8) (JStr ''y'')]"
    using c1 [THEN conjunct2, THEN conjunct2, THEN conjunct1, THEN mp, OF conjI [OF before_f conjI [OF fin uq]]] ng
    by (simp add: sample_tmdb_episode_def reparse_sample_guest)
  from a b show ?thesis by (intro conjI)
qed

text \<open>
  The claim as stated fails in two ways. Where the incoming episode brings a guest-star array
  for an episode that already has guest stars, the stored array is not the incoming one: with
  guest 7 stored, an upsert whose array names only guest 8 leaves both 7 and 8 stored, and an
  upsert whose array is empty leaves guest 7 stored. And an episode that was not stored before
  is not inserted with the guest stars that accompany it when its id is \<open>Infinity\<close>: the
  episode is stored with the id \<open>null\<close> and no guest stars, the guest-star upsert does not
  find it, and the guest star ends up in a separate placeholder entry.
\<close>

theorem C1_counterexample:
  "stored_guest_stars decimal_ids String_int
      (upsertSeasonEpisodes decimal_ids String_int 1700000500
         (holding (episodes_key String_int 1399 1 ''en'')
            [sample_episode (JFinite 102) (JStr ''b'') [sample_guest (JFinite 7) (JStr ''x'')]])
         1399 1 ''en''
         (Some [Some (sample_tmdb_episode (JFinite 102) (JStr ''B'')
                  (Some [Some (sample_tmdb_guest (JFinite 8) (JStr ''y''))]))]))
      1399 ''en'' 1 (JFinite 102)
     = Some [sample_guest (JFinite 7) (JStr ''x''), sample_guest (JFinite 8) (JStr ''y'')]
   \<and> stored_guest_stars decimal_ids String_int
      (upsertSeasonEpisodes decimal_ids String_int 1700000500
         (holding (episodes_key String_int 1399 1 ''en'')
            [sample_episode (JFinite 102) (JStr ''b'') [sample_guest (JFinite 7) (JStr ''x'')]])
         1399 1 ''en''
         (Some [Some (sample_tmdb_episode (JFinite 102) (JStr ''B'') (Some []))]))
      1399 ''en'' 1 (JFinite 102)
     = Some [sample_guest (JFinite 7) (JStr ''x'')]
   \<and> all_series_episodes String_int
      (upsertSeasonEpisodes decimal_ids String_int 1700000000 empty_backend 1399 1 ''en''
         (Some [Some (sample_tmdb_episode (JNum PosInf) (JStr ''c'')
                  (Some [Some (sample_tmdb_guest (JFinite 8) (JStr ''y''))]))]))
      1399 ''en'' 1
     = [sample_episode JNull (JStr ''c'') [],
        \<lparr> ep_series_id = JFinite 1399, ep_id = JNull, ep_episode_id = JNull,
          ep_episode_number = JFinite 2, ep_name = JUndefined, ep_overview = JUndefined,
          ep_still_path = JUndefined, ep_air_date = JUndefined, ep_vote_average = JUndefined,
          ep_vote_count = JUndefined, ep_updated_at = JUndefined,
          ep_guest_stars = Some [sample_guest (JFinite 8) (JStr ''y'')] \<rparr>]"
proof -
  let ?env = "holding (episodes_key String_int 1399 1 ''en'')
            [sample_episode (JFinite 102) (JStr ''b'') [sample_guest (JFinite 7) (JStr ''x'')]]"
  let ?f = "sample_tmdb_episode (JFinite 102) (JStr ''B'')
                  (Some [Some (sample_tmdb_guest (JFinite 8) (JStr ''y''))])"
  let ?g = "sample_tmdb_episode (JFinite 102) (JStr ''B'') (Some [])"
  have up: "\<not> down ?env" by (simp add: holding_def)
  have nf: "is_finite_number (te_id ?f)" "is_finite_number (te_id ?g)"
    by (simp_all add: sample_tmdb_episode_def)
  have before: "stored_guest_stars decimal_ids String_int ?env 1399 ''en'' 1 (JFinite 102)
      = Some [sample_guest (JFinite 7) (JStr ''x'')]"
    by (simp add: stored_holding reparse_sample_episode reparse_sample_guest)
       (simp add: sample_episode_def num_eq_numbers or_empty_def)
  have a: "stored_guest_stars decimal_ids String_int
      (upsertSeasonEpisodes decimal_ids String_int 1700000500 ?env 1399 1 ''en'' (Some [Some ?f]))
      1399 ''en'' 1 (JFinite 102)
     = Some [sample_guest (JFinite 7) (JStr ''x''), sample_guest (JFinite 8) (JStr ''y'')]"
    using stored_after_upsert_single [OF up nf(1), of decimal_ids String_int 1700000500 1399 1 "''en''"] before
    by (simp add: sample_tmdb_episode_def or_empty_def numbered_guests_def sample_tmdb_guest_def
          guest_of_tmdb_def sample_guest_def put_guest_def store_at_def num_eq_numbers reparse_guest_def)
  have b: "stored_guest_stars decimal_ids String_int
      (upsertSeasonEpisodes decimal_ids String_int 1700000500 ?env 1399 1 ''en'' (Some [Some ?g]))
      1399 ''en'' 1 (JFinite 102) = Some [sample_guest (JFinite 7) (JStr ''x'')]"
    using stored_after_upsert_single [OF up nf(2), of decimal_ids String_int 1700000500 1399 1 "''en''"] before
    by (simp add: sample_tmdb_episode_def or_empty_def numbered_guests_def)
  let ?h = "sample_tmdb_episode (JNum PosInf) (JStr ''c'')
                  (Some [Some (sample_tmdb_guest (JFinite 8) (JStr ''y''))])"
  let ?ei = "episode_insert_of 1700000000 1399 1 ''en'' ?h"
  let ?gi = "guest_insert_of 1700000000 1399 1 ''en'' ?h (sample_tmdb_guest (JFinite 8) (JStr ''y''))"
  let ?env1 = "run_series_episodes decimal_ids String_int empty_backend ?ei"
  let ?env2 = "run_episode_guest_stars decimal_ids String_int ?env1 ?gi"
  let ?ph = "\<lparr> ep_series_id = JFinite 1399, ep_id = JNull, ep_episode_id = JNull,
          ep_episode_number = JFinite 2, ep_name = JUndefined, ep_overview = JUndefined,
          ep_still_path = JUndefined, ep_air_date = JUndefined, ep_vote_average = JUndefined,
          ep_vote_count = JUndefined, ep_updated_at = JUndefined,
          ep_guest_stars = Some [sample_guest (JFinite 8) (JStr ''y'')] \<rparr>"
  have whole: "upsertSeasonEpisodes decimal_ids String_int 1700000000 empty_backend 1399 1 ''en''
      (Some [Some ?h]) = ?env2"
    by (simp add: upsertSeasonEpisodes_def upsertEpisode_def upsertGuest_def sample_tmdb_episode_def
          sample_tmdb_guest_def)
  have k: "ei_seriesId ?ei = 1399" "ei_language ?ei = ''en''" "ei_season_number ?ei = 1"
    "ei_episode_id ?ei = JNum PosInf" "gi_seriesId ?gi = 1399" "gi_language ?gi = ''en''"
    "gi_season_number ?gi = 1" "gi_episode_id ?gi = JNum PosInf"
    by (simp_all add: episode_insert_of_def guest_insert_of_def sample_tmdb_episode_def)
  have se: "reparse_episode (episode_of ?ei []) = sample_episode JNull (JStr ''c'') []"
    by (simp add: reparse_episode_def episode_of_def episode_insert_of_def sample_tmdb_episode_def
          sample_episode_def)
  have sp: "(reparse_episode (placeholder_of ?gi))\<lparr>ep_guest_stars := Some [reparse_guest (guest_of ?gi)]\<rparr> = ?ph"
    by (simp add: reparse_episode_def placeholder_of_def guest_insert_of_def sample_tmdb_episode_def
          reparse_guest_def guest_of_def sample_tmdb_guest_def sample_guest_def)
  have r1: "all_series_episodes String_int ?env1 1399 ''en'' 1 = [sample_episode JNull (JStr ''c'') []]"
    using episodes_after_run [OF empty_backend_lists(3), of String_int decimal_ids ?ei]
    by (simp add: k empty_backend_lists store_at_def se)
  have up1: "\<not> down ?env1" by (simp add: down_run_series_episodes empty_backend_lists)
  have r2: "all_series_episodes String_int ?env2 1399 ''en'' 1 = [sample_episode JNull (JStr ''c'') [], ?ph]"
    using episodes_after_guest_run [OF up1, of String_int decimal_ids ?gi]
    by (simp add: k r1 sp) (simp add: sample_episode_def num_eq_def)
  from a b r2 show ?thesis unfolding whole by (intro conjI)
qed

subsection \<open>Completeness of the series record\<close>

lemma first_after_upsertSeries:
  "\<not> down env \<Longrightarrow>
   \<exists>row. first_series_by_id T (upsertSeries T st now env lang item) (sp_id item) lang = Some row
     \<and> sr_seasons row = JUndefined"
  by (simp add: first_series_by_id_def upsertSeries_def run_series_by_id_def
        cacheGet_def cacheSet_def Let_def reparse_series_row_def)

lemma first_after_upsertSeries_down:
  "down env \<Longrightarrow> first_series_by_id T (upsertSeries T st now env lang item) i lang = None"
  by (simp add: first_series_by_id_def upsertSeries_def run_series_by_id_def
        cacheGet_def cacheSet_def Let_def)

text \<open>
  C2 (what the code does). The row that \<open>first\<close> reads back after \<open>upsertSeries\<close>, whatever the
  payload, has no \<open>seasons\<close> property, and \<open>isExtendedDataMissing\<close> returns true on it: also
  after a full detail upsert that populates \<open>created_by\<close>, \<open>number_of_episodes\<close> and
  \<open>number_of_seasons\<close>.
\<close>

theorem C2_detail_upsert_reads_incomplete:
  "first_series_by_id T (upsertSeries T stringify now env language item) (sp_id item) language = Some row
     \<longrightarrow> isExtendedDataMissing parse row"
proof (cases "down env")
  case True
  then show ?thesis by (simp add: first_after_upsertSeries_down)
next
  case False
  from first_after_upsertSeries [OF False, of T stringify now language item]
  show ?thesis by (auto simp add: isExtendedDataMissing_def Let_def)
qed

theorem C2_detail_upsert_reads_incomplete_witness:
  "first_series_by_id String_int
     (upsertSeries String_int (\<lambda>v. ''[{\"id\":9813}]'') 1700000000 empty_backend ''en''
        \<lparr> sp_id = 1399, sp_genre_ids = JArr [JFinite 18], sp_original_language = JStr ''en'',
          sp_overview = JStr ''o'', sp_original_name = JStr ''n'',
          sp_created_by = JArr [JObj [(''id'', JFinite 9813)]], sp_number_of_episodes = JFinite 73,
          sp_number_of_seasons = JFinite 8, sp_poster_path = JNull, sp_first_air_date = JNull,
          sp_name = JStr ''n'', sp_vote_average = JFinite 8, sp_vote_count = JFinite 100 \<rparr>)
     1399 ''en''
   = Some \<lparr> sr_tmdb_id = JFinite 1399, sr_genre_ids = JStr ''[{\"id\":9813}]'',
            sr_original_language = JStr ''en'', sr_overview = JStr ''o'',
            sr_original_name = JStr ''n'', sr_created_by = JStr ''[{\"id\":9813}]'',
            sr_number_of_episodes = JFinite 73, sr_number_of_seasons = JFinite 8,
            sr_poster_path = JNull, sr_first_air_date = JNull, sr_name = JStr ''n'',
            sr_vote_average = JFinite 8, sr_vote_count = JFinite 100,
            sr_updated_at = JFinite 1700000000, sr_seasons = JUndefined \<rparr>
   \<and> isExtendedDataMissing (\<lambda>v. Some (JArr [JObj [(''id'', JFinite 9813)]]))
       \<lparr> sr_tmdb_id = JFinite 1399, sr_genre_ids = JStr ''[{\"id\":9813}]'',
            sr_original_language = JStr ''en'', sr_overview = JStr ''o'',
            sr_original_name = JStr ''n'', sr_created_by = JStr ''[{\"id\":9813}]'',
            sr_number_of_episodes = JFinite 73, sr_number_of_seasons = JFinite 8,
            sr_poster_path = JNull, sr_first_air_date = JNull, sr_name = JStr ''n'',
            sr_vote_average = JFinite 8, sr_vote_count = JFinite 100,
            sr_updated_at = JFinite 1700000000, sr_seasons = JUndefined \<rparr>
   \<and> \<not> isExtendedDataMissing (\<lambda>v. Some (JArr [JObj [(''id'', JFinite 9813)]]))
       \<lparr> sr_tmdb_id = JFinite 1399, sr_genre_ids = JStr ''[{\"id\":9813}]'',
            sr_original_language = JStr ''en'', sr_overview = JStr ''o'',
            sr_original_name = JStr ''n'', sr_created_by = JStr ''[{\"id\":9813}]'',
            sr_number_of_episodes = JFinite 73, sr_number_of_seasons = JFinite 8,
            sr_poster_path = JNull, sr_first_air_date = JNull, sr_name = JStr ''n'',
            sr_vote_average = JFinite 8, sr_vote_count = JFinite 100,
            sr_updated_at = JFinite 1700000000, sr_seasons = JArr [] \<rparr>"
proof -
  let ?item = "\<lparr> sp_id = 1399, sp_genre_ids = JArr [JFinite 18], sp_original_language = JStr ''en'',
          sp_overview = JStr ''o'', sp_original_name = JStr ''n'',
          sp_created_by = JArr [JObj [(''id'', JFinite 9813)]], sp_number_of_episodes = JFinite 73,
          sp_number_of_seasons = JFinite 8, sp_poster_path = JNull, sp_first_air_date = JNull,
          sp_name = JStr ''n'', sp_vote_average = JFinite 8, sp_vote_count = JFinite 100 \<rparr>"
  let ?row = "\<lparr> sr_tmdb_id = JFinite 1399, sr_genre_ids = JStr ''[{\"id\":9813}]'',
            sr_original_language = JStr ''en'', sr_overview = JStr ''o'',
            sr_original_name = JStr ''n'', sr_created_by = JStr ''[{\"id\":9813}]'',
            sr_number_of_episodes = JFinite 73, sr_number_of_seasons = JFinite 8,
            sr_poster_path = JNull, sr_first_air_date = JNull, sr_name = JStr ''n'',
            sr_vote_average = JFinite 8, sr_vote_count = JFinite 100,
            sr_updated_at = JFinite 1700000000, sr_seasons = JUndefined \<rparr>"
  have r: "first_series_by_id String_int
      (upsertSeries String_int (\<lambda>v. ''[{\"id\":9813}]'') 1700000000 empty_backend ''en'' ?item)
      1399 ''en'' = Some ?row"
    by (simp add: first_series_by_id_def upsertSeries_def run_series_by_id_def
        cacheGet_def cacheSet_def Let_def empty_backend_def js_or_def reparse_series_row_def)
  have i: "isExtendedDataMissing (\<lambda>v. Some (JArr [JObj [(''id'', JFinite 9813)]])) ?row"
    using C2_detail_upsert_reads_incomplete
      [of String_int "\<lambda>v. ''[{\"id\":9813}]''" 1700000000 empty_backend "''en''" ?item ?row
          "\<lambda>v. Some (JArr [JObj [(''id'', JFinite 9813)]])"] r
    by simp
  have n: "\<not> isExtendedDataMissing (\<lambda>v. Some (JArr [JObj [(''id'', JFinite 9813)]]))
      (?row\<lparr>sr_seasons := JArr []\<rparr>)"
    by (simp add: isExtendedDataMissing_def parseJsonArray_def)
  from r i n show ?thesis by simp
qed

subsection \<open>The episode route\<close>

lemma handle_record_iff:
  "handleSeriesEpisode S T lower collate now env renv u sid sn en lang = FromRecord c
     \<longleftrightarrow> readEpisode S T env sid sn en lang = Some c
         \<and> js_le (js_minus S (JFinite (of_int now)) (ce_updated_at c)) CACHE_INTERVAL_SECONDS
         \<and> ce_guest_stars c \<noteq> []"
  by (auto simp add: handleSeriesEpisode_def Let_def split: option.splits sum.splits)




lemma readEpisode_holding:
  "readEpisode S T (holding (episodes_key T sid sn lang) arr) sid sn en lang =
     (case find (\<lambda>e. num_eq S (ep_episode_number e) en) (map reparse_episode arr) of
        None \<Rightarrow> None
      | Some row \<Rightarrow> Some \<lparr> ce_row = row,
                          ce_guest_stars = concat (map guest_rows_of (map reparse_episode arr)),
                          ce_updated_at = ep_updated_at row \<rparr>)"
  by (simp add: readEpisode_def first_series_episode_def all_episode_guest_stars_def
        cacheGet_def holding_def or_empty_def split: option.splits)



text \<open>
  The guest rows that \<open>readEpisode\<close> returns are those of the whole season: \<open>readEpisode\<close>
  binds the episode number to the guest-star query, and the branch of \<open>all\<close> does not read
  it. An episode that has no guest stars of its own is therefore served from the record when
  another episode of its season has some.
\<close>

lemma season_guest_stars_serve_episode_without_guest_stars:
  "handleSeriesEpisode decimal_ids String_int ascii_lower (\<lambda>k. k) 1700000100
      (holding (episodes_key String_int 1399 1 ''en'')
         [sample_episode (JFinite 102) (JStr ''b'') [],
          (sample_episode (JFinite 103) (JStr ''c'') [sample_guest (JFinite 7) (JStr ''x'')])
            \<lparr>ep_episode_number := JFinite 3\<rparr>])
      (empty_backend :: json backend)
      \<lparr> pathname = ''/v1/series/1399/season/1/episode/2'', searchParams = [(''language'', ''en'')] \<rparr>
      1399 1 (JFinite 2) ''en''
    = FromRecord
        \<lparr> ce_row = sample_episode (JFinite 102) (JStr ''b'') [],
          ce_guest_stars = guest_rows_of
            ((sample_episode (JFinite 103) (JStr ''c'') [sample_guest (JFinite 7) (JStr ''x'')])
               \<lparr>ep_episode_number := JFinite 3\<rparr>),
          ce_updated_at = JFinite 1700000000 \<rparr>"
proof -
  let ?e = "sample_episode (JFinite 102) (JStr ''b'') []"
  let ?f = "(sample_episode (JFinite 103) (JStr ''c'') [sample_guest (JFinite 7) (JStr ''x'')])
            \<lparr>ep_episode_number := JFinite 3\<rparr>"
  have st: "map reparse_episode [?e, ?f] = [?e, ?f]"
    by (simp add: reparse_episode_def sample_episode_def reparse_guest_def sample_guest_def)
  have r: "readEpisode decimal_ids String_int (holding (episodes_key String_int 1399 1 ''en'') [?e, ?f])
      1399 1 (JFinite 2) ''en''
      = Some \<lparr> ce_row = ?e, ce_guest_stars = guest_rows_of ?f, ce_updated_at = JFinite 1700000000 \<rparr>"
    unfolding readEpisode_holding st
    by (simp add: sample_episode_def num_eq_numbers guest_rows_of_def or_empty_def)
  have g: "guest_rows_of ?f \<noteq> []"
    by (simp add: guest_rows_of_def sample_episode_def or_empty_def)
  show ?thesis
    using r g by (simp add: handle_record_iff js_minus_def CACHE_INTERVAL_SECONDS_def)
qed

subsection \<open>Misses\<close>

lemma cacheGet_misses:
  "misses env key \<Longrightarrow> cacheGet decode env key = Inl BackendError \<or> cacheGet decode env key = Inr None"
  by (auto simp add: misses_def cacheGet_def)

text \<open>
  C9. When the backend is unreachable, or holds nothing under the key, or holds a text that
  does not decode, every \<open>first\<close> of the shim returns \<open>null\<close> and every \<open>all\<close> returns the empty
  list; \<open>cacheGet\<close> itself returns \<open>null\<close> for a missing key and for a text that does not
  decode. The results of \<open>first\<close> and \<open>all\<close> are plain values: the exception of an unreachable
  backend ends in the \<open>catch\<close> of the shim and is never passed on.
\<close>

theorem C9_reads_miss_without_error:
  "(misses menv (''/movies/channel/'' @ channelId @ ''?lang='' @ language)
      \<longrightarrow> first_movies_by_channel menv channelId language = None)
   \<and> (misses menv (''/movies/id/'' @ T tmdbId @ ''?lang='' @ language)
      \<longrightarrow> first_movies_by_id T menv tmdbId language = None)
   \<and> (misses senv (''/series/id/'' @ T tmdbId @ ''?lang='' @ language)
      \<longrightarrow> first_series_by_id T senv tmdbId language = None)
   \<and> (misses eenv (episodes_key T seriesId seasonNumber language)
      \<longrightarrow> first_series_episode S T eenv seriesId language seasonNumber episodeNumber = None
          \<and> all_series_episodes T eenv seriesId language seasonNumber = []
          \<and> all_episode_guest_stars T eenv seriesId language seasonNumber = [])
   \<and> (misses lenv (seasons_key T seriesId language)
      \<longrightarrow> all_series_seasons T lenv seriesId language = [])
   \<and> (\<not> down menv \<and> (cells menv key = Absent \<or> cells menv key = Garbled)
      \<longrightarrow> cacheGet decode menv key = Inr None)"
proof -
  have a: "misses menv (''/movies/channel/'' @ channelId @ ''?lang='' @ language)
      \<longrightarrow> first_movies_by_channel menv channelId language = None"
    using cacheGet_misses [of menv "''/movies/channel/'' @ channelId @ ''?lang='' @ language" reparse_movie_row]
    by (auto simp add: first_movies_by_channel_def)
  have b: "misses menv (''/movies/id/'' @ T tmdbId @ ''?lang='' @ language)
      \<longrightarrow> first_movies_by_id T menv tmdbId language = None"
    using cacheGet_misses [of menv "''/movies/id/'' @ T tmdbId @ ''?lang='' @ language" reparse_movie_row]
    by (auto simp add: first_movies_by_id_def)
  have c: "misses senv (''/series/id/'' @ T tmdbId @ ''?lang='' @ language)
      \<longrightarrow> first_series_by_id T senv tmdbId language = None"
    using cacheGet_misses [of senv "''/series/id/'' @ T tmdbId @ ''?lang='' @ language" reparse_series_row]
    by (auto simp add: first_series_by_id_def)
  have d: "misses eenv (episodes_key T seriesId seasonNumber language)
      \<longrightarrow> first_series_episode S T eenv seriesId language seasonNumber episodeNumber = None
          \<and> all_series_episodes T eenv seriesId language seasonNumber = []
          \<and> all_episode_guest_stars T eenv seriesId language seasonNumber = []"
    using cacheGet_misses [of eenv "episodes_key T seriesId seasonNumber language" "map reparse_episode"]
    by (auto simp add: first_series_episode_def all_series_episodes_def all_episode_guest_stars_def
          or_empty_def)
  have e: "misses lenv (seasons_key T seriesId language)
      \<longrightarrow> all_series_seasons T lenv seriesId language = []"
    using cacheGet_misses [of lenv "seasons_key T seriesId language" "map reparse_season"]
    by (auto simp add: all_series_seasons_def or_empty_def)
  have f: "\<not> down menv \<and> (cells menv key = Absent \<or> cells menv key = Garbled)
      \<longrightarrow> cacheGet decode menv key = Inr None"
    by (auto simp add: cacheGet_def)
  from a b c d e f show ?thesis by (intro conjI)
qed

theorem C9_reads_miss_without_error_witness:
  "first_movies_by_id String_int \<lparr> down = True, cells = (\<lambda>k. Absent) \<rparr> 27205 ''en'' = None
   \<and> first_movies_by_channel \<lparr> down = False, cells = (\<lambda>k. Garbled) \<rparr> ''ch1'' ''en'' = None
   \<and> first_series_by_id String_int \<lparr> down = False, cells = (\<lambda>k. Absent) \<rparr> 27205 ''en'' = None
   \<and> first_series_episode decimal_ids String_int \<lparr> down = False, cells = (\<lambda>k. Garbled) \<rparr> 1399 ''en'' 1 (JFinite 2) = None
   \<and> all_series_episodes String_int \<lparr> down = False, cells = (\<lambda>k. Garbled) \<rparr> 1399 ''en'' 1 = []
   \<and> all_episode_guest_stars String_int \<lparr> down = False, cells = (\<lambda>k. Garbled) \<rparr> 1399 ''en'' 1 = []
   \<and> all_series_seasons String_int \<lparr> down = True, cells = (\<lambda>k. Absent) \<rparr> 1399 ''en'' = []
   \<and> cacheGet reparse_movie_row \<lparr> down = False, cells = (\<lambda>k. Garbled) \<rparr> ''/movies/channel/ch1?lang=en'' = Inr None"
proof -
  note c9a = C9_reads_miss_without_error [of "\<lparr> down = True, cells = (\<lambda>k. Absent) \<rparr>" "''ch1''" "''en''"
      String_int 27205 "\<lparr> down = False, cells = (\<lambda>k. Absent) \<rparr>" "\<lparr> down = False, cells = (\<lambda>k. Garbled) \<rparr>"
      1399 1 decimal_ids "JFinite 2" "\<lparr> down = True, cells = (\<lambda>k. Absent) \<rparr>" "''k''" reparse_movie_row]
  note c9b = C9_reads_miss_without_error [of "\<lparr> down = False, cells = (\<lambda>k. Garbled) \<rparr>" "''ch1''" "''en''"
      String_int 27205 "\<lparr> down = False, cells = (\<lambda>k. Absent) \<rparr>" "\<lparr> down = False, cells = (\<lambda>k. Garbled) \<rparr>"
      1399 1 decimal_ids "JFinite 2" "\<lparr> down = True, cells = (\<lambda>k. Absent) \<rparr>"
      "''/movies/channel/ch1?lang=en''" reparse_movie_row]
  have a: "first_movies_by_id String_int \<lparr> down = True, cells = (\<lambda>k. Absent) \<rparr> 27205 ''en'' = None"
    using c9a [THEN conjunct2, THEN conjunct1] by (simp add: misses_def)
  have b: "first_movies_by_channel \<lparr> down = False, cells = (\<lambda>k. Garbled) \<rparr> ''ch1'' ''en'' = None"
    using c9b [THEN conjunct1] by (simp add: misses_def)
  have c: "first_series_by_id String_int \<lparr> down = False, cells = (\<lambda>k. Absent) \<rparr> 27205 ''en'' = None"
    using c9b [THEN conjunct2, THEN conjunct2, THEN conjunct1] by (simp add: misses_def)
  have d: "first_series_episode decimal_ids String_int \<lparr> down = False, cells = (\<lambda>k. Garbled) \<rparr> 1399 ''en'' 1 (JFinite 2) = None
      \<and> all_series_episodes String_int \<lparr> down = False, cells = (\<lambda>k. Garbled) \<rparr> 1399 ''en'' 1 = []
      \<and> all_episode_guest_stars String_int \<lparr> down = False, cells = (\<lambda>k. Garbled) \<rparr> 1399 ''en'' 1 = []"
    using c9b [THEN conjunct2, THEN conjunct2, THEN conjunct2, THEN conjunct1] by (simp add: misses_def)
  have e: "all_series_seasons String_int \<lparr> down = True, cells = (\<lambda>k. Absent) \<rparr> 1399 ''en'' = []"
    using c9b [THEN conjunct2, THEN conjunct2, THEN conjunct2, THEN conjunct2, THEN conjunct1]
    by (simp add: misses_def)
  have f: "cacheGet reparse_movie_row \<lparr> down = False, cells = (\<lambda>k. Garbled) \<rparr>
      ''/movies/channel/ch1?lang=en'' = Inr None"
    using c9b [THEN conjunct2, THEN conjunct2, THEN conjunct2, THEN conjunct2, THEN conjunct2]
    by simp
  from a b c d e f show ?thesis by (intro conjI) simp_all
qed

end
